theory Spec2Isabelle
  imports Complex_Main
begin

section \<open>JavaScript values used by the client\<close>

text \<open>
  The client is a browser script. Values that the script tests with \<open>===\<close> or for
  truthiness are kept as small datatypes, so that "exactly true" and "present" mean
  what they mean in the script.
\<close>

datatype jsval = JUndefined | JNull | JBool bool | JNum int | JStr string

text \<open>A string-or-null value is truthy when it is a non-empty string.\<close>

definition truthy :: "string option \<Rightarrow> bool" where
  "truthy v = (case v of None \<Rightarrow> False | Some s \<Rightarrow> s \<noteq> [])"

section \<open>EntitlementGate: \<open>isAllowedUser\<close>\<close>

record pg_error =
  code :: string
  message :: string

text \<open>
  What an awaited datastore query gives back: an object with \<open>data\<close> and \<open>error\<close>,
  or a rejected promise (an exception at the \<open>await\<close>).
\<close>

datatype 'a response = Resolved "'a option" "pg_error option" | Rejected





section \<open>DeviceIdentity: \<open>getDeviceId\<close>\<close>

datatype js_error = SecurityError | QuotaExceededError | TypeError

text \<open>
  \<open>localStorage\<close>: the stored items, whether a read raises (access to the storage is
  denied) and whether a write raises (quota exhausted or storage disabled). Neither
  \<open>getItem\<close> nor \<open>setItem\<close> is inside a \<open>try\<close> block of \<open>getDeviceId\<close>.
\<close>

record storage =
  items :: "string \<rightharpoonup> string"
  read_fails :: bool
  write_fails :: bool

text \<open>
  What the browser hands to one call: \<open>crypto.randomUUID()\<close> (\<open>None\<close> when it raises),
  \<open>Date.now().toString(36)\<close> and \<open>Math.random().toString(36)\<close>.
\<close>

record rng =
  randomUUID :: "string option"
  now36 :: string
  random36 :: string

definition getItem :: "storage \<Rightarrow> string \<Rightarrow> js_error + string option" where
  "getItem st k = (if read_fails st then Inl SecurityError else Inr (items st k))"

definition setItem :: "storage \<Rightarrow> string \<Rightarrow> string \<Rightarrow> js_error + storage" where
  "setItem st k v =
     (if write_fails st then Inl QuotaExceededError
      else Inr (st\<lparr>items := (items st)(k \<mapsto> v)\<rparr>))"

definition getDeviceId :: "rng \<Rightarrow> storage \<Rightarrow> js_error + (string \<times> storage)" where
  "getDeviceId g st =
     (let KEY = ''nf_device_id'' in
      case getItem st KEY of
        Inl e \<Rightarrow> Inl e
      | Inr d \<Rightarrow>
          if \<not> truthy d then
            (let d' = (case randomUUID g of
                         Some u \<Rightarrow> u
                       | None \<Rightarrow> now36 g @ drop 2 (random36 g))
             in case setItem st KEY d' of
                  Inl e \<Rightarrow> Inl e
                | Inr st' \<Rightarrow> Inr (d', st'))
          else Inr (the d, st))"

section \<open>SessionGuard\<close>

text \<open>
  A row of \<open>active_sessions\<close> as the script reads it: every column may be null, and
  the empty object that a realtime delete event carries as its new row has none.
\<close>

record active_session =
  user_id :: "string option"
  device_id :: "string option"
  is_active :: "bool option"
  session_flag :: "string option"
  last_heartbeat :: "string option"

record user =
  uid :: string
  uemail :: string

text \<open>
  The texts shown by \<open>showNotification\<close>:
  \<^item> \<open>AlreadyActiveElsewhere\<close>: "Account already active on another device. Please sign out there first."
  \<^item> \<open>SessionEnded\<close>: "Your session was ended (deleted) - you have been signed out."
  \<^item> \<open>DisabledByAdmin\<close>: "Your session was disabled by admin - you have been signed out."
  \<^item> \<open>UsedOnAnotherDevice\<close>: "Your account was used on another device - signed out here."
  \<^item> \<open>PleaseLogIn\<close>: "Please log in to stream content"
  \<^item> \<open>PremiumRequired\<close>: "Premium access required to watch content. Please subscribe to continue."
  \<^item> \<open>Retrying name k m\<close>: "Retrying name... (k/m)"
  \<^item> \<open>Trying name\<close>: "Trying name..."
  \<^item> \<open>AllSourcesFailed\<close>: "All sources failed. Please try again later."
\<close>

datatype notice =
    AlreadyActiveElsewhere | SessionEnded | DisabledByAdmin | UsedOnAnotherDevice
  | PleaseLogIn | PremiumRequired | Retrying string nat nat | Trying string | AllSourcesFailed

datatype level = Success | Error | Warning

text \<open>Calls that leave the script, in the order they are made.\<close>

datatype effect =
    Notify notice level
  | ConsoleError string
  | ConsoleWarn string
  | AuthSignOut
  | ShowUnauthenticatedUI

datatype select_outcome = SelectOk | SelectError pg_error | SelectRejected

datatype write_outcome = WriteOk | WriteError pg_error | WriteRejected

text \<open>
  How the services answer during one call: the \<open>active_sessions\<close> select and upsert,
  \<open>supabase.auth.signOut()\<close> (false when it raises), and \<open>new Date().toISOString()\<close>.
\<close>

record net =
  select_result :: select_outcome
  upsert_result :: write_outcome
  signOut_ok :: bool
  now_iso :: string

record guard =
  local_storage :: storage
  active_sessions :: "string \<rightharpoonup> active_session"
  signed_in :: bool
  heartbeatIntervalId :: "(string \<times> string) option"
  sessionChannel :: "(string \<times> string) option"
  unauthenticated_ui :: bool
  effects :: "effect list"

definition emit :: "effect \<Rightarrow> guard \<Rightarrow> guard" where
  "emit e w = w\<lparr>effects := effects w @ [e]\<rparr>"

definition stopHeartbeat :: "guard \<Rightarrow> guard" where
  "stopHeartbeat w = w\<lparr>heartbeatIntervalId := None\<rparr>"

definition startHeartbeat :: "string \<Rightarrow> string \<Rightarrow> guard \<Rightarrow> guard" where
  "startHeartbeat userId deviceId w = (stopHeartbeat w)\<lparr>heartbeatIntervalId := Some (userId, deviceId)\<rparr>"

definition startSessionRealtimeSubscription :: "string \<Rightarrow> string \<Rightarrow> guard \<Rightarrow> guard" where
  "startSessionRealtimeSubscription userId deviceId w = w\<lparr>sessionChannel := Some (userId, deviceId)\<rparr>"

definition stopSessionRealtimeSubscription :: "guard \<Rightarrow> guard" where
  "stopSessionRealtimeSubscription w = w\<lparr>sessionChannel := None\<rparr>"

text \<open>
  The upsert of \<open>registerSessionForUser\<close> writes all five columns of the row keyed by the
  user id; an upsert that returns an error or is rejected writes nothing.
\<close>

definition upsert_session :: "write_outcome \<Rightarrow> string \<Rightarrow> active_session \<Rightarrow> guard \<Rightarrow> guard" where
  "upsert_session out k row w =
     (case out of
        WriteOk \<Rightarrow> w\<lparr>active_sessions := (active_sessions w)(k \<mapsto> row)\<rparr>
      | _ \<Rightarrow> w)"

definition registerSessionForUser :: "rng \<Rightarrow> net \<Rightarrow> user \<Rightarrow> guard \<Rightarrow> js_error + (bool \<times> guard)" where
  "registerSessionForUser g n u w =
     (case getDeviceId g (local_storage w) of
        Inl e \<Rightarrow> Inl e
      | Inr (deviceId, st) \<Rightarrow>
          (let w0 = w\<lparr>local_storage := st\<rparr> in
           case select_result n of
             SelectRejected \<Rightarrow> Inr (False, emit (ConsoleError ''registerSessionForUser error'') w0)
           | sel \<Rightarrow>
               (let existing = (case sel of SelectOk \<Rightarrow> active_sessions w0 (uid u) | _ \<Rightarrow> None);
                    w1 = (case sel of
                            SelectError e \<Rightarrow> emit (ConsoleError ''Error checking active_sessions:'') w0
                          | _ \<Rightarrow> w0)
                in if (case existing of
                         None \<Rightarrow> False
                       | Some r \<Rightarrow> is_active r = Some True \<and> truthy (device_id r)
                                   \<and> device_id r \<noteq> Some deviceId)
                   then (if signOut_ok n
                         then Inr (False, emit (Notify AlreadyActiveElsewhere Error)
                                            ((emit AuthSignOut w1)\<lparr>signed_in := False\<rparr>))
                         else Inr (False, emit (ConsoleError ''registerSessionForUser error'')
                                            (emit AuthSignOut w1)))
                   else (case upsert_result n of
                           WriteRejected \<Rightarrow>
                             Inr (False, emit (ConsoleError ''registerSessionForUser error'') w1)
                         | out \<Rightarrow>
                             Inr (True,
                                  startHeartbeat (uid u) deviceId
                                    (startSessionRealtimeSubscription (uid u) deviceId
                                      (upsert_session out (uid u)
                                         \<lparr>user_id = Some (uid u), device_id = Some deviceId,
                                          is_active = Some True, session_flag = Some ''S'',
                                          last_heartbeat = Some (now_iso n)\<rparr> w1)))))))"

text \<open>\<open>String.prototype.toUpperCase\<close> on the ASCII letters; other characters are kept.\<close>

definition upperChar :: "char \<Rightarrow> char" where
  "upperChar c =
     (case map_of (zip ''abcdefghijklmnopqrstuvwxyz'' ''ABCDEFGHIJKLMNOPQRSTUVWXYZ'') c of
        Some u \<Rightarrow> u
      | None \<Rightarrow> c)"

definition toUpperCase :: "string \<Rightarrow> string" where
  "toUpperCase s = map upperChar s"

record payload =
  eventType :: "string option"
  event :: "string option"
  new_row :: "active_session option"
  old_row :: "active_session option"

definition forceLocalSignOut :: "bool \<Rightarrow> notice \<Rightarrow> guard \<Rightarrow> guard" where
  "forceLocalSignOut signOut_succeeds msg w =
     (let w1 = stopSessionRealtimeSubscription (stopHeartbeat w);
          w2 = (if signOut_succeeds then (emit AuthSignOut w1)\<lparr>signed_in := False\<rparr>
                else emit (ConsoleWarn ''force signout supabase.auth.signOut failed'') (emit AuthSignOut w1));
          w3 = emit (Notify msg Warning) w2
      in (emit ShowUnauthenticatedUI w3)\<lparr>unauthenticated_ui := True\<rparr>)"

definition payloadEventType :: "payload \<Rightarrow> string option" where
  "payloadEventType p = (if truthy (eventType p) then eventType p else event p)"

definition relevantRow :: "payload \<Rightarrow> active_session option" where
  "relevantRow p = (case new_row p of Some r \<Rightarrow> Some r | None \<Rightarrow> old_row p)"

definition handleSessionChange :: "bool \<Rightarrow> payload \<Rightarrow> string \<Rightarrow> guard \<Rightarrow> guard" where
  "handleSessionChange signOut_succeeds p myDeviceId w =
     (case relevantRow p of
        None \<Rightarrow> w
      | Some r \<Rightarrow>
          if payloadEventType p = Some ''DELETE'' then
            (case old_row p of
               None \<Rightarrow> emit (ConsoleError ''handleSessionChange error'') w
             | Some prior \<Rightarrow>
                 if device_id prior = Some myDeviceId
                 then forceLocalSignOut signOut_succeeds SessionEnded w
                 else w)
          else if is_active r = Some False \<or>
                  (truthy (session_flag r) \<and> toUpperCase (the (session_flag r)) = ''N'')
          then forceLocalSignOut signOut_succeeds DisabledByAdmin w
          else if truthy (device_id r) \<and> device_id r \<noteq> Some myDeviceId
          then forceLocalSignOut signOut_succeeds UsedOnAnotherDevice w
          else w)"

definition signOuts :: "guard \<Rightarrow> nat" where
  "signOuts w = count_list (effects w) AuthSignOut"

section \<open>Numbers\<close>

text \<open>
  The script's numbers are IEEE 754 binary64 values: a finite one is the rational it
  denotes, and every arithmetic operation returns the exact result rounded to the
  nearest binary64 value, ties to the even significand. The sign of a zero is not kept
  (a zero divisor is taken as \<open>+0\<close>): the script divides only under a \<open>> 0\<close> guard on
  the divisor, and a zero of either sign compares, multiplies and floors alike.
\<close>

datatype number = Finite rat | Infinity | NegInfinity | NaN

definition roundHalfEven :: "rat \<Rightarrow> int" where
  "roundHalfEven x =
     (let f = \<lfloor>x\<rfloor>; d = x - of_int f
      in if d < 1 / 2 then f else if 1 / 2 < d then f + 1 else if even f then f else f + 1)"

fun bit_length :: "nat \<Rightarrow> nat" where
  "bit_length n = (if n = 0 then 0 else Suc (bit_length (n div 2)))"

declare bit_length.simps [simp del]

text \<open>
  The exponent \<open>e\<close> of a positive rational: \<open>2\<^sup>e \<le> r < 2\<^sup>e\<^sup>+\<^sup>1\<close>, and \<open>-1022\<close> for everything
  below \<open>2\<^sup>-\<^sup>1\<^sup>0\<^sup>2\<^sup>2\<close> (the subnormal range). The significand has 53 bits, so neighbouring
  values of exponent \<open>e\<close> are \<open>2\<^sup>e\<^sup>-\<^sup>5\<^sup>2\<close> apart; a result of \<open>2\<^sup>1\<^sup>0\<^sup>2\<^sup>4\<close> or more is infinite.
\<close>

definition binade :: "rat \<Rightarrow> int" where
  "binade r = max (- 1022) (int (bit_length (nat \<lfloor>r * 2 ^ 1074\<rfloor>)) - 1075)"

definition round_pos :: "rat \<Rightarrow> number" where
  "round_pos r =
     (let u = 2 powi (binade r - 52);
          v = of_int (roundHalfEven (r / u)) * u
      in if 2 ^ 1024 \<le> v then Infinity else Finite v)"

definition negate :: "number \<Rightarrow> number" where
  "negate x = (case x of Finite r \<Rightarrow> Finite (- r) | Infinity \<Rightarrow> NegInfinity
               | NegInfinity \<Rightarrow> Infinity | NaN \<Rightarrow> NaN)"

definition round64 :: "rat \<Rightarrow> number" where
  "round64 r = (if r = 0 then Finite 0 else if 0 < r then round_pos r
                else negate (round_pos (- r)))"

text \<open>\<open>x / y\<close>, \<open>x * y\<close>, \<open>x < y\<close>, \<open>x > y\<close> and \<open>Math.floor\<close>.\<close>

definition js_div :: "number \<Rightarrow> number \<Rightarrow> number" where
  "js_div a b =
     (case (a, b) of
        (Finite x, Finite y) \<Rightarrow>
          if y = 0 then (if x = 0 then NaN else if 0 < x then Infinity else NegInfinity)
          else round64 (x / y)
      | (Finite x, Infinity) \<Rightarrow> Finite 0
      | (Finite x, NegInfinity) \<Rightarrow> Finite 0
      | (Infinity, Finite y) \<Rightarrow> if 0 \<le> y then Infinity else NegInfinity
      | (NegInfinity, Finite y) \<Rightarrow> if 0 \<le> y then NegInfinity else Infinity
      | _ \<Rightarrow> NaN)"

definition js_mul :: "number \<Rightarrow> number \<Rightarrow> number" where
  "js_mul a b =
     (case (a, b) of
        (Finite x, Finite y) \<Rightarrow> round64 (x * y)
      | (Finite x, Infinity) \<Rightarrow>
          if x = 0 then NaN else if 0 < x then Infinity else NegInfinity
      | (Finite x, NegInfinity) \<Rightarrow>
          if x = 0 then NaN else if 0 < x then NegInfinity else Infinity
      | (Infinity, Finite y) \<Rightarrow>
          if y = 0 then NaN else if 0 < y then Infinity else NegInfinity
      | (NegInfinity, Finite y) \<Rightarrow>
          if y = 0 then NaN else if 0 < y then NegInfinity else Infinity
      | (Infinity, Infinity) \<Rightarrow> Infinity
      | (NegInfinity, NegInfinity) \<Rightarrow> Infinity
      | (Infinity, NegInfinity) \<Rightarrow> NegInfinity
      | (NegInfinity, Infinity) \<Rightarrow> NegInfinity
      | _ \<Rightarrow> NaN)"

definition js_lt :: "number \<Rightarrow> number \<Rightarrow> bool" where
  "js_lt a b =
     (case (a, b) of
        (Finite x, Finite y) \<Rightarrow> x < y
      | (Finite x, Infinity) \<Rightarrow> True
      | (NegInfinity, Finite y) \<Rightarrow> True
      | (NegInfinity, Infinity) \<Rightarrow> True
      | _ \<Rightarrow> False)"

definition js_gt :: "number \<Rightarrow> number \<Rightarrow> bool" where
  "js_gt a b = js_lt b a"

definition js_floor :: "number \<Rightarrow> number" where
  "js_floor a = (case a of Finite x \<Rightarrow> Finite (of_int \<lfloor>x\<rfloor>) | _ \<Rightarrow> a)"

text \<open>
  A number as the value of an integer column in the JSON body of a request: the
  integer itself, and \<open>null\<close> for \<open>NaN\<close> and the infinities.
\<close>

definition column :: "number \<Rightarrow> int option" where
  "column a = (case a of Finite x \<Rightarrow> Some \<lfloor>x\<rfloor> | _ \<Rightarrow> None)"

section \<open>Application state of the player and of the progress tracker\<close>

text \<open>
  Numbers of the script are modelled as exact rationals: times in seconds, percentages
  and ratios are computed without rounding. Every division of the script is written
  under the guard the script puts in front of it.
\<close>

record media_item =
  item_id :: nat
  media_type :: string
  title :: "string option"
  item_name :: "string option"
  poster_path :: "string option"
  resumeSeason :: "nat option"
  resumeEpisode :: "nat option"

text \<open>A row of \<open>continue_watching\<close>; the numeric columns may be null when read back.\<close>

record cw_row =
  cw_user_id :: string
  cw_media_id :: nat
  cw_media_type :: string
  cw_title :: "string option"
  cw_poster_path :: "string option"
  watch_progress :: "int option"
  total_duration :: "int option"
  last_watched_at :: string
  completed :: bool
  season :: "nat option"
  episode :: "nat option"

text \<open>An element of the in-memory list \<open>continueWatching\<close>.\<close>

record cw_entry =
  entry_id :: nat
  entry_media_type :: string
  entry_title :: "string option"
  entry_watch_progress :: "int option"
  entry_total_duration :: "int option"
  progress_percentage :: number
  entry_season :: nat
  entry_episode :: nat

record source =
  src_name :: string
  src_url :: string

text \<open>
  What a pending timer will run: the ten-second load detector of \<open>loadSource(index)\<close>,
  a retry of \<open>attemptLoad\<close> in the closure of one \<open>loadSource\<close> call, the
  \<open>loadSource(nextIndex)\<close> scheduled by \<open>handleSourceFailure\<close>, the delayed addition of
  a CSS class to a modal, and the periodic \<open>trackPlayerProgress\<close>.
\<close>

datatype timer_cb =
    LoadTimeout nat
  | AttemptLoad nat
  | LoadSource nat
  | AddClass string string
  | TrackPlayerProgress

record timer =
  tid :: nat
  delay :: nat
  callback :: timer_cb
  repeating :: bool

text \<open>The variables captured by one call of \<open>loadSource\<close>.\<close>

record load_closure =
  lc_index :: nat
  lc_source :: source
  retryCount :: nat

text \<open>
  What the browser and the datastore give during one callback: \<open>Date.now()\<close> in decimal,
  the current time in milliseconds and as ISO string, \<open>iframe.contentWindow?.length\<close>,
  and the outcome of a \<open>continue_watching\<close> upsert.
\<close>

record browser =
  stamp :: string
  now_ms :: int
  iso_now :: string
  content_frames :: "nat option"
  cw_upsert :: write_outcome

text \<open>
  The script's global variables, the parts of the page and of the frame it reads and
  writes, the pending timers, the \<open>continue_watching\<close> table, and what it reports.
  \<open>failed_sources\<close> is a history variable: the arguments of the calls of
  \<open>handleSourceFailure\<close>, in order.
\<close>

record app =
  currentUser :: "user option"
  isUserApproved :: bool
  currentMediaType :: "string option"
  currentMediaId :: "nat option"
  currentMediaTitle :: "string option"
  currentMediaData :: "media_item option"
  embedSources :: "source list"
  currentSeason :: nat
  currentEpisode :: nat
  continueWatching :: "cw_entry list"
  watchStartTime :: "int option"
  playerInterval :: "nat option"
  dom :: "string set"
  iframe_src :: string
  iframe_onerror :: "nat option"
  iframe_onload :: bool
  load_listeners :: "nat list"
  closures :: "load_closure list"
  timers :: "timer list"
  next_timer :: nat
  video_loading :: bool
  source_buttons :: "string list"
  modal_classes :: "(string \<times> string) set"
  continue_watching :: "(string \<times> nat) \<rightharpoonup> cw_row"
  notices :: "(notice \<times> level) list"
  console :: "string list"
  uncaught :: "js_error list"
  failed_sources :: "nat list"

section \<open>Browser primitives\<close>

definition showNotification :: "notice \<Rightarrow> level \<Rightarrow> app \<Rightarrow> app" where
  "showNotification msg lvl a = a\<lparr>notices := notices a @ [(msg, lvl)]\<rparr>"

definition setTimeout :: "timer_cb \<Rightarrow> nat \<Rightarrow> app \<Rightarrow> nat \<times> app" where
  "setTimeout cb ms a =
     (next_timer a,
      a\<lparr>timers := timers a @ [\<lparr>tid = next_timer a, delay = ms, callback = cb, repeating = False\<rparr>],
        next_timer := next_timer a + 1\<rparr>)"

definition setInterval :: "timer_cb \<Rightarrow> nat \<Rightarrow> app \<Rightarrow> nat \<times> app" where
  "setInterval cb ms a =
     (next_timer a,
      a\<lparr>timers := timers a @ [\<lparr>tid = next_timer a, delay = ms, callback = cb, repeating = True\<rparr>],
        next_timer := next_timer a + 1\<rparr>)"

definition clearTimeout :: "nat \<Rightarrow> app \<Rightarrow> app" where
  "clearTimeout i a = a\<lparr>timers := filter (\<lambda>t. tid t \<noteq> i) (timers a)\<rparr>"

text \<open>\<open>String.prototype.includes\<close>.\<close>

definition str_includes :: "string \<Rightarrow> string \<Rightarrow> bool" where
  "str_includes s sub = list_ex (\<lambda>i. take (length sub) (drop i s) = sub) [0..<Suc (length s)]"

text \<open>A number inside a template string: its decimal digits.\<close>

definition digit_char :: "nat \<Rightarrow> char" where
  "digit_char d = ''0123456789'' ! d"

function show_nat :: "nat \<Rightarrow> string" where
  "show_nat n = (if n < 10 then [digit_char n] else show_nat (n div 10) @ [digit_char (n mod 10)])"
  by pat_completeness auto
termination
  by (relation "measure id") auto

declare show_nat.simps [simp del]

definition showVideoLoadingState :: "app \<Rightarrow> app" where
  "showVideoLoadingState a =
     (if ''.player-video-section'' \<in> dom a \<and> \<not> video_loading a
      then a\<lparr>video_loading := True\<rparr> else a)"

definition hideVideoLoadingState :: "app \<Rightarrow> app" where
  "hideVideoLoadingState a = (if video_loading a then a\<lparr>video_loading := False\<rparr> else a)"

definition openPaymentModal :: "app \<Rightarrow> app" where
  "openPaymentModal a =
     (if ''payment-modal'' \<in> dom a
      then snd (setTimeout (AddClass ''payment-modal'' ''show'') 50
                  (a\<lparr>modal_classes := insert (''payment-modal'', ''active'') (modal_classes a)\<rparr>))
      else a)"

section \<open>WatchProgressTracker\<close>

text \<open>
  \<open>a || b\<close> on strings-or-null and on numbers-or-null with a numeric default.
\<close>

definition or_string :: "string option \<Rightarrow> string option \<Rightarrow> string option" where
  "or_string x y = (if truthy x then x else y)"

definition or_number :: "nat option \<Rightarrow> nat \<Rightarrow> nat" where
  "or_number x d = (case x of None \<Rightarrow> d | Some n \<Rightarrow> if n = 0 then d else n)"

text \<open>
  A numeric column of a row the datastore returned, in arithmetic and comparisons: null
  counts as zero, and an integer is the binary64 value nearest to it.
\<close>

definition num :: "int option \<Rightarrow> rat" where
  "num x = (case x of None \<Rightarrow> 0 | Some k \<Rightarrow> of_int k)"

definition as_number :: "int option \<Rightarrow> number" where
  "as_number x = round64 (num x)"

definition progressPercent :: "number \<Rightarrow> number \<Rightarrow> number" where
  "progressPercent currentTime duration =
     (if js_gt duration (Finite 0) then js_mul (js_div currentTime duration) (Finite 100)
      else Finite 0)"

definition updateWatchProgress ::
  "browser \<Rightarrow> media_item option \<Rightarrow> number \<Rightarrow> number \<Rightarrow> app \<Rightarrow> app" where
  "updateWatchProgress b mediaItem currentTime duration a =
     (case (currentUser a, mediaItem) of
        (Some u, Some m) \<Rightarrow>
          if js_lt currentTime (Finite 60) then a
          else
            (let isCompleted = js_gt (progressPercent currentTime duration) (Finite 90);
                 row = \<lparr>cw_user_id = uid u,
                        cw_media_id = item_id m,
                        cw_media_type = media_type m,
                        cw_title = or_string (title m) (item_name m),
                        cw_poster_path = poster_path m,
                        watch_progress = column (js_floor currentTime),
                        total_duration = column (js_floor duration),
                        last_watched_at = iso_now b,
                        completed = isCompleted,
                        season = (if media_type m = ''tv'' then Some (currentSeason a) else None),
                        episode = (if media_type m = ''tv'' then Some (currentEpisode a) else None)\<rparr>
             in case cw_upsert b of
                  WriteOk \<Rightarrow>
                    a\<lparr>continue_watching := (continue_watching a)((uid u, item_id m) \<mapsto> row)\<rparr>
                | _ \<Rightarrow> a\<lparr>console := console a @ [''Error updating watch progress:'']\<rparr>)
      | _ \<Rightarrow> a)"

definition cw_entry_of :: "cw_row \<Rightarrow> cw_entry" where
  "cw_entry_of item =
     \<lparr>entry_id = cw_media_id item,
      entry_media_type = cw_media_type item,
      entry_title = cw_title item,
      entry_watch_progress = watch_progress item,
      entry_total_duration = total_duration item,
      progress_percentage =
        (if js_gt (as_number (total_duration item)) (Finite 0)
         then js_mul (js_div (as_number (watch_progress item)) (as_number (total_duration item)))
                (Finite 100)
         else Finite 0),
      entry_season = or_number (season item) 1,
      entry_episode = or_number (episode item) 1\<rparr>"

text \<open>
  \<open>resp\<close> is the datastore's answer to the query for the current user's rows that are not
  completed and have at least 60 seconds of progress, newest first, at most twelve.
\<close>

definition loadContinueWatching :: "cw_row list response \<Rightarrow> app \<Rightarrow> app" where
  "loadContinueWatching resp a =
     (if currentUser a = None then a
      else
        (let failed = a\<lparr>console := console a @ [''Error loading continue watching:''],
                        continueWatching := []\<rparr>
         in case resp of
              Rejected \<Rightarrow> failed
            | Resolved dat err \<Rightarrow>
                (case err of
                   Some e \<Rightarrow>
                     if code e = ''42P01'' \<or> str_includes (message e) ''does not exist''
                     then a\<lparr>console := console a @ [''Continue watching table does not exist yet''],
                            continueWatching := []\<rparr>
                     else failed
                 | None \<Rightarrow>
                     (case dat of
                        None \<Rightarrow> failed
                      | Some rows \<Rightarrow> a\<lparr>continueWatching := map cw_entry_of rows\<rparr>))))"

definition trackPlayerProgress :: "browser \<Rightarrow> app \<Rightarrow> app" where
  "trackPlayerProgress b a =
     (if currentUser a = None \<or> currentMediaData a = None then a
      else if ''video-frame'' \<notin> dom a \<or> iframe_src a = [] then a
      else
        (let currentTime = (case watchStartTime a of
                              Some t \<Rightarrow> js_div (round64 (of_int (now_ms b - t))) (Finite 1000)
                            | None \<Rightarrow> Finite 0);
             estimatedDuration = Finite (if currentMediaType a = Some ''movie'' then 7200 else 2700)
         in if js_gt currentTime (Finite 60)
            then updateWatchProgress b (currentMediaData a) currentTime estimatedDuration a
            else a))"

section \<open>EmbedPlayer\<close>

definition buildEmbedSources :: "app \<Rightarrow> app" where
  "buildEmbedSources a =
     (let i = (case currentMediaId a of Some n \<Rightarrow> show_nat n | None \<Rightarrow> ''null'');
          se = show_nat (currentSeason a) @ ''/'' @ show_nat (currentEpisode a)
      in if currentMediaType a = Some ''movie'' then
           a\<lparr>embedSources :=
               [\<lparr>src_name = ''Source 1'', src_url = ''https://111movies.com/movie/'' @ i\<rparr>,
                \<lparr>src_name = ''Source 2'', src_url = ''https://player.videasy.net/movie/'' @ i\<rparr>,
                \<lparr>src_name = ''Source 3'', src_url = ''https://vidsrc.xyz/embed/movie/'' @ i\<rparr>,
                \<lparr>src_name = ''Source 4'', src_url = ''https://vidsrc.me/embed/movie/'' @ i\<rparr>]\<rparr>
         else if currentMediaType a = Some ''tv'' then
           a\<lparr>embedSources :=
               [\<lparr>src_name = ''Source 1'', src_url = ''https://111movies.com/tv/'' @ i @ ''/'' @ se\<rparr>,
                \<lparr>src_name = ''Source 2'', src_url = ''https://player.videasy.net/tv/'' @ i @ ''/'' @ se\<rparr>,
                \<lparr>src_name = ''Source 3'', src_url = ''https://vidsrc.xyz/embed/tv/'' @ i @ ''/'' @ se\<rparr>,
                \<lparr>src_name = ''Source 4'', src_url = ''https://vidsrc.me/embed/tv/'' @ i @ ''/'' @ se\<rparr>]\<rparr>
         else a)"

definition populateSourceButtons :: "app \<Rightarrow> app" where
  "populateSourceButtons a =
     (if ''source-buttons'' \<notin> dom a then a
      else a\<lparr>source_buttons := map src_name (embedSources a)\<rparr>)"

definition maxRetries :: nat where
  "maxRetries = 2"

text \<open>
  \<open>handleSourceFailure\<close>. With an empty source list the remainder is \<open>NaN\<close>, the
  comparison holds and reading \<open>.name\<close> of the missing element raises inside the
  callback.
\<close>

definition handleSourceFailure :: "nat \<Rightarrow> app \<Rightarrow> app" where
  "handleSourceFailure currentIndex a =
     (let a1 = (hideVideoLoadingState a)\<lparr>failed_sources := failed_sources a @ [currentIndex]\<rparr> in
      if embedSources a1 = [] then a1\<lparr>uncaught := uncaught a1 @ [TypeError]\<rparr>
      else
        (let nextIndex = (currentIndex + 1) mod length (embedSources a1) in
         if nextIndex \<noteq> currentIndex then
           snd (setTimeout (LoadSource nextIndex) 1000
                  (showNotification (Trying (src_name (embedSources a1 ! nextIndex))) Warning a1))
         else showNotification AllSourcesFailed Error a1))"

text \<open>
  \<open>attemptLoad\<close> of the closure \<open>cid\<close>: it installs the closure's handlers on the frame
  and points the frame at the source with a cache-busting query parameter.
\<close>

definition attemptLoad :: "browser \<Rightarrow> nat \<Rightarrow> app \<Rightarrow> app" where
  "attemptLoad b cid a =
     (if cid < length (closures a) then
        (let s = lc_source (closures a ! cid) in
         a\<lparr>iframe_onerror := Some cid,
           iframe_onload := True,
           iframe_src := src_url s @ (if str_includes (src_url s) ''?'' then ''&'' else ''?'')
                           @ ''t='' @ stamp b\<rparr>)
      else a)"

definition loadSource :: "browser \<Rightarrow> nat \<Rightarrow> app \<Rightarrow> app" where
  "loadSource b index a =
     (if index \<ge> length (embedSources a) then a
      else if ''video-frame'' \<notin> dom a then a
      else
        (let a1 = showVideoLoadingState a;
             cid = length (closures a1);
             a2 = a1\<lparr>closures := closures a1 @
                     [\<lparr>lc_index = index, lc_source = embedSources a ! index, retryCount = 0\<rparr>]\<rparr>;
             (loadTimeout, a3) = setTimeout (LoadTimeout index) 10000 a2;
             a4 = a3\<lparr>load_listeners := load_listeners a3 @ [loadTimeout]\<rparr>
         in attemptLoad b cid a4))"

text \<open>The frame's \<open>error\<close> signal runs the handler installed by the last \<open>attemptLoad\<close>.\<close>

definition onIframeError :: "app \<Rightarrow> app" where
  "onIframeError a =
     (case iframe_onerror a of
        None \<Rightarrow> a
      | Some cid \<Rightarrow>
          (let c = closures a ! cid;
               rc = retryCount c + 1;
               a1 = a\<lparr>closures := (closures a)[cid := c\<lparr>retryCount := rc\<rparr>]\<rparr>
           in if rc \<le> maxRetries then
                snd (setTimeout (AttemptLoad cid) (1000 * rc)
                       (showNotification (Retrying (src_name (lc_source c)) rc maxRetries) Warning a1))
              else handleSourceFailure (lc_index c) a1))"

text \<open>
  The frame's \<open>load\<close> signal runs \<open>onload\<close> and every pending once-only listener, each of
  which clears the load timer of its \<open>loadSource\<close> call.
\<close>

definition onIframeLoad :: "app \<Rightarrow> app" where
  "onIframeLoad a =
     (let a1 = (if iframe_onload a then hideVideoLoadingState a else a)
      in a1\<lparr>timers := filter (\<lambda>t. tid t \<notin> set (load_listeners a1)) (timers a1),
            load_listeners := []\<rparr>)"

definition runCallback :: "browser \<Rightarrow> timer_cb \<Rightarrow> app \<Rightarrow> app" where
  "runCallback b cb a =
     (case cb of
        LoadTimeout index \<Rightarrow>
          if iframe_src a \<noteq> [] \<and> \<not> (case content_frames b of None \<Rightarrow> False | Some k \<Rightarrow> k \<noteq> 0)
          then handleSourceFailure index a else a
      | AttemptLoad cid \<Rightarrow> attemptLoad b cid a
      | LoadSource i \<Rightarrow> loadSource b i a
      | AddClass el cls \<Rightarrow> a\<lparr>modal_classes := insert (el, cls) (modal_classes a)\<rparr>
      | TrackPlayerProgress \<Rightarrow> trackPlayerProgress b a)"

text \<open>What the browser delivers to the script while the player is open.\<close>

datatype event = TimerFires nat | IframeError | IframeLoad

definition step :: "browser \<Rightarrow> event \<Rightarrow> app \<Rightarrow> app" where
  "step b ev a =
     (case ev of
        IframeError \<Rightarrow> onIframeError a
      | IframeLoad \<Rightarrow> onIframeLoad a
      | TimerFires i \<Rightarrow>
          (case find (\<lambda>t. tid t = i) (timers a) of
             None \<Rightarrow> a
           | Some t \<Rightarrow>
               runCallback b (callback t)
                 (if repeating t then a else clearTimeout i a)))"

fun run :: "app \<Rightarrow> (browser \<times> event) list \<Rightarrow> app" where
  "run a [] = a"
| "run a ((b, ev) # evs) = run (step b ev a) evs"

text \<open>
  \<open>openPlayer\<close>. The texts written into the title, description, rating and year
  elements and the catalog request that fills the season selector do not enter the
  state; a missing title or description element raises.
\<close>

definition openPlayer :: "browser \<Rightarrow> media_item \<Rightarrow> app \<Rightarrow> app" where
  "openPlayer b mediaItem a =
     (if currentUser a = None then showNotification PleaseLogIn Error a
      else if \<not> isUserApproved a then
        openPaymentModal (showNotification PremiumRequired Error a)
      else
        (let a1 = a\<lparr>currentMediaType := Some (media_type mediaItem),
                    currentMediaId := Some (item_id mediaItem),
                    currentMediaTitle := or_string (title mediaItem) (item_name mediaItem),
                    currentMediaData := Some mediaItem\<rparr>
         in if ''player-title'' \<notin> dom a1 \<or> ''player-description'' \<notin> dom a1
            then a1\<lparr>uncaught := uncaught a1 @ [TypeError]\<rparr>
            else
              (let a2 = (if media_type mediaItem = ''tv''
                         then a1\<lparr>currentSeason := or_number (resumeSeason mediaItem) 1,
                                 currentEpisode := or_number (resumeEpisode mediaItem) 1\<rparr>
                         else a1);
                   a3 = loadSource b 0 (populateSourceButtons (buildEmbedSources a2));
                   a4 = a3\<lparr>watchStartTime := Some (now_ms b)\<rparr>;
                   a5 = (case playerInterval a4 of
                           None \<Rightarrow> a4
                         | Some i \<Rightarrow> if i = 0 then a4 else clearTimeout i a4);
                   (i, a6) = setInterval TrackPlayerProgress 30000 a5;
                   a7 = a6\<lparr>playerInterval := Some i\<rparr>
               in if ''player-modal'' \<in> dom a7
                  then snd (setTimeout (AddClass ''player-modal'' ''opened'') 50
                              (a7\<lparr>modal_classes := insert (''player-modal'', ''active'') (modal_classes a7)\<rparr>))
                  else a7)))"

definition reloadTVContent :: "browser \<Rightarrow> app \<Rightarrow> app" where
  "reloadTVContent b a =
     (loadSource b 0 (populateSourceButtons (buildEmbedSources (showVideoLoadingState a))))
       \<lparr>watchStartTime := Some (now_ms b)\<rparr>"

text \<open>The indices of the \<open>loadSource\<close> calls that got past the guards, in order.\<close>

definition loadAttempts :: "app \<Rightarrow> nat list" where
  "loadAttempts a = map lc_index (closures a)"

section \<open>Vocabulary for the failover properties\<close>

text \<open>
  \<open>loading a i t\<close>: source \<open>i\<close> is loading in the frame and the ten-second timer \<open>t\<close> of
  that load is pending, all pending timers having identifiers below the next one.
  \<open>frames_falsy b\<close>: the frame's window reports no nested frames, the test of the load
  timer. \<open>timeout_rounds t nt k\<close>: the callbacks of \<open>k\<close> consecutive failures by timeout,
  starting with load timer \<open>t\<close> when the next timer identifier is \<open>nt\<close>: the load timer
  fires, then the timer that loads the next source.
\<close>

definition loading :: "app \<Rightarrow> nat \<Rightarrow> nat \<Rightarrow> bool" where
  "loading a i t \<longleftrightarrow>
     i < length (embedSources a) \<and> ''video-frame'' \<in> dom a \<and> iframe_src a \<noteq> [] \<and>
     find (\<lambda>x. tid x = t) (timers a)
       = Some \<lparr>tid = t, delay = 10000, callback = LoadTimeout i, repeating = False\<rparr> \<and>
     (\<forall>x \<in> set (timers a). tid x < next_timer a)"

definition frames_falsy :: "browser \<Rightarrow> bool" where
  "frames_falsy b = (case content_frames b of None \<Rightarrow> True | Some k \<Rightarrow> k = 0)"

fun timeout_rounds :: "nat \<Rightarrow> nat \<Rightarrow> nat \<Rightarrow> event list" where
  "timeout_rounds t nt 0 = []"
| "timeout_rounds t nt (Suc k) = TimerFires t # TimerFires nt # timeout_rounds (Suc nt) (nt + 2) k"

text \<open>
  \<open>retrying a cid i k\<close>: the frame's error handler is the one of the \<open>loadSource\<close> call
  \<open>cid\<close>, which loads source \<open>i\<close> and has counted \<open>k\<close> errors so far.
\<close>

definition retrying :: "app \<Rightarrow> nat \<Rightarrow> nat \<Rightarrow> nat \<Rightarrow> bool" where
  "retrying a cid i k \<longleftrightarrow>
     iframe_onerror a = Some cid \<and> cid < length (closures a) \<and>
     lc_index (closures a ! cid) = i \<and> retryCount (closures a ! cid) = k"

text \<open>
  \<open>cacheBusted s b\<close>: the address \<open>attemptLoad\<close> assigns to the frame for source \<open>s\<close> when
  \<open>Date.now()\<close> reads \<open>stamp b\<close>.
\<close>

definition cacheBusted :: "source \<Rightarrow> browser \<Rightarrow> string" where
  "cacheBusted s b =
     src_url s @ (if str_includes (src_url s) ''?'' then ''&'' else ''?'') @ ''t='' @ stamp b"



text \<open>Sample browser, storage and session values used to run the guard on concrete inputs.\<close>

definition demo_rng :: rng where
  "demo_rng = \<lparr>randomUUID = Some ''3b241101-e2bb-4255-8caf-4136c566a962'',
               now36 = ''lx2k9q'', random36 = ''0.4fzyo82mvyr''\<rparr>"

definition demo_rng2 :: rng where
  "demo_rng2 = \<lparr>randomUUID = None, now36 = ''lx2k9q'', random36 = ''0.4fzyo82mvyr''\<rparr>"

definition empty_storage :: "bool \<Rightarrow> storage" where
  "empty_storage full = \<lparr>items = Map.empty, read_fails = False, write_fails = full\<rparr>"

definition storage_with :: "string \<Rightarrow> bool \<Rightarrow> storage" where
  "storage_with d full =
     \<lparr>items = [''nf_device_id'' \<mapsto> d], read_fails = False, write_fails = full\<rparr>"

definition blocked_storage :: "string \<Rightarrow> storage" where
  "blocked_storage d =
     \<lparr>items = [''nf_device_id'' \<mapsto> d], read_fails = True, write_fails = True\<rparr>"

definition demo_session :: "string \<Rightarrow> bool \<Rightarrow> string \<Rightarrow> active_session" where
  "demo_session d a f =
     \<lparr>user_id = Some ''user-1'', device_id = Some d, is_active = Some a,
      session_flag = Some f, last_heartbeat = Some ''2025-06-01T10:00:00.000Z''\<rparr>"

definition demo_user :: user where
  "demo_user = \<lparr>uid = ''user-1'', uemail = ''u@example.org''\<rparr>"

definition demo_net :: "select_outcome \<Rightarrow> net" where
  "demo_net sel = \<lparr>select_result = sel, upsert_result = WriteOk, signOut_ok = True,
                    now_iso = ''2025-06-01T12:00:00.000Z''\<rparr>"

definition demo_net_upsert_refused :: net where
  "demo_net_upsert_refused =
     \<lparr>select_result = SelectOk,
      upsert_result = WriteError \<lparr>code = ''42501'', message = ''permission denied''\<rparr>,
      signOut_ok = True, now_iso = ''2025-06-01T12:00:00.000Z''\<rparr>"

definition demo_guard :: "string \<Rightarrow> active_session option \<Rightarrow> guard" where
  "demo_guard my row =
     \<lparr>local_storage = storage_with my False,
      active_sessions = (\<lambda>k. if k = ''user-1'' then row else None),
      signed_in = True, heartbeatIntervalId = None, sessionChannel = None,
      unauthenticated_ui = False, effects = []\<rparr>"

definition demo_payload :: "string \<Rightarrow> active_session option \<Rightarrow> active_session option \<Rightarrow> payload" where
  "demo_payload ev n old = \<lparr>eventType = Some ev, event = None, new_row = n, old_row = old\<rparr>"

definition empty_row :: active_session where
  "empty_row = \<lparr>user_id = None, device_id = None, is_active = None, session_flag = None,
                last_heartbeat = None\<rparr>"

definition live_guard :: guard where
  "live_guard = (demo_guard ''dev-B'' (Some (demo_session ''dev-B'' True ''S'')))
                  \<lparr>heartbeatIntervalId := Some (''user-1'', ''dev-B''),
                   sessionChannel := Some (''user-1'', ''dev-B'')\<rparr>"

text \<open>Sample media item, browser answers, application state and stored row.\<close>

definition demo_movie :: media_item where
  "demo_movie = \<lparr>item_id = 603, media_type = ''movie'', title = Some ''The Matrix'',
                 item_name = None, poster_path = Some ''/m.jpg'', resumeSeason = None,
                 resumeEpisode = None\<rparr>"

definition demo_browser :: browser where
  "demo_browser = \<lparr>stamp = ''1748779200000'', now_ms = 1748779200000,
                   iso_now = ''2025-06-01T12:00:00.000Z'', content_frames = None,
                   cw_upsert = WriteOk\<rparr>"

definition demo_app :: "user option \<Rightarrow> bool \<Rightarrow> app" where
  "demo_app u ok =
     \<lparr>currentUser = u, isUserApproved = ok, currentMediaType = None, currentMediaId = None,
      currentMediaTitle = None, currentMediaData = None, embedSources = [],
      currentSeason = 1, currentEpisode = 1, continueWatching = [], watchStartTime = None,
      playerInterval = None,
      dom = {''video-frame'', ''player-title'', ''player-description'', ''player-modal'',
             ''payment-modal'', ''source-buttons'', ''.player-video-section''},
      iframe_src = [], iframe_onerror = None, iframe_onload = False, load_listeners = [],
      closures = [], timers = [], next_timer = 1, video_loading = False, source_buttons = [],
      modal_classes = {}, continue_watching = Map.empty, notices = [], console = [],
      uncaught = [], failed_sources = []\<rparr>"

definition demo_cw_row :: "int option \<Rightarrow> int option \<Rightarrow> cw_row" where
  "demo_cw_row w t =
     \<lparr>cw_user_id = ''user-1'', cw_media_id = 603, cw_media_type = ''movie'',
      cw_title = Some ''The Matrix'', cw_poster_path = Some ''/m.jpg'',
      watch_progress = w, total_duration = t,
      last_watched_at = ''2025-06-01T12:00:00.000Z'', completed = False,
      season = None, episode = None\<rparr>"

definition demo_ready :: app where
  "demo_ready = buildEmbedSources
                  ((demo_app (Some demo_user) True)
                     \<lparr>currentMediaType := Some ''movie'', currentMediaId := Some 603\<rparr>)"

definition demo_browser_at :: "string \<Rightarrow> browser" where
  "demo_browser_at t = demo_browser\<lparr>stamp := t\<rparr>"

section \<open>Properties\<close>

subsection \<open>EntitlementGate\<close>



subsection \<open>DeviceIdentity\<close>

lemma getDeviceId_raises_iff:
  "getDeviceId g st = Inl e \<longleftrightarrow>
     (read_fails st \<and> e = SecurityError) \<or>
     (\<not> read_fails st \<and> e = QuotaExceededError
        \<and> \<not> truthy (items st ''nf_device_id'') \<and> write_fails st)"
  by (cases "randomUUID g") (auto simp: getDeviceId_def getItem_def setItem_def Let_def)

lemma getDeviceId_returns_stored:
  "\<not> read_fails st \<Longrightarrow> items st ''nf_device_id'' = Some s \<Longrightarrow> s \<noteq> [] \<Longrightarrow>
   getDeviceId g st = Inr (s, st)"
  by (simp add: getDeviceId_def getItem_def truthy_def)

lemma getDeviceId_generates:
  "\<not> read_fails st \<Longrightarrow> \<not> truthy (items st ''nf_device_id'') \<Longrightarrow> \<not> write_fails st \<Longrightarrow>
   getDeviceId g st =
     Inr (case randomUUID g of Some u \<Rightarrow> u | None \<Rightarrow> now36 g @ drop 2 (random36 g),
          st\<lparr>items := (items st)(''nf_device_id'' \<mapsto>
                 (case randomUUID g of Some u \<Rightarrow> u | None \<Rightarrow> now36 g @ drop 2 (random36 g)))\<rparr>)"
  by (simp add: getDeviceId_def getItem_def setItem_def Let_def)

lemma getDeviceId_readable:
  "getDeviceId g st = Inr (d, st') \<Longrightarrow> \<not> read_fails st \<and> \<not> read_fails st'"
  by (auto simp: getDeviceId_def getItem_def setItem_def Let_def split: if_splits)

lemma getDeviceId_idempotent:
  "getDeviceId g st = Inr (d, st') \<Longrightarrow> d \<noteq> [] \<Longrightarrow> getDeviceId g' st' = Inr (d, st')"
proof -
  assume a: "getDeviceId g st = Inr (d, st')" and d: "d \<noteq> []"
  from a have r: "\<not> read_fails st" and r': "\<not> read_fails st'"
    using getDeviceId_readable by blast+
  show ?thesis
  proof (cases "truthy (items st ''nf_device_id'')")
    case True
    with a r have "st' = st \<and> items st ''nf_device_id'' = Some d"
      by (auto simp: getDeviceId_def getItem_def truthy_def split: option.splits)
    with d r show ?thesis by (simp add: getDeviceId_returns_stored)
  next
    case False
    with a r have "items st' ''nf_device_id'' = Some d"
      by (auto simp: getDeviceId_def getItem_def setItem_def Let_def split: if_splits)
    with d r' show ?thesis by (simp add: getDeviceId_returns_stored)
  qed
qed

text \<open>
  C8, as stated, fails: with nothing stored and a storage whose write raises,
  \<open>getDeviceId\<close> raises too, because \<open>localStorage.setItem\<close> is called outside the
  \<open>try\<close> block (which only covers \<open>crypto.randomUUID\<close>).
\<close>

theorem getDeviceId_write_failure_raises:
  "getDeviceId demo_rng (empty_storage True) = Inl QuotaExceededError"
  by (simp add: getDeviceId_def getItem_def setItem_def truthy_def demo_rng_def empty_storage_def)

text \<open>
  C8, amended. \<open>getDeviceId\<close> raises exactly in two cases, neither of which it handles:
  when reading the storage raises (whatever is stored), and when nothing is stored and
  writing the storage raises; the error is the storage's own. In every other
  execution it returns an identifier: with a readable storage that holds a non-empty
  identifier it returns that one and leaves the storage as it is; with a readable
  storage that holds none and accepts the write it returns the freshly generated
  identifier (the random UUID, or the time-and-random composite when
  \<open>crypto.randomUUID\<close> raises) and stores it. Whenever a call returns a non-empty
  identifier, every later call on the resulting storage returns that same identifier
  and leaves the storage as it is, whatever the random source gives.
\<close>

theorem getDeviceId_behaviour:
  "(\<forall>s. \<not> read_fails st \<and> items st ''nf_device_id'' = Some s \<and> s \<noteq> [] \<longrightarrow>
       getDeviceId g st = Inr (s, st))
 \<and> (\<not> read_fails st \<and> \<not> truthy (items st ''nf_device_id'') \<and> \<not> write_fails st \<longrightarrow>
       (\<forall>u. randomUUID g = Some u \<longrightarrow>
          getDeviceId g st = Inr (u, st\<lparr>items := (items st)(''nf_device_id'' \<mapsto> u)\<rparr>))
     \<and> (randomUUID g = None \<longrightarrow>
          getDeviceId g st = Inr (now36 g @ drop 2 (random36 g),
             st\<lparr>items := (items st)(''nf_device_id'' \<mapsto> now36 g @ drop 2 (random36 g))\<rparr>)))
 \<and> (\<forall>e. getDeviceId g st = Inl e \<longleftrightarrow>
       (read_fails st \<and> e = SecurityError) \<or>
       (\<not> read_fails st \<and> e = QuotaExceededError
          \<and> \<not> truthy (items st ''nf_device_id'') \<and> write_fails st))
 \<and> (\<forall>d st' g'. getDeviceId g st = Inr (d, st') \<and> d \<noteq> [] \<longrightarrow> getDeviceId g' st' = Inr (d, st'))"
proof (intro conjI allI impI)
  fix s assume "\<not> read_fails st \<and> items st ''nf_device_id'' = Some s \<and> s \<noteq> []"
  then show "getDeviceId g st = Inr (s, st)" by (simp add: getDeviceId_returns_stored)
next
  fix u
  assume "\<not> read_fails st \<and> \<not> truthy (items st ''nf_device_id'') \<and> \<not> write_fails st"
    "randomUUID g = Some u"
  then show "getDeviceId g st = Inr (u, st\<lparr>items := (items st)(''nf_device_id'' \<mapsto> u)\<rparr>)"
    by (simp add: getDeviceId_generates)
next
  assume "\<not> read_fails st \<and> \<not> truthy (items st ''nf_device_id'') \<and> \<not> write_fails st"
    "randomUUID g = None"
  then show "getDeviceId g st = Inr (now36 g @ drop 2 (random36 g),
             st\<lparr>items := (items st)(''nf_device_id'' \<mapsto> now36 g @ drop 2 (random36 g))\<rparr>)"
    by (simp add: getDeviceId_generates)
next
  fix e show "getDeviceId g st = Inl e \<longleftrightarrow>
       (read_fails st \<and> e = SecurityError) \<or>
       (\<not> read_fails st \<and> e = QuotaExceededError
          \<and> \<not> truthy (items st ''nf_device_id'') \<and> write_fails st)"
    by (rule getDeviceId_raises_iff)
next
  fix d st' g' assume "getDeviceId g st = Inr (d, st') \<and> d \<noteq> []"
  then show "getDeviceId g' st' = Inr (d, st')" using getDeviceId_idempotent by blast
qed

theorem getDeviceId_behaviour_witness:
  "getDeviceId demo_rng (storage_with ''dev-A'' True) = Inr (''dev-A'', storage_with ''dev-A'' True)
 \<and> getDeviceId demo_rng (empty_storage False)
      = Inr (''3b241101-e2bb-4255-8caf-4136c566a962'',
             storage_with ''3b241101-e2bb-4255-8caf-4136c566a962'' False)
 \<and> getDeviceId demo_rng2 (empty_storage False)
      = Inr (''lx2k9q4fzyo82mvyr'', storage_with ''lx2k9q4fzyo82mvyr'' False)
 \<and> getDeviceId demo_rng2 (empty_storage True) = Inl QuotaExceededError
 \<and> getDeviceId demo_rng (blocked_storage ''dev-A'') = Inl SecurityError
 \<and> getDeviceId demo_rng2 (storage_with ''3b241101-e2bb-4255-8caf-4136c566a962'' False)
      = Inr (''3b241101-e2bb-4255-8caf-4136c566a962'',
             storage_with ''3b241101-e2bb-4255-8caf-4136c566a962'' False)"
proof -
  have 1: "getDeviceId demo_rng (storage_with ''dev-A'' True) = Inr (''dev-A'', storage_with ''dev-A'' True)"
    using getDeviceId_behaviour [of "storage_with ''dev-A'' True" demo_rng, THEN conjunct1]
    by (simp add: storage_with_def)
  have 2: "getDeviceId demo_rng (empty_storage False)
      = Inr (''3b241101-e2bb-4255-8caf-4136c566a962'',
             storage_with ''3b241101-e2bb-4255-8caf-4136c566a962'' False)"
    using getDeviceId_behaviour [of "empty_storage False" demo_rng, THEN conjunct2, THEN conjunct1]
    by (simp add: storage_with_def empty_storage_def demo_rng_def truthy_def)
  have 3: "getDeviceId demo_rng2 (empty_storage False)
      = Inr (''lx2k9q4fzyo82mvyr'', storage_with ''lx2k9q4fzyo82mvyr'' False)"
    using getDeviceId_behaviour [of "empty_storage False" demo_rng2, THEN conjunct2, THEN conjunct1]
    by (simp add: storage_with_def empty_storage_def demo_rng2_def truthy_def)
  have 4: "getDeviceId demo_rng2 (empty_storage True) = Inl QuotaExceededError"
    using getDeviceId_behaviour [of "empty_storage True" demo_rng2,
            THEN conjunct2, THEN conjunct2, THEN conjunct1, THEN spec, of QuotaExceededError]
    by (simp add: empty_storage_def truthy_def)
  have 5: "getDeviceId demo_rng (blocked_storage ''dev-A'') = Inl SecurityError"
    using getDeviceId_behaviour [of "blocked_storage ''dev-A''" demo_rng,
            THEN conjunct2, THEN conjunct2, THEN conjunct1, THEN spec, of SecurityError]
    by (simp add: blocked_storage_def)
  have 6: "getDeviceId demo_rng2 (storage_with ''3b241101-e2bb-4255-8caf-4136c566a962'' False)
      = Inr (''3b241101-e2bb-4255-8caf-4136c566a962'',
             storage_with ''3b241101-e2bb-4255-8caf-4136c566a962'' False)"
    using getDeviceId_behaviour [of "empty_storage False" demo_rng,
            THEN conjunct2, THEN conjunct2, THEN conjunct2, THEN spec, THEN spec, THEN spec,
            of "''3b241101-e2bb-4255-8caf-4136c566a962''"
               "storage_with ''3b241101-e2bb-4255-8caf-4136c566a962'' False" demo_rng2] 2
    by simp
  from 1 2 3 4 5 6 show ?thesis by (intro conjI)
qed

subsection \<open>SessionGuard: registration\<close>

lemma getDeviceId_stored:
  "d \<noteq> [] \<Longrightarrow> getDeviceId g (storage_with d f) = Inr (d, storage_with d f)"
  by (simp add: getDeviceId_def getItem_def storage_with_def truthy_def)

lemma registerSessionForUser_conflict:
  assumes "getDeviceId g (local_storage w) = Inr (B, st)"
    and "select_result n = SelectOk"
    and "active_sessions w (uid u) = Some r"
    and "is_active r = Some True" and "device_id r = Some A" and "A \<noteq> []" and "A \<noteq> B"
  shows "\<exists>w'. registerSessionForUser g n u w = Inr (False, w')
           \<and> active_sessions w' = active_sessions w
           \<and> signOuts w' = signOuts w + 1
           \<and> (signOut_ok n \<longrightarrow> \<not> signed_in w')
           \<and> heartbeatIntervalId w' = heartbeatIntervalId w
           \<and> sessionChannel w' = sessionChannel w"
  using assms
  by (auto simp: registerSessionForUser_def truthy_def emit_def signOuts_def Let_def)

lemma registerSessionForUser_accept:
  assumes "getDeviceId g (local_storage w) = Inr (B, st)"
    and "select_result n = SelectOk" and "upsert_result n = WriteOk"
    and "active_sessions w (uid u) = None \<or>
         (\<exists>r. active_sessions w (uid u) = Some r \<and> (device_id r = Some B \<or> is_active r \<noteq> Some True))"
  shows "\<exists>w'. registerSessionForUser g n u w = Inr (True, w')
           \<and> active_sessions w' = (active_sessions w)(uid u \<mapsto>
                \<lparr>user_id = Some (uid u), device_id = Some B, is_active = Some True,
                 session_flag = Some ''S'', last_heartbeat = Some (now_iso n)\<rparr>)
           \<and> heartbeatIntervalId w' = Some (uid u, B)
           \<and> sessionChannel w' = Some (uid u, B)
           \<and> signOuts w' = signOuts w"
  using assms
  by (auto simp: registerSessionForUser_def truthy_def emit_def signOuts_def upsert_session_def
        Let_def startHeartbeat_def stopHeartbeat_def startSessionRealtimeSubscription_def)

text \<open>
  The ids \<open>getDeviceId\<close> issues are not empty: a stored id is returned only when it is
  truthy, and a generated one is a UUID or starts with the digits of the clock.
\<close>

lemma getDeviceId_issues_nonempty:
  assumes "getDeviceId g st = Inr (d, st')" and "randomUUID g \<noteq> Some []" and "now36 g \<noteq> []"
  shows "d \<noteq> []"
  using assms
  by (auto simp: getDeviceId_def getItem_def setItem_def truthy_def Let_def
           split: if_splits option.splits sum.splits)

text \<open>
  C2, as stated, fails in two ways, both without any exception. First, the stored row
  is only consulted through a select whose error is logged and otherwise ignored:
  with an active row of another device \<open>dev-A\<close> stored and the select returning an
  error, the registration from \<open>dev-B\<close> returns true and the stored device id becomes
  \<open>dev-B\<close>. Second, the result of the upsert is not inspected: with no row stored and
  an upsert that the datastore refuses, the registration returns true although no row
  has been written.
\<close>

theorem registerSessionForUser_datastore_faults_counterexample:
  "active_sessions (demo_guard ''dev-B'' (Some (demo_session ''dev-A'' True ''S''))) ''user-1''
     = Some (demo_session ''dev-A'' True ''S'')
 \<and> is_active (demo_session ''dev-A'' True ''S'') = Some True
 \<and> device_id (demo_session ''dev-A'' True ''S'') = Some ''dev-A''
 \<and> ''dev-A'' \<noteq> ''dev-B''
 \<and> map_sum id fst (registerSessionForUser demo_rng
        (demo_net (SelectError \<lparr>code = ''57014'', message = ''statement timeout''\<rparr>)) demo_user
        (demo_guard ''dev-B'' (Some (demo_session ''dev-A'' True ''S'')))) = Inr True
 \<and> active_sessions (snd (projr (registerSessionForUser demo_rng
        (demo_net (SelectError \<lparr>code = ''57014'', message = ''statement timeout''\<rparr>)) demo_user
        (demo_guard ''dev-B'' (Some (demo_session ''dev-A'' True ''S'')))))) ''user-1''
      = Some \<lparr>user_id = Some ''user-1'', device_id = Some ''dev-B'', is_active = Some True,
              session_flag = Some ''S'', last_heartbeat = Some ''2025-06-01T12:00:00.000Z''\<rparr>
 \<and> active_sessions (demo_guard ''dev-B'' None) ''user-1'' = None
 \<and> map_sum id fst (registerSessionForUser demo_rng demo_net_upsert_refused demo_user
        (demo_guard ''dev-B'' None)) = Inr True
 \<and> active_sessions (snd (projr (registerSessionForUser demo_rng demo_net_upsert_refused demo_user
        (demo_guard ''dev-B'' None)))) ''user-1'' = None"
  by (simp add: registerSessionForUser_def demo_guard_def getDeviceId_stored demo_session_def
        demo_net_def demo_net_upsert_refused_def demo_user_def truthy_def upsert_session_def
        emit_def startHeartbeat_def stopHeartbeat_def startSessionRealtimeSubscription_def)

text \<open>
  C2, amended. Let \<open>B\<close> be this device's id and let the select return the stored row.
  If the stored row of the user is active with a non-empty device id \<open>A \<noteq> B\<close> (the ids
  \<open>getDeviceId\<close> issues are non-empty), then \<open>registerSessionForUser\<close> returns false, calls the identity
  provider's sign-out once (the session is signed out when that call succeeds), and
  leaves the session table, the heartbeat and the subscription as they were. If there
  is no row, or the row carries device id \<open>B\<close>, or the row is not active, and the upsert
  is accepted, then it returns true, the row of the user becomes
  \<open>{userId, deviceId = B, isActive = true, sessionFlag = 'S', lastHeartbeat = now}\<close>,
  the heartbeat and the subscription are started for \<open>(userId, B)\<close>, and no sign-out
  is made.
\<close>

theorem registerSessionForUser_single_device:
  "getDeviceId g (local_storage w) = Inr (B, st) \<and> select_result n = SelectOk \<longrightarrow>
     (\<forall>r A. active_sessions w (uid u) = Some r \<and> is_active r = Some True \<and> device_id r = Some A
             \<and> A \<noteq> [] \<and> A \<noteq> B \<longrightarrow>
        (\<exists>w'. registerSessionForUser g n u w = Inr (False, w')
           \<and> active_sessions w' = active_sessions w
           \<and> signOuts w' = signOuts w + 1
           \<and> (signOut_ok n \<longrightarrow> \<not> signed_in w')
           \<and> heartbeatIntervalId w' = heartbeatIntervalId w
           \<and> sessionChannel w' = sessionChannel w))
   \<and> (upsert_result n = WriteOk \<and>
        (active_sessions w (uid u) = None \<or>
         (\<exists>r. active_sessions w (uid u) = Some r \<and> (device_id r = Some B \<or> is_active r \<noteq> Some True)))
       \<longrightarrow>
        (\<exists>w'. registerSessionForUser g n u w = Inr (True, w')
           \<and> active_sessions w' = (active_sessions w)(uid u \<mapsto>
                \<lparr>user_id = Some (uid u), device_id = Some B, is_active = Some True,
                 session_flag = Some ''S'', last_heartbeat = Some (now_iso n)\<rparr>)
           \<and> heartbeatIntervalId w' = Some (uid u, B)
           \<and> sessionChannel w' = Some (uid u, B)
           \<and> signOuts w' = signOuts w))"
  using registerSessionForUser_conflict [of g w B st n u]
        registerSessionForUser_accept [of g w B st n u]
  by blast

theorem registerSessionForUser_single_device_witness:
  "(\<exists>w'. registerSessionForUser demo_rng (demo_net SelectOk) demo_user
            (demo_guard ''dev-B'' (Some (demo_session ''dev-A'' True ''S''))) = Inr (False, w')
         \<and> active_sessions w' ''user-1'' = Some (demo_session ''dev-A'' True ''S'')
         \<and> signOuts w' = 1 \<and> \<not> signed_in w')
 \<and> (\<exists>w'. registerSessionForUser demo_rng (demo_net SelectOk) demo_user
            (demo_guard ''dev-A'' (Some (demo_session ''dev-A'' True ''S''))) = Inr (True, w')
         \<and> active_sessions w' ''user-1'' =
             Some \<lparr>user_id = Some ''user-1'', device_id = Some ''dev-A'', is_active = Some True,
                   session_flag = Some ''S'', last_heartbeat = Some ''2025-06-01T12:00:00.000Z''\<rparr>)
 \<and> (\<exists>w'. registerSessionForUser demo_rng (demo_net SelectOk) demo_user
            (demo_guard ''dev-B'' (Some (demo_session ''dev-A'' False ''N''))) = Inr (True, w')
         \<and> active_sessions w' ''user-1'' =
             Some \<lparr>user_id = Some ''user-1'', device_id = Some ''dev-B'', is_active = Some True,
                   session_flag = Some ''S'', last_heartbeat = Some ''2025-06-01T12:00:00.000Z''\<rparr>)
 \<and> (\<exists>w'. registerSessionForUser demo_rng (demo_net SelectOk) demo_user
            (demo_guard ''dev-B'' None) = Inr (True, w')
         \<and> active_sessions w' ''user-1'' =
             Some \<lparr>user_id = Some ''user-1'', device_id = Some ''dev-B'', is_active = Some True,
                   session_flag = Some ''S'', last_heartbeat = Some ''2025-06-01T12:00:00.000Z''\<rparr>)"
proof -
  have gB: "\<And>row. getDeviceId demo_rng (local_storage (demo_guard ''dev-B'' row))
              = Inr (''dev-B'', storage_with ''dev-B'' False)"
    by (simp add: demo_guard_def getDeviceId_stored)
  have gA: "\<And>row. getDeviceId demo_rng (local_storage (demo_guard ''dev-A'' row))
              = Inr (''dev-A'', storage_with ''dev-A'' False)"
    by (simp add: demo_guard_def getDeviceId_stored)
  have 1: "\<exists>w'. registerSessionForUser demo_rng (demo_net SelectOk) demo_user
            (demo_guard ''dev-B'' (Some (demo_session ''dev-A'' True ''S''))) = Inr (False, w')
         \<and> active_sessions w' ''user-1'' = Some (demo_session ''dev-A'' True ''S'')
         \<and> signOuts w' = 1 \<and> \<not> signed_in w'"
    using registerSessionForUser_single_device
            [of demo_rng "demo_guard ''dev-B'' (Some (demo_session ''dev-A'' True ''S''))"
                "''dev-B''" "storage_with ''dev-B'' False" "demo_net SelectOk" demo_user] gB
    by (auto simp: demo_net_def demo_user_def demo_guard_def demo_session_def signOuts_def)
  have 2: "\<exists>w'. registerSessionForUser demo_rng (demo_net SelectOk) demo_user
            (demo_guard ''dev-A'' (Some (demo_session ''dev-A'' True ''S''))) = Inr (True, w')
         \<and> active_sessions w' ''user-1'' =
             Some \<lparr>user_id = Some ''user-1'', device_id = Some ''dev-A'', is_active = Some True,
                   session_flag = Some ''S'', last_heartbeat = Some ''2025-06-01T12:00:00.000Z''\<rparr>"
    using registerSessionForUser_single_device
            [of demo_rng "demo_guard ''dev-A'' (Some (demo_session ''dev-A'' True ''S''))"
                "''dev-A''" "storage_with ''dev-A'' False" "demo_net SelectOk" demo_user] gA
    by (auto simp: demo_net_def demo_user_def demo_guard_def demo_session_def)
  have 3: "\<exists>w'. registerSessionForUser demo_rng (demo_net SelectOk) demo_user
            (demo_guard ''dev-B'' (Some (demo_session ''dev-A'' False ''N''))) = Inr (True, w')
         \<and> active_sessions w' ''user-1'' =
             Some \<lparr>user_id = Some ''user-1'', device_id = Some ''dev-B'', is_active = Some True,
                   session_flag = Some ''S'', last_heartbeat = Some ''2025-06-01T12:00:00.000Z''\<rparr>"
    using registerSessionForUser_single_device
            [of demo_rng "demo_guard ''dev-B'' (Some (demo_session ''dev-A'' False ''N''))"
                "''dev-B''" "storage_with ''dev-B'' False" "demo_net SelectOk" demo_user] gB
    by (auto simp: demo_net_def demo_user_def demo_guard_def demo_session_def)
  have 4: "\<exists>w'. registerSessionForUser demo_rng (demo_net SelectOk) demo_user
            (demo_guard ''dev-B'' None) = Inr (True, w')
         \<and> active_sessions w' ''user-1'' =
             Some \<lparr>user_id = Some ''user-1'', device_id = Some ''dev-B'', is_active = Some True,
                   session_flag = Some ''S'', last_heartbeat = Some ''2025-06-01T12:00:00.000Z''\<rparr>"
    using registerSessionForUser_single_device
            [of demo_rng "demo_guard ''dev-B'' None"
                "''dev-B''" "storage_with ''dev-B'' False" "demo_net SelectOk" demo_user] gB
    by (auto simp: demo_net_def demo_user_def demo_guard_def)
  from 1 2 3 4 show ?thesis by blast
qed

text \<open>
  C9. When the select of the existing row returns an error, \<open>registerSessionForUser\<close>
  does not fail closed: it logs the error, proceeds as if the user had no row, and
  (the upsert being accepted) writes its own device as the active session, starts
  heartbeat and subscription, makes no sign-out and returns true, whatever row the
  table held, a foreign active one included.
\<close>

theorem registerSessionForUser_select_error_fails_open:
  "getDeviceId g (local_storage w) = Inr (B, st) \<and> select_result n = SelectError e
     \<and> upsert_result n = WriteOk \<longrightarrow>
   (\<exists>w'. registerSessionForUser g n u w = Inr (True, w')
      \<and> active_sessions w' = (active_sessions w)(uid u \<mapsto>
           \<lparr>user_id = Some (uid u), device_id = Some B, is_active = Some True,
            session_flag = Some ''S'', last_heartbeat = Some (now_iso n)\<rparr>)
      \<and> effects w' = effects w @ [ConsoleError ''Error checking active_sessions:'']
      \<and> heartbeatIntervalId w' = Some (uid u, B)
      \<and> sessionChannel w' = Some (uid u, B)
      \<and> signed_in w' = signed_in w)"
  by (auto simp: registerSessionForUser_def truthy_def emit_def upsert_session_def
        Let_def startHeartbeat_def stopHeartbeat_def startSessionRealtimeSubscription_def)

theorem registerSessionForUser_select_error_fails_open_witness:
  "active_sessions (demo_guard ''dev-B'' (Some (demo_session ''dev-A'' True ''S''))) ''user-1''
     = Some (demo_session ''dev-A'' True ''S'')
 \<and> (\<exists>w'. registerSessionForUser demo_rng
            (demo_net (SelectError \<lparr>code = ''57014'', message = ''statement timeout''\<rparr>)) demo_user
            (demo_guard ''dev-B'' (Some (demo_session ''dev-A'' True ''S''))) = Inr (True, w')
         \<and> active_sessions w' ''user-1'' =
             Some \<lparr>user_id = Some ''user-1'', device_id = Some ''dev-B'', is_active = Some True,
                   session_flag = Some ''S'', last_heartbeat = Some ''2025-06-01T12:00:00.000Z''\<rparr>
         \<and> effects w' = [ConsoleError ''Error checking active_sessions:'']
         \<and> signed_in w')"
  using registerSessionForUser_select_error_fails_open
          [of demo_rng "demo_guard ''dev-B'' (Some (demo_session ''dev-A'' True ''S''))"
              "''dev-B''" "storage_with ''dev-B'' False"
              "demo_net (SelectError \<lparr>code = ''57014'', message = ''statement timeout''\<rparr>)"
              "\<lparr>code = ''57014'', message = ''statement timeout''\<rparr>" demo_user]
        getDeviceId_stored [of "''dev-B''" demo_rng False]
  by (auto simp: demo_net_def demo_user_def demo_guard_def)

subsection \<open>SessionGuard: realtime handler\<close>

lemma signOuts_forceLocalSignOut:
  "signOuts (forceLocalSignOut ok msg w) = signOuts w + 1"
  by (simp add: forceLocalSignOut_def signOuts_def emit_def stopHeartbeat_def
        stopSessionRealtimeSubscription_def Let_def)

lemma forceLocalSignOut_teardown:
  "heartbeatIntervalId (forceLocalSignOut ok msg w) = None
 \<and> sessionChannel (forceLocalSignOut ok msg w) = None
 \<and> unauthenticated_ui (forceLocalSignOut ok msg w)
 \<and> (ok \<longrightarrow> \<not> signed_in (forceLocalSignOut ok msg w))"
  by (simp add: forceLocalSignOut_def emit_def stopHeartbeat_def
        stopSessionRealtimeSubscription_def Let_def)

lemma toUpperCase_Nil: "toUpperCase [] \<noteq> ''N''"
  by (simp add: toUpperCase_def)

lemma toUpperCase_samples:
  "toUpperCase ''S'' = ''S''" "toUpperCase ''n'' = ''N''" "toUpperCase ''N'' = ''N''"
  by (simp_all add: toUpperCase_def upperChar_def)

lemma demo_payload_simps:
  "e \<noteq> [] \<Longrightarrow> payloadEventType (demo_payload e n old) = Some e"
  "new_row (demo_payload e n old) = n"
  "old_row (demo_payload e n old) = old"
  "relevantRow (demo_payload e (Some r) old) = Some r"
  by (simp_all add: payloadEventType_def demo_payload_def truthy_def relevantRow_def)

lemma demo_session_simps:
  "device_id (demo_session d a f) = Some d"
  "is_active (demo_session d a f) = Some a"
  "session_flag (demo_session d a f) = Some f"
  by (simp_all add: demo_session_def)

lemma hsc_delete_own:
  "payloadEventType p = Some ''DELETE'' \<Longrightarrow> old_row p = Some prior \<Longrightarrow> device_id prior = Some my
   \<Longrightarrow> handleSessionChange ok p my w = forceLocalSignOut ok SessionEnded w"
  by (simp add: handleSessionChange_def relevantRow_def split: option.splits)

lemma hsc_delete_other:
  "payloadEventType p = Some ''DELETE'' \<Longrightarrow> old_row p = Some prior \<Longrightarrow> device_id prior \<noteq> Some my
   \<Longrightarrow> handleSessionChange ok p my w = w"
  by (simp add: handleSessionChange_def relevantRow_def split: option.splits)

lemma hsc_disabled:
  "payloadEventType p \<noteq> Some ''DELETE'' \<Longrightarrow> relevantRow p = Some r
   \<Longrightarrow> is_active r = Some False \<or> (\<exists>f. session_flag r = Some f \<and> toUpperCase f = ''N'')
   \<Longrightarrow> handleSessionChange ok p my w = forceLocalSignOut ok DisabledByAdmin w"
  using toUpperCase_Nil
  by (auto simp: handleSessionChange_def truthy_def)

lemma hsc_other_device:
  "payloadEventType p \<noteq> Some ''DELETE'' \<Longrightarrow> relevantRow p = Some r
   \<Longrightarrow> is_active r \<noteq> Some False \<Longrightarrow> \<not> (\<exists>f. session_flag r = Some f \<and> toUpperCase f = ''N'')
   \<Longrightarrow> device_id r = Some d \<Longrightarrow> d \<noteq> [] \<Longrightarrow> d \<noteq> my
   \<Longrightarrow> handleSessionChange ok p my w = forceLocalSignOut ok UsedOnAnotherDevice w"
  by (auto simp: handleSessionChange_def truthy_def split: option.splits)

lemma hsc_no_row:
  "relevantRow p = None \<Longrightarrow> handleSessionChange ok p my w = w"
  by (simp add: handleSessionChange_def)

lemma hsc_delete_no_old:
  "relevantRow p = Some r \<Longrightarrow> payloadEventType p = Some ''DELETE'' \<Longrightarrow> old_row p = None
   \<Longrightarrow> handleSessionChange ok p my w = emit (ConsoleError ''handleSessionChange error'') w"
  by (simp add: handleSessionChange_def)

lemma hsc_quiet:
  "payloadEventType p \<noteq> Some ''DELETE'' \<Longrightarrow> relevantRow p = Some r
   \<Longrightarrow> is_active r \<noteq> Some False \<Longrightarrow> \<not> (\<exists>f. session_flag r = Some f \<and> toUpperCase f = ''N'')
   \<Longrightarrow> device_id r = None \<or> device_id r = Some [] \<or> device_id r = Some my
   \<Longrightarrow> handleSessionChange ok p my w = w"
  by (auto simp: handleSessionChange_def truthy_def split: option.splits)

lemma emit_console_quiet:
  "signOuts (emit (ConsoleError m) w) = signOuts w \<and> (emit (ConsoleError m) w)\<lparr>effects := effects w\<rparr> = w"
  by (simp add: emit_def signOuts_def)

text \<open>
  C3, as stated, fails: the device-id check is not limited to update events. An insert
  event whose row is active, flagged \<open>S\<close> and carries another device's id is not
  ignored; it forces the local sign-out ("used on another device").
\<close>

theorem handleSessionChange_insert_counterexample:
  "payloadEventType (demo_payload ''INSERT'' (Some (demo_session ''dev-A'' True ''S'')) None) = Some ''INSERT''
 \<and> handleSessionChange True (demo_payload ''INSERT'' (Some (demo_session ''dev-A'' True ''S'')) None)
      ''dev-B'' live_guard = forceLocalSignOut True UsedOnAnotherDevice live_guard
 \<and> signOuts (handleSessionChange True (demo_payload ''INSERT'' (Some (demo_session ''dev-A'' True ''S'')) None)
      ''dev-B'' live_guard) = signOuts live_guard + 1
 \<and> \<not> signed_in (handleSessionChange True (demo_payload ''INSERT'' (Some (demo_session ''dev-A'' True ''S'')) None)
      ''dev-B'' live_guard)"
proof -
  have e: "payloadEventType (demo_payload ''INSERT'' (Some (demo_session ''dev-A'' True ''S'')) None) = Some ''INSERT''"
    by (simp add: demo_payload_simps)
  have h: "handleSessionChange True (demo_payload ''INSERT'' (Some (demo_session ''dev-A'' True ''S'')) None)
      ''dev-B'' live_guard = forceLocalSignOut True UsedOnAnotherDevice live_guard"
    by (simp add: handleSessionChange_def e demo_payload_simps demo_session_simps
          truthy_def toUpperCase_samples)
  show ?thesis
    by (simp add: e h signOuts_forceLocalSignOut forceLocalSignOut_teardown)
qed

text \<open>
  C3, amended. For every event processed by \<open>handleSessionChange\<close>: a delete event whose
  prior row carries this device's id makes exactly one forced local sign-out ("session
  ended"), and a delete event whose prior row carries another id changes nothing. Any
  event other than a delete (insert and update alike) whose row has
  \<open>isActive = false\<close> or a session flag that uppercases to \<open>N\<close> makes exactly one forced
  sign-out ("disabled by admin"); otherwise, if its device id is present and differs
  from this device's id, it makes exactly one forced sign-out ("used on another
  device"). Every remaining event (no row at all, a delete without a prior row, a
  non-delete whose device id is absent, empty or this device's own) makes no sign-out
  and leaves the session state as it was.
\<close>

theorem handleSessionChange_reaction:
  "(\<forall>prior. payloadEventType p = Some ''DELETE'' \<and> old_row p = Some prior
        \<and> device_id prior = Some my \<longrightarrow>
      handleSessionChange ok p my w = forceLocalSignOut ok SessionEnded w
      \<and> signOuts (handleSessionChange ok p my w) = signOuts w + 1)
 \<and> (\<forall>prior. payloadEventType p = Some ''DELETE'' \<and> old_row p = Some prior
        \<and> device_id prior \<noteq> Some my \<longrightarrow>
      handleSessionChange ok p my w = w)
 \<and> (\<forall>r. payloadEventType p \<noteq> Some ''DELETE'' \<and> relevantRow p = Some r
        \<and> (is_active r = Some False \<or> (\<exists>f. session_flag r = Some f \<and> toUpperCase f = ''N'')) \<longrightarrow>
      handleSessionChange ok p my w = forceLocalSignOut ok DisabledByAdmin w
      \<and> signOuts (handleSessionChange ok p my w) = signOuts w + 1)
 \<and> (\<forall>r d. payloadEventType p \<noteq> Some ''DELETE'' \<and> relevantRow p = Some r
        \<and> is_active r \<noteq> Some False \<and> \<not> (\<exists>f. session_flag r = Some f \<and> toUpperCase f = ''N'')
        \<and> device_id r = Some d \<and> d \<noteq> [] \<and> d \<noteq> my \<longrightarrow>
      handleSessionChange ok p my w = forceLocalSignOut ok UsedOnAnotherDevice w
      \<and> signOuts (handleSessionChange ok p my w) = signOuts w + 1)
 \<and> (relevantRow p = None
      \<or> (payloadEventType p = Some ''DELETE'' \<and> old_row p = None)
      \<or> (\<exists>r. payloadEventType p \<noteq> Some ''DELETE'' \<and> relevantRow p = Some r
            \<and> is_active r \<noteq> Some False \<and> \<not> (\<exists>f. session_flag r = Some f \<and> toUpperCase f = ''N'')
            \<and> (device_id r = None \<or> device_id r = Some [] \<or> device_id r = Some my)) \<longrightarrow>
      signOuts (handleSessionChange ok p my w) = signOuts w
      \<and> (handleSessionChange ok p my w)\<lparr>effects := effects w\<rparr> = w)"
proof (intro conjI allI impI)
  fix prior
  assume a: "payloadEventType p = Some ''DELETE'' \<and> old_row p = Some prior \<and> device_id prior = Some my"
  then show "handleSessionChange ok p my w = forceLocalSignOut ok SessionEnded w"
    by (simp add: hsc_delete_own)
  with a show "signOuts (handleSessionChange ok p my w) = signOuts w + 1"
    by (simp add: signOuts_forceLocalSignOut)
next
  fix prior
  assume "payloadEventType p = Some ''DELETE'' \<and> old_row p = Some prior \<and> device_id prior \<noteq> Some my"
  then show "handleSessionChange ok p my w = w"
    by (simp add: hsc_delete_other)
next
  fix r
  assume a: "payloadEventType p \<noteq> Some ''DELETE'' \<and> relevantRow p = Some r
        \<and> (is_active r = Some False \<or> (\<exists>f. session_flag r = Some f \<and> toUpperCase f = ''N''))"
  then show h: "handleSessionChange ok p my w = forceLocalSignOut ok DisabledByAdmin w"
    using hsc_disabled [of p r ok my w] by blast
  show "signOuts (handleSessionChange ok p my w) = signOuts w + 1"
    by (simp add: h signOuts_forceLocalSignOut)
next
  fix r d
  assume a: "payloadEventType p \<noteq> Some ''DELETE'' \<and> relevantRow p = Some r
        \<and> is_active r \<noteq> Some False \<and> \<not> (\<exists>f. session_flag r = Some f \<and> toUpperCase f = ''N'')
        \<and> device_id r = Some d \<and> d \<noteq> [] \<and> d \<noteq> my"
  then show h: "handleSessionChange ok p my w = forceLocalSignOut ok UsedOnAnotherDevice w"
    using hsc_other_device [of p r d my ok w] by blast
  show "signOuts (handleSessionChange ok p my w) = signOuts w + 1"
    by (simp add: h signOuts_forceLocalSignOut)
next
  assume a: "relevantRow p = None
      \<or> (payloadEventType p = Some ''DELETE'' \<and> old_row p = None)
      \<or> (\<exists>r. payloadEventType p \<noteq> Some ''DELETE'' \<and> relevantRow p = Some r
            \<and> is_active r \<noteq> Some False \<and> \<not> (\<exists>f. session_flag r = Some f \<and> toUpperCase f = ''N'')
            \<and> (device_id r = None \<or> device_id r = Some [] \<or> device_id r = Some my))"
  have "handleSessionChange ok p my w = w
        \<or> handleSessionChange ok p my w = emit (ConsoleError ''handleSessionChange error'') w"
  proof (cases "relevantRow p")
    case None
    then show ?thesis by (simp add: hsc_no_row)
  next
    case (Some r)
    show ?thesis
    proof (cases "payloadEventType p = Some ''DELETE''")
      case True
      with a Some have "old_row p = None" by auto
      with Some True show ?thesis by (simp add: hsc_delete_no_old)
    next
      case False
      with a Some show ?thesis using hsc_quiet [of p r my ok w] by auto
    qed
  qed
  then show "signOuts (handleSessionChange ok p my w) = signOuts w"
    and "(handleSessionChange ok p my w)\<lparr>effects := effects w\<rparr> = w"
    using emit_console_quiet by auto
qed

theorem handleSessionChange_reaction_witness:
  "signOuts (handleSessionChange True
       (demo_payload ''DELETE'' (Some empty_row) (Some (demo_session ''dev-B'' True ''S'')))
       ''dev-B'' live_guard) = signOuts live_guard + 1
 \<and> handleSessionChange True
       (demo_payload ''DELETE'' (Some empty_row) (Some (demo_session ''dev-A'' True ''S'')))
       ''dev-B'' live_guard = live_guard
 \<and> handleSessionChange True
       (demo_payload ''UPDATE'' (Some (demo_session ''dev-B'' True ''n'')) None)
       ''dev-B'' live_guard = forceLocalSignOut True DisabledByAdmin live_guard
 \<and> handleSessionChange True
       (demo_payload ''UPDATE'' (Some (demo_session ''dev-A'' True ''S'')) None)
       ''dev-B'' live_guard = forceLocalSignOut True UsedOnAnotherDevice live_guard
 \<and> (handleSessionChange True
       (demo_payload ''UPDATE'' (Some (demo_session ''dev-B'' True ''S'')) None)
       ''dev-B'' live_guard)\<lparr>effects := effects live_guard\<rparr> = live_guard"
proof -
  have 1: "signOuts (handleSessionChange True
       (demo_payload ''DELETE'' (Some empty_row) (Some (demo_session ''dev-B'' True ''S'')))
       ''dev-B'' live_guard) = signOuts live_guard + 1"
    using handleSessionChange_reaction
            [of "demo_payload ''DELETE'' (Some empty_row) (Some (demo_session ''dev-B'' True ''S''))"
                "''dev-B''" True live_guard]
    by (auto simp: demo_payload_simps demo_session_simps toUpperCase_samples)
  have 2: "handleSessionChange True
       (demo_payload ''DELETE'' (Some empty_row) (Some (demo_session ''dev-A'' True ''S'')))
       ''dev-B'' live_guard = live_guard"
    using handleSessionChange_reaction
            [of "demo_payload ''DELETE'' (Some empty_row) (Some (demo_session ''dev-A'' True ''S''))"
                "''dev-B''" True live_guard]
    by (auto simp: demo_payload_simps demo_session_simps toUpperCase_samples)
  have 3: "handleSessionChange True
       (demo_payload ''UPDATE'' (Some (demo_session ''dev-B'' True ''n'')) None)
       ''dev-B'' live_guard = forceLocalSignOut True DisabledByAdmin live_guard"
    using handleSessionChange_reaction
            [of "demo_payload ''UPDATE'' (Some (demo_session ''dev-B'' True ''n'')) None"
                "''dev-B''" True live_guard]
    by (auto simp: demo_payload_simps demo_session_simps toUpperCase_samples)
  have 4: "handleSessionChange True
       (demo_payload ''UPDATE'' (Some (demo_session ''dev-A'' True ''S'')) None)
       ''dev-B'' live_guard = forceLocalSignOut True UsedOnAnotherDevice live_guard"
    using handleSessionChange_reaction
            [of "demo_payload ''UPDATE'' (Some (demo_session ''dev-A'' True ''S'')) None"
                "''dev-B''" True live_guard]
    by (auto simp: demo_payload_simps demo_session_simps toUpperCase_samples)
  have 5: "(handleSessionChange True
       (demo_payload ''UPDATE'' (Some (demo_session ''dev-B'' True ''S'')) None)
       ''dev-B'' live_guard)\<lparr>effects := effects live_guard\<rparr> = live_guard"
    using handleSessionChange_reaction
            [of "demo_payload ''UPDATE'' (Some (demo_session ''dev-B'' True ''S'')) None"
                "''dev-B''" True live_guard]
    by (auto simp: demo_payload_simps demo_session_simps toUpperCase_samples)
  from 1 2 3 4 5 show ?thesis by blast
qed

subsection \<open>Binary64 rounding\<close>

lemma bit_length_upper: "n < 2 ^ bit_length n"
proof (induction n rule: bit_length.induct)
  case (1 n)
  show ?case
  proof (cases "n = 0")
    case True
    then show ?thesis by (simp add: bit_length.simps [of 0])
  next
    case False
    with 1 have "n div 2 < 2 ^ bit_length (n div 2)" by simp
    then have "n < 2 * 2 ^ bit_length (n div 2)" by linarith
    with False show ?thesis by (simp add: bit_length.simps [of n])
  qed
qed

lemma bit_length_lower: "0 < n \<Longrightarrow> 2 ^ (bit_length n - 1) \<le> n"
proof (induction n rule: bit_length.induct)
  case (1 n)
  then have n: "n \<noteq> 0" by simp
  show ?case
  proof (cases "n div 2 = 0")
    case True
    with n have "n = Suc 0" by linarith
    then show ?thesis by (simp add: bit_length.simps [of "Suc 0"] bit_length.simps [of 0])
  next
    case False
    with 1 n have ih: "2 ^ (bit_length (n div 2) - 1) \<le> n div 2" by simp
    from False have "bit_length (n div 2) \<noteq> 0" by (simp add: bit_length.simps [of "n div 2"])
    then have "(2::nat) ^ bit_length (n div 2) = 2 * 2 ^ (bit_length (n div 2) - 1)"
      by (cases "bit_length (n div 2)") simp_all
    with ih have "2 ^ bit_length (n div 2) \<le> n" by linarith
    with n show ?thesis by (simp add: bit_length.simps [of n])
  qed
qed

lemma bit_length_pos: "0 < n \<Longrightarrow> 0 < bit_length n"
  by (simp add: bit_length.simps [of n])

text \<open>The exponent brackets the number.\<close>

lemma binade_ge: "- 1022 \<le> binade r"
  by (simp add: binade_def)

lemma binade_upper:
  assumes "0 < r"
  shows "r < 2 powi (binade r + 1)"
proof -
  define n where "n = nat \<lfloor>r * 2 ^ 1074\<rfloor>"
  define l where "l = int (bit_length n)"
  have nn: "0 \<le> \<lfloor>r * 2 ^ 1074\<rfloor>" using assms by simp
  then have n: "(of_nat n :: rat) = of_int \<lfloor>r * 2 ^ 1074\<rfloor>" by (simp add: n_def)
  have "Suc n \<le> 2 ^ bit_length n" using bit_length_upper [of n] by simp
  then have "(of_nat (Suc n) :: rat) \<le> of_nat (2 ^ bit_length n)" by (simp only: of_nat_le_iff)
  then have b: "(of_nat n :: rat) + 1 \<le> 2 ^ bit_length n" by simp
  have "r * 2 ^ 1074 < of_int \<lfloor>r * 2 ^ 1074\<rfloor> + 1" by linarith
  with n b have "r * 2 ^ 1074 < 2 ^ bit_length n" by linarith
  then have "r * 2 powi 1074 < 2 powi l" by (simp add: l_def)
  moreover have "(2::rat) powi l = 2 powi (l - 1074) * 2 powi 1074"
    by (simp add: power_int_add [symmetric] del: power_int_numeral)
  ultimately have 1: "r * 2 powi 1074 < 2 powi (l - 1074) * 2 powi 1074" by simp
  have "(0::rat) < 2 powi 1074" by simp
  with 1 have 2: "r < 2 powi (l - 1074)" by (rule mult_less_cancel_right_pos [THEN iffD1, rotated])
  have "l - 1074 \<le> binade r + 1" by (simp add: binade_def l_def n_def)
  then have "(2::rat) powi (l - 1074) \<le> 2 powi (binade r + 1)" by (intro power_int_increasing) simp_all
  with 2 show ?thesis by simp
qed

lemma binade_lower:
  assumes "0 < r" and "- 1022 < binade r"
  shows "2 powi binade r \<le> r"
proof -
  define n where "n = nat \<lfloor>r * 2 ^ 1074\<rfloor>"
  define l where "l = int (bit_length n)"
  have e: "binade r = l - 1075" using assms(2) by (simp add: binade_def l_def n_def)
  with assms(2) have "0 < bit_length n" by (simp add: l_def)
  then have np: "0 < n" by (cases "n = 0") (simp_all add: bit_length.simps [of 0])
  have nn: "0 \<le> \<lfloor>r * 2 ^ 1074\<rfloor>" using assms by simp
  then have n: "(of_nat n :: rat) = of_int \<lfloor>r * 2 ^ 1074\<rfloor>" by (simp add: n_def)
  have "2 ^ (bit_length n - 1) \<le> n" using np by (rule bit_length_lower)
  then have "(of_nat (2 ^ (bit_length n - 1)) :: rat) \<le> of_nat n" by (simp only: of_nat_le_iff)
  then have "(2::rat) ^ (bit_length n - 1) \<le> of_int \<lfloor>r * 2 ^ 1074\<rfloor>" by (simp add: n)
  also have "\<dots> \<le> r * 2 ^ 1074" by simp
  finally have "(2::rat) ^ (bit_length n - 1) \<le> r * 2 ^ 1074" .
  moreover have "(2::rat) ^ (bit_length n - 1) = 2 powi (l - 1)"
    using \<open>0 < bit_length n\<close> by (simp add: l_def power_int_def nat_diff_distrib')
  moreover have "(2::rat) powi (l - 1) = 2 powi (l - 1075) * 2 powi 1074"
    by (simp add: power_int_add [symmetric] del: power_int_numeral)
  ultimately have 1: "2 powi (l - 1075) * 2 powi 1074 \<le> r * 2 powi 1074" by simp
  have "(0::rat) < 2 powi 1074" by simp
  with 1 have "2 powi (l - 1075) \<le> r" by (rule mult_le_cancel_right_pos [THEN iffD1, rotated])
  with e show ?thesis by simp
qed

lemma pow2_less_cancel: "(2::rat) powi a < 2 powi b \<Longrightarrow> a < b"
proof (rule ccontr)
  assume l: "(2::rat) powi a < 2 powi b" and "\<not> a < b"
  then have "b \<le> a" by simp
  then have "(2::rat) powi b \<le> 2 powi a" by (intro power_int_increasing) simp_all
  with l show False by simp
qed

lemma binade_eq:
  assumes "2 powi e \<le> r" and "r < 2 powi (e + 1)" and "- 1022 \<le> e"
  shows "binade r = e"
proof -
  have "(0::rat) < 2 powi e" by simp
  with assms(1) have r: "0 < r" by linarith
  from assms(1) binade_upper [OF r] have "(2::rat) powi e < 2 powi (binade r + 1)" by linarith
  then have "e < binade r + 1" by (rule pow2_less_cancel)
  then have 1: "e \<le> binade r" by simp
  have 2: "binade r \<le> e"
  proof (rule ccontr)
    assume "\<not> binade r \<le> e"
    then have g: "e < binade r" by simp
    with assms(3) have "- 1022 < binade r" by simp
    from binade_lower [OF r this] assms(2) have "(2::rat) powi binade r < 2 powi (e + 1)" by linarith
    then have "binade r < e + 1" by (rule pow2_less_cancel)
    with g show False by simp
  qed
  from 1 2 show ?thesis by simp
qed

lemma roundHalfEven_le:
  assumes "x < of_int n + 1 / 2"
  shows "roundHalfEven x \<le> n"
proof -
  have "\<lfloor>x\<rfloor> \<le> n" using assms by (simp add: floor_le_iff)
  then consider "\<lfloor>x\<rfloor> = n" | "\<lfloor>x\<rfloor> + 1 \<le> n" by linarith
  then show ?thesis
  proof cases
    case 1
    with assms have "x - of_int \<lfloor>x\<rfloor> < 1 / 2" by simp
    then show ?thesis using 1 by (simp add: roundHalfEven_def Let_def)
  next
    case 2
    then show ?thesis by (simp add: roundHalfEven_def Let_def)
  qed
qed

lemma roundHalfEven_le_int:
  assumes "x \<le> of_int n"
  shows "roundHalfEven x \<le> n"
proof (rule roundHalfEven_le)
  from assms show "x < of_int n + 1 / 2" by linarith
qed

lemma roundHalfEven_ge:
  assumes "of_int n \<le> x"
  shows "n \<le> roundHalfEven x"
proof -
  have "n \<le> \<lfloor>x\<rfloor>" using assms by (simp add: le_floor_iff)
  then show ?thesis by (simp add: roundHalfEven_def Let_def)
qed

lemma roundHalfEven_above:
  assumes "of_int n + 1 / 2 < x \<or> odd n \<and> of_int n + 1 / 2 \<le> x"
  shows "n + 1 \<le> roundHalfEven x"
proof -
  from assms have "of_int n \<le> x" by linarith
  then have "n \<le> \<lfloor>x\<rfloor>" by (simp add: le_floor_iff)
  then consider "\<lfloor>x\<rfloor> = n" | "n + 1 \<le> \<lfloor>x\<rfloor>" by linarith
  then show ?thesis
  proof cases
    case 1
    from assms show ?thesis
    proof
      assume "of_int n + 1 / 2 < x"
      with 1 have "1 / 2 < x - of_int \<lfloor>x\<rfloor>" by simp
      then show ?thesis using 1 by (simp add: roundHalfEven_def Let_def)
    next
      assume a: "odd n \<and> of_int n + 1 / 2 \<le> x"
      with 1 have "\<not> x - of_int \<lfloor>x\<rfloor> < 1 / 2" by simp
      then show ?thesis using 1 a by (simp add: roundHalfEven_def Let_def)
    qed
  next
    case 2
    then show ?thesis by (simp add: roundHalfEven_def Let_def)
  qed
qed

lemma pow2_shift:
  "(2::rat) powi (e + 1) = 2 ^ 53 * 2 powi (e - 52)" "(2::rat) powi e = 2 ^ 52 * 2 powi (e - 52)"
proof -
  have "e + 1 = 53 + (e - 52)" by simp
  then have "(2::rat) powi (e + 1) = 2 powi (53 + (e - 52))" by (rule arg_cong)
  also have "\<dots> = 2 powi 53 * 2 powi (e - 52)" by (rule power_int_add) simp
  finally show "(2::rat) powi (e + 1) = 2 ^ 53 * 2 powi (e - 52)" by simp
  have "e = 52 + (e - 52)" by simp
  then have "(2::rat) powi e = 2 powi (52 + (e - 52))" by (rule arg_cong)
  also have "\<dots> = 2 powi 52 * 2 powi (e - 52)" by (rule power_int_add) simp
  finally show "(2::rat) powi e = 2 ^ 52 * 2 powi (e - 52)" by simp
qed

text \<open>
  Rounding against a value \<open>k * 2\<^sup>e\<^sup>-\<^sup>5\<^sup>2\<close> of exponent \<open>e\<close> and its upper neighbour: what lies
  below their midpoint is rounded to at most the value, what lies above it to at least
  the neighbour, and the midpoint itself goes up when \<open>k\<close> is odd.
\<close>

lemma round64_below_midpoint:
  assumes r: "0 < r" and e: "- 1022 \<le> e" "e \<le> 1023" and k: "2 ^ 52 \<le> k" "k < 2 ^ 53"
    and m: "r < (of_int k + 1 / 2) * 2 powi (e - 52)"
  shows "\<exists>q. round64 r = Finite q \<and> 0 \<le> q \<and> q \<le> of_int k * 2 powi (e - 52)"
proof -
  define b where "b = binade r"
  define u where "u = (2::rat) powi (b - 52)"
  define v where "v = of_int (roundHalfEven (r / u)) * u"
  have up: "0 < u" by (simp add: u_def)
  note e1 = pow2_shift(1) [of e] and e0 = pow2_shift(2) [of e]
  from k(2) have "k + 1 \<le> 2 ^ 53" by simp
  then have "(of_int (k + 1) :: rat) \<le> of_int (2 ^ 53)" by (simp only: of_int_le_iff)
  then have kr: "(of_int k :: rat) + 1 \<le> 2 ^ 53" by simp
  have "(of_int k + 1 / 2) * 2 powi (e - 52) \<le> (2::rat) ^ 53 * 2 powi (e - 52)"
    using kr by (intro mult_right_mono) simp_all
  then have "(of_int k + 1 / 2) * 2 powi (e - 52) \<le> (2::rat) powi (e + 1)" by (simp only: e1)
  with m have re: "r < 2 powi (e + 1)" by linarith
  have be: "b \<le> e"
  proof (cases "- 1022 < b")
    case True
    from binade_lower [OF r] True have "2 powi b \<le> r" by (simp add: b_def)
    with re have "(2::rat) powi b < 2 powi (e + 1)" by linarith
    then have "b < e + 1" by (rule pow2_less_cancel)
    then show ?thesis by simp
  next
    case False
    with e show ?thesis by simp
  qed
  have "v \<le> of_int k * 2 powi (e - 52)"
  proof (cases "b = e")
    case True
    then have "r < (of_int k + 1 / 2) * u" using m by (simp add: u_def)
    then have "r / u < of_int k + 1 / 2" using up by (simp add: pos_divide_less_eq)
    then have "roundHalfEven (r / u) \<le> k" by (rule roundHalfEven_le)
    then have "(of_int (roundHalfEven (r / u)) :: rat) \<le> of_int k" by simp
    then have "v \<le> of_int k * u" unfolding v_def using up by (intro mult_right_mono) simp_all
    with True show ?thesis by (simp add: u_def)
  next
    case False
    with be have lt: "b + 1 \<le> e" by simp
    have b1: "(2::rat) powi (b + 1) = 2 ^ 53 * u"
      unfolding u_def by (rule pow2_shift(1))
    from binade_upper [OF r] have "r < 2 powi (b + 1)" by (simp only: b_def)
    then have "r < 2 ^ 53 * u" by (simp only: b1)
    then have "r / u < 2 ^ 53" using up by (simp add: pos_divide_less_eq)
    then have "r / u \<le> of_int (2 ^ 53)" by simp
    then have "roundHalfEven (r / u) \<le> 2 ^ 53" by (rule roundHalfEven_le_int)
    then have "(of_int (roundHalfEven (r / u)) :: rat) \<le> of_int (2 ^ 53)" by (simp only: of_int_le_iff)
    then have "v \<le> 2 ^ 53 * u" unfolding v_def using up by (intro mult_right_mono) simp_all
    also have "\<dots> = 2 powi (b + 1)" by (simp add: b1)
    also have "\<dots> \<le> 2 powi e" using lt by (intro power_int_increasing) simp_all
    also have "\<dots> = 2 ^ 52 * 2 powi (e - 52)" by (rule e0)
    also have "\<dots> \<le> of_int k * 2 powi (e - 52)"
    proof (intro mult_right_mono)
      from k(1) have "(of_int (2 ^ 52) :: rat) \<le> of_int k" by (simp only: of_int_le_iff)
      then show "(2::rat) ^ 52 \<le> of_int k" by simp
    qed simp
    finally show ?thesis .
  qed
  moreover have "of_int k * 2 powi (e - 52) < (2::rat) ^ 1024"
  proof -
    have "of_int k * 2 powi (e - 52) < (2::rat) ^ 53 * 2 powi (e - 52)"
      using kr by (intro mult_strict_right_mono) simp_all
    also have "\<dots> = 2 powi (e + 1)" by (simp add: e1)
    also have "\<dots> \<le> 2 powi 1024" using e by (intro power_int_increasing) simp_all
    finally show ?thesis by simp
  qed
  moreover have "0 \<le> v"
  proof -
    have "0 \<le> r / u" using r up by simp
    then have "of_int 0 \<le> r / u" by simp
    then have "0 \<le> roundHalfEven (r / u)" by (rule roundHalfEven_ge)
    then show ?thesis unfolding v_def using up by simp
  qed
  moreover have "round64 r = (if 2 ^ 1024 \<le> v then Infinity else Finite v)"
    using r by (simp add: round64_def round_pos_def Let_def v_def u_def b_def)
  ultimately show ?thesis by simp
qed

lemma round64_above_midpoint:
  assumes r: "0 < r" and e: "- 1022 \<le> e" and k: "2 ^ 52 \<le> k" "k < 2 ^ 53"
    and m: "(of_int k + 1 / 2) * 2 powi (e - 52) < r
            \<or> odd k \<and> (of_int k + 1 / 2) * 2 powi (e - 52) \<le> r"
  shows "round64 r = Infinity \<or> (\<exists>q. round64 r = Finite q \<and> (of_int k + 1) * 2 powi (e - 52) \<le> q)"
proof -
  define b where "b = binade r"
  define u where "u = (2::rat) powi (b - 52)"
  define v where "v = of_int (roundHalfEven (r / u)) * u"
  have up: "0 < u" by (simp add: u_def)
  note e1 = pow2_shift(1) [of e] and e0 = pow2_shift(2) [of e]
  from k(2) have "k + 1 \<le> 2 ^ 53" by simp
  then have "(of_int (k + 1) :: rat) \<le> of_int (2 ^ 53)" by (simp only: of_int_le_iff)
  then have kr: "(of_int k :: rat) + 1 \<le> 2 ^ 53" by simp
  from k(1) have "(of_int (2 ^ 52) :: rat) \<le> of_int k" by (simp only: of_int_le_iff)
  then have k0: "(2::rat) ^ 52 \<le> of_int k" by simp
  have "(2::rat) ^ 52 * 2 powi (e - 52) \<le> (of_int k + 1 / 2) * 2 powi (e - 52)"
    using k0 by (intro mult_right_mono) simp_all
  then have "(2::rat) powi e \<le> (of_int k + 1 / 2) * 2 powi (e - 52)" by (simp only: e0)
  with m have "2 powi e \<le> r" by linarith
  with binade_upper [OF r] have "(2::rat) powi e < 2 powi (b + 1)" by (simp add: b_def)
  then have "e < b + 1" by (rule pow2_less_cancel)
  then have be: "e \<le> b" by simp
  have "(of_int k + 1) * 2 powi (e - 52) \<le> v"
  proof (cases "b = e")
    case True
    then have "(of_int k + 1 / 2) * u < r \<or> odd k \<and> (of_int k + 1 / 2) * u \<le> r"
      using m by (simp add: u_def)
    then have "of_int k + 1 / 2 < r / u \<or> odd k \<and> of_int k + 1 / 2 \<le> r / u"
      using up by (simp add: pos_less_divide_eq pos_le_divide_eq)
    then have "k + 1 \<le> roundHalfEven (r / u)" by (rule roundHalfEven_above)
    then have "(of_int (k + 1) :: rat) \<le> of_int (roundHalfEven (r / u))" by (simp only: of_int_le_iff)
    then have "(of_int k + 1) * u \<le> v" unfolding v_def using up by (intro mult_right_mono) simp_all
    with True show ?thesis by (simp add: u_def)
  next
    case False
    with be have lt: "e + 1 \<le> b" by simp
    with e have "- 1022 < b" by simp
    from binade_lower [OF r] this have br: "2 powi b \<le> r" by (simp add: b_def)
    have b0: "(2::rat) powi b = 2 ^ 52 * u"
      unfolding u_def by (rule pow2_shift(2))
    from br have "2 ^ 52 * u \<le> r" by (simp add: b0)
    then have "2 ^ 52 \<le> r / u" using up by (simp add: pos_le_divide_eq)
    then have "of_int (2 ^ 52) \<le> r / u" by simp
    then have "2 ^ 52 \<le> roundHalfEven (r / u)" by (rule roundHalfEven_ge)
    then have "(of_int (2 ^ 52) :: rat) \<le> of_int (roundHalfEven (r / u))" by (simp only: of_int_le_iff)
    then have "2 ^ 52 * u \<le> v" unfolding v_def using up by (intro mult_right_mono) simp_all
    then have "2 powi b \<le> v" by (simp add: b0)
    moreover have "(2::rat) powi (e + 1) \<le> 2 powi b" using lt by (intro power_int_increasing) simp_all
    moreover have "(of_int k + 1) * 2 powi (e - 52) \<le> (2::rat) ^ 53 * 2 powi (e - 52)"
      using kr by (intro mult_right_mono) simp_all
    ultimately show ?thesis using e1 by linarith
  qed
  moreover have "round64 r = (if 2 ^ 1024 \<le> v then Infinity else Finite v)"
    using r by (simp add: round64_def round_pos_def Let_def v_def u_def b_def)
  ultimately show ?thesis by simp
qed

text \<open>Rounding within a known exponent.\<close>

lemma round64_exponent:
  assumes "2 powi e \<le> r" and "r < 2 powi (e + 1)" and "- 1022 \<le> e" and "e \<le> 1022"
  shows "round64 r = Finite (of_int (roundHalfEven (r / 2 powi (e - 52))) * 2 powi (e - 52))"
proof -
  define u where "u = (2::rat) powi (e - 52)"
  define v where "v = of_int (roundHalfEven (r / u)) * u"
  have up: "0 < u" by (simp add: u_def)
  have "(0::rat) < 2 powi e" by simp
  with assms(1) have r: "0 < r" by linarith
  have b: "binade r = e" using assms(1-3) by (rule binade_eq)
  from assms(2) have "r < 2 ^ 53 * u" by (simp only: pow2_shift(1) u_def)
  then have "r / u \<le> of_int (2 ^ 53)" using up by (simp add: pos_divide_le_eq)
  then have "roundHalfEven (r / u) \<le> 2 ^ 53" by (rule roundHalfEven_le_int)
  then have "(of_int (roundHalfEven (r / u)) :: rat) \<le> of_int (2 ^ 53)" by (simp only: of_int_le_iff)
  then have "v \<le> 2 ^ 53 * u" unfolding v_def using up by (intro mult_right_mono) simp_all
  also have "\<dots> = 2 powi (e + 1)" by (simp only: pow2_shift(1) u_def)
  also have "\<dots> \<le> 2 powi 1023" using assms(4) by (intro power_int_increasing) simp_all
  also have "\<dots> < 2 powi 1024" by (intro power_int_strict_increasing) simp_all
  finally have "\<not> 2 ^ 1024 \<le> v" by simp
  moreover have "round64 r = (if 2 ^ 1024 \<le> v then Infinity else Finite v)"
    using r b by (simp add: round64_def round_pos_def Let_def v_def u_def)
  ultimately show ?thesis by (simp add: v_def u_def)
qed

lemma roundHalfEven_eq:
  assumes "of_int n - 1 / 2 < x" and "x < of_int n + 1 / 2"
  shows "roundHalfEven x = n"
proof -
  from assms(2) have "roundHalfEven x \<le> n" by (rule roundHalfEven_le)
  moreover from assms(1) have "of_int (n - 1) + 1 / 2 < x \<or> odd (n - 1) \<and> of_int (n - 1) + 1 / 2 \<le> x"
    by simp
  then have "n - 1 + 1 \<le> roundHalfEven x" by (rule roundHalfEven_above)
  ultimately show ?thesis by simp
qed

lemma round64_value:
  assumes "2 powi e \<le> r" and "r < 2 powi (e + 1)" and "- 1022 \<le> e" and "e \<le> 1022"
    and "of_int n - 1 / 2 < r / 2 powi (e - 52)" and "r / 2 powi (e - 52) < of_int n + 1 / 2"
  shows "round64 r = Finite (of_int n * 2 powi (e - 52))"
  using round64_exponent [OF assms(1-4)] roundHalfEven_eq [OF assms(5,6)] by simp

lemma round64_sign:
  "r \<le> 0 \<Longrightarrow> \<not> js_gt (round64 r) (Finite 0)"
proof -
  assume r: "r \<le> 0"
  show ?thesis
  proof (cases "r = 0")
    case True
    then show ?thesis by (simp add: round64_def js_gt_def js_lt_def)
  next
    case False
    with r have n: "0 < - r" by simp
    define u where "u = (2::rat) powi (binade (- r) - 52)"
    have up: "0 < u" by (simp add: u_def)
    from n up have "0 \<le> - r / u" by (intro divide_nonneg_pos) simp_all
    then have "of_int 0 \<le> - r / u" by simp
    then have "0 \<le> roundHalfEven (- r / u)" by (rule roundHalfEven_ge)
    then have "0 \<le> of_int (roundHalfEven (- r / u)) * u" using up by simp
    then show ?thesis using False r
      by (simp add: round64_def round_pos_def Let_def u_def negate_def js_gt_def js_lt_def)
  qed
qed

text \<open>
  The test \<open>(x / y) * 100 > 90\<close> in binary64. \<open>0.9\<close> lies between the neighbouring values
  \<open>8106479329266893 / 2\<^sup>5\<^sup>3\<close> and \<open>8106479329266894 / 2\<^sup>5\<^sup>3\<close>; a hundred times the first is rounded
  to 90 and a hundred times the second to the value above 90. So the test holds exactly
  from the midpoint of the two on, \<open>16212958658533787 / 2\<^sup>5\<^sup>4\<close>, which the quotient rounds
  upwards.
\<close>

lemma percent_above:
  assumes "16212958658533787 / 2 ^ 54 \<le> r"
  shows "js_gt (js_mul (round64 r) (Finite 100)) (Finite 90)"
proof -
  have r: "0 < r" using assms by simp
  have "(of_int 8106479329266893 + 1 / 2) * 2 powi (- 1 - 52) = (16212958658533787 / 2 ^ 54 :: rat)"
    by simp
  with assms have "odd (8106479329266893::int)
      \<and> (of_int 8106479329266893 + 1 / 2) * 2 powi (- 1 - 52) \<le> r" by simp
  then have "(of_int 8106479329266893 + 1 / 2) * 2 powi (- 1 - 52) < r
      \<or> odd (8106479329266893::int) \<and> (of_int 8106479329266893 + 1 / 2) * 2 powi (- 1 - 52) \<le> r" ..
  then have "round64 r = Infinity
      \<or> (\<exists>q. round64 r = Finite q \<and> (of_int 8106479329266893 + 1) * 2 powi (- 1 - 52) \<le> q)"
    by (rule round64_above_midpoint [OF r, rotated 3]) simp_all
  then show ?thesis
  proof
    assume "round64 r = Infinity"
    then show ?thesis by (simp add: js_mul_def js_gt_def js_lt_def)
  next
    assume "\<exists>q. round64 r = Finite q \<and> (of_int 8106479329266893 + 1) * 2 powi (- 1 - 52) \<le> q"
    then obtain q where q: "round64 r = Finite q"
      and b: "(of_int 8106479329266893 + 1) * 2 powi (- 1 - 52) \<le> q" by blast
    have "(of_int 8106479329266893 + 1) * 2 powi (- 1 - 52) = (8106479329266894 / 2 ^ 53 :: rat)"
      by simp
    with b have b': "8106479329266894 / 2 ^ 53 \<le> q" by simp
    then have "8106479329266894 / 2 ^ 53 * 100 \<le> q * 100" by simp
    moreover have "(of_int 6333186975989760 + 1 / 2) * 2 powi (6 - 52)
                    < (8106479329266894 / 2 ^ 53 * 100 :: rat)" by simp
    ultimately have m: "(of_int 6333186975989760 + 1 / 2) * 2 powi (6 - 52) < q * 100" by linarith
    from b' have qp: "0 < q * 100" by simp
    have "round64 (q * 100) = Infinity
        \<or> (\<exists>p. round64 (q * 100) = Finite p \<and> (of_int 6333186975989760 + 1) * 2 powi (6 - 52) \<le> p)"
    proof (rule round64_above_midpoint [OF qp])
      show "(of_int 6333186975989760 + 1 / 2) * 2 powi (6 - 52) < q * 100
          \<or> odd (6333186975989760::int) \<and> (of_int 6333186975989760 + 1 / 2) * 2 powi (6 - 52) \<le> q * 100"
        using m ..
    qed simp_all
    then show ?thesis
    proof
      assume "round64 (q * 100) = Infinity"
      with q show ?thesis by (simp add: js_mul_def js_gt_def js_lt_def)
    next
      assume "\<exists>p. round64 (q * 100) = Finite p \<and> (of_int 6333186975989760 + 1) * 2 powi (6 - 52) \<le> p"
      then obtain p where p: "round64 (q * 100) = Finite p"
        and pb: "(of_int 6333186975989760 + 1) * 2 powi (6 - 52) \<le> p" by blast
      have "(90::rat) < (of_int 6333186975989760 + 1) * 2 powi (6 - 52)" by simp
      with pb have "90 < p" by linarith
      with p q show ?thesis by (simp add: js_mul_def js_gt_def js_lt_def)
    qed
  qed
qed

lemma percent_below:
  assumes "0 < r" and "r < 16212958658533787 / 2 ^ 54"
  shows "\<not> js_gt (js_mul (round64 r) (Finite 100)) (Finite 90)"
proof -
  have "(of_int 8106479329266893 + 1 / 2) * 2 powi (- 1 - 52) = (16212958658533787 / 2 ^ 54 :: rat)"
    by simp
  with assms have "r < (of_int 8106479329266893 + 1 / 2) * 2 powi (- 1 - 52)" by simp
  from round64_below_midpoint [OF assms(1) _ _ _ _ this]
  obtain q where q: "round64 r = Finite q" and q0: "0 \<le> q"
    and b: "q \<le> of_int 8106479329266893 * 2 powi (- 1 - 52)" by auto
  show ?thesis
  proof (cases "q = 0")
    case True
    with q show ?thesis by (simp add: js_mul_def round64_def js_gt_def js_lt_def)
  next
    case False
    with q0 have qp: "0 < q * 100" by simp
    have "of_int 8106479329266893 * 2 powi (- 1 - 52) = (8106479329266893 / 2 ^ 53 :: rat)"
      by simp
    with b have "q \<le> 8106479329266893 / 2 ^ 53" by simp
    then have "q * 100 \<le> 8106479329266893 / 2 ^ 53 * 100" by simp
    moreover have "(8106479329266893 / 2 ^ 53 * 100 :: rat)
                     < (of_int 6333186975989760 + 1 / 2) * 2 powi (6 - 52)" by simp
    ultimately have "q * 100 < (of_int 6333186975989760 + 1 / 2) * 2 powi (6 - 52)" by linarith
    from round64_below_midpoint [OF qp _ _ _ _ this]
    obtain p where p: "round64 (q * 100) = Finite p"
      and "p \<le> of_int 6333186975989760 * 2 powi (6 - 52)" by auto
    moreover have "of_int 6333186975989760 * 2 powi (6 - 52) = (90::rat)" by simp
    ultimately have "p \<le> 90" by simp
    with p q show ?thesis by (simp add: js_mul_def js_gt_def js_lt_def)
  qed
qed

lemma completed_threshold:
  assumes "0 < x" and "0 < y"
  shows "js_gt (js_mul (js_div (Finite x) (Finite y)) (Finite 100)) (Finite 90)
           \<longleftrightarrow> 16212958658533787 / 2 ^ 54 \<le> x / y"
proof -
  from assms have r: "0 < x / y" by simp
  from assms have d: "js_div (Finite x) (Finite y) = round64 (x / y)" by (simp add: js_div_def)
  show ?thesis
  proof (cases "16212958658533787 / 2 ^ 54 \<le> x / y")
    case True
    then show ?thesis unfolding d using percent_above by simp
  next
    case False
    then have "x / y < 16212958658533787 / 2 ^ 54" by simp
    from percent_below [OF r this] False show ?thesis unfolding d by simp
  qed
qed

subsection \<open>WatchProgressTracker\<close>

lemma round64_values:
  "round64 400 = Finite 400"
  "round64 500 = Finite 500"
  "round64 (4 / 5) = Finite (3602879701896397 / 2 ^ 52)"
  "round64 (3602879701896397 / 2 ^ 52 * 100) = Finite 80"
  "round64 (9 / 10) = Finite (8106479329266893 / 2 ^ 53)"
proof -
  show "round64 400 = Finite 400"
    using round64_value [of 8 400 7036874417766400] by simp
  show "round64 500 = Finite 500"
    using round64_value [of 8 500 8796093022208000] by simp
  show "round64 (4 / 5) = Finite (3602879701896397 / 2 ^ 52)"
    using round64_value [of "- 1" "4 / 5" 7205759403792794] by simp
  show "round64 (3602879701896397 / 2 ^ 52 * 100) = Finite 80"
    using round64_value [of 6 "3602879701896397 / 2 ^ 52 * 100" 5629499534213120] by simp
  show "round64 (9 / 10) = Finite (8106479329266893 / 2 ^ 53)"
    using round64_value [of "- 1" "9 / 10" 8106479329266893] by simp
qed

text \<open>
  The decimal literals \<open>90.126\<close> and \<open>100.14\<close> denote the binary64 values
  \<open>3171026718878073 / 2\<^sup>4\<^sup>5\<close> and \<open>7046726041951273 / 2\<^sup>4\<^sup>6\<close>.
\<close>

lemma round64_literals:
  "round64 (90126 / 1000) = Finite (3171026718878073 / 2 ^ 45)"
  "round64 (10014 / 100) = Finite (7046726041951273 / 2 ^ 46)"
proof -
  show "round64 (90126 / 1000) = Finite (3171026718878073 / 2 ^ 45)"
    using round64_value [of 6 "90126 / 1000" 6342053437756146] by simp
  show "round64 (10014 / 100) = Finite (7046726041951273 / 2 ^ 46)"
    using round64_value [of 6 "10014 / 100" 7046726041951273] by simp
qed

text \<open>
  The same threshold in the script's own arithmetic: the rounded quotient exceeds the
  binary64 value of \<open>0.9\<close>.
\<close>

lemma quotient_threshold:
  assumes "0 < r"
  shows "js_gt (round64 r) (round64 (9 / 10)) \<longleftrightarrow> 16212958658533787 / 2 ^ 54 \<le> r"
proof (cases "16212958658533787 / 2 ^ 54 \<le> r")
  case True
  have "(of_int 8106479329266893 + 1 / 2) * 2 powi (- 1 - 52) = (16212958658533787 / 2 ^ 54 :: rat)"
    by simp
  with True have "odd (8106479329266893::int)
      \<and> (of_int 8106479329266893 + 1 / 2) * 2 powi (- 1 - 52) \<le> r" by simp
  then have "(of_int 8106479329266893 + 1 / 2) * 2 powi (- 1 - 52) < r
      \<or> odd (8106479329266893::int) \<and> (of_int 8106479329266893 + 1 / 2) * 2 powi (- 1 - 52) \<le> r" ..
  then have "round64 r = Infinity
      \<or> (\<exists>q. round64 r = Finite q \<and> (of_int 8106479329266893 + 1) * 2 powi (- 1 - 52) \<le> q)"
    by (rule round64_above_midpoint [OF assms, rotated 3]) simp_all
  then have "js_gt (round64 r) (round64 (9 / 10))"
  proof
    assume "round64 r = Infinity"
    then show ?thesis by (simp add: round64_values js_gt_def js_lt_def)
  next
    assume "\<exists>q. round64 r = Finite q \<and> (of_int 8106479329266893 + 1) * 2 powi (- 1 - 52) \<le> q"
    then obtain q where q: "round64 r = Finite q"
      and b: "(of_int 8106479329266893 + 1) * 2 powi (- 1 - 52) \<le> q" by blast
    have "(8106479329266893 / 2 ^ 53 :: rat) < (of_int 8106479329266893 + 1) * 2 powi (- 1 - 52)"
      by simp
    with b have "8106479329266893 / 2 ^ 53 < q" by linarith
    with q show ?thesis by (simp add: round64_values js_gt_def js_lt_def)
  qed
  with True show ?thesis by simp
next
  case False
  have "(of_int 8106479329266893 + 1 / 2) * 2 powi (- 1 - 52) = (16212958658533787 / 2 ^ 54 :: rat)"
    by simp
  with False have "r < (of_int 8106479329266893 + 1 / 2) * 2 powi (- 1 - 52)" by simp
  from round64_below_midpoint [OF assms _ _ _ _ this]
  obtain q where q: "round64 r = Finite q"
    and b: "q \<le> of_int 8106479329266893 * 2 powi (- 1 - 52)" by auto
  have "of_int 8106479329266893 * 2 powi (- 1 - 52) = (8106479329266893 / 2 ^ 53 :: rat)"
    by simp
  with b have "q \<le> 8106479329266893 / 2 ^ 53" by simp
  with q have "\<not> js_gt (round64 r) (round64 (9 / 10))"
    by (simp add: round64_values js_gt_def js_lt_def)
  with False show ?thesis by simp
qed

lemma completed_finite:
  assumes "60 \<le> x"
  shows "js_gt (progressPercent (Finite x) (Finite y)) (Finite 90)
           \<longleftrightarrow> 0 < y \<and> 16212958658533787 / 2 ^ 54 \<le> x / y"
proof (cases "0 < y")
  case True
  from assms have "0 < x" by simp
  from completed_threshold [OF this True] True show ?thesis
    by (simp add: progressPercent_def js_gt_def [of "Finite y"] js_lt_def)
next
  case False
  then show ?thesis by (simp add: progressPercent_def js_gt_def js_lt_def)
qed

lemma quotient_finite:
  assumes "60 \<le> x" and "0 < y"
  shows "js_gt (js_div (Finite x) (Finite y)) (round64 (9 / 10))
           \<longleftrightarrow> 16212958658533787 / 2 ^ 54 \<le> x / y"
proof -
  from assms have "0 < x / y" by simp
  from quotient_threshold [OF this] assms(2) show ?thesis by (simp add: js_div_def)
qed

lemma updateWatchProgress_row:
  assumes "currentUser a = Some u" and "\<not> js_lt p (Finite 60)" and "cw_upsert b = WriteOk"
  shows "continue_watching (updateWatchProgress b (Some m) p d a) (uid u, item_id m) =
           Some \<lparr>cw_user_id = uid u, cw_media_id = item_id m, cw_media_type = media_type m,
                 cw_title = or_string (title m) (item_name m), cw_poster_path = poster_path m,
                 watch_progress = column (js_floor p), total_duration = column (js_floor d),
                 last_watched_at = iso_now b,
                 completed = js_gt (progressPercent p d) (Finite 90),
                 season = (if media_type m = ''tv'' then Some (currentSeason a) else None),
                 episode = (if media_type m = ''tv'' then Some (currentEpisode a) else None)\<rparr>"
  using assms by (simp add: updateWatchProgress_def Let_def)

lemma column_floor: "column (js_floor (Finite x)) = Some \<lfloor>x\<rfloor>"
  by (simp add: column_def js_floor_def)

lemma not_before_sixty: "\<not> js_lt (Finite x) (Finite 60) \<longleftrightarrow> 60 \<le> x"
  by (simp add: js_lt_def not_less)

lemma updateWatchProgress_user:
  "currentUser (updateWatchProgress b m p d a) = currentUser a"
  by (simp add: updateWatchProgress_def Let_def split: option.splits write_outcome.splits)

lemma loadContinueWatching_rows:
  "currentUser a \<noteq> None \<Longrightarrow>
   continueWatching (loadContinueWatching (Resolved (Some rows) None) a) = map cw_entry_of rows"
  by (cases "currentUser a") (simp_all add: loadContinueWatching_def Let_def)

lemma entry_percentage:
  "progress_percentage (cw_entry_of r) =
     (if js_gt (as_number (total_duration r)) (Finite 0)
      then js_mul (js_div (as_number (watch_progress r)) (as_number (total_duration r)))
             (Finite 100)
      else Finite 0)"
  by (simp add: cw_entry_of_def)

lemma entry_percentage_80:
  assumes "watch_progress r = Some 400" and "total_duration r = Some 500"
  shows "progress_percentage (cw_entry_of r) = Finite 80"
  using assms
  by (simp add: entry_percentage as_number_def num_def round64_values [simplified] js_gt_def
        js_lt_def js_div_def js_mul_def)

text \<open>
  An entry whose division is inexact: 70 of 250 seconds is rendered as
  \<open>28.000000000000004\<close>.
\<close>

lemma entry_percentage_inexact:
  "progress_percentage (cw_entry_of (demo_cw_row (Some 70) (Some 250)))
     = Finite (7881299347898369 / 2 ^ 48)"
proof -
  have 1: "round64 70 = Finite 70"
    using round64_value [of 6 70 4925812092436480] by simp
  have 2: "round64 250 = Finite 250"
    using round64_value [of 7 250 8796093022208000] by simp
  have 3: "round64 (7 / 25) = Finite (1261007895663739 / 2 ^ 52)"
    using round64_value [of "- 2" "7 / 25" 5044031582654956] by simp
  have 4: "round64 (1261007895663739 / 2 ^ 52 * 100) = Finite (7881299347898369 / 2 ^ 48)"
    using round64_value [of 4 "1261007895663739 / 2 ^ 52 * 100" 7881299347898369] by simp
  from 4 show ?thesis
    by (simp add: entry_percentage demo_cw_row_def as_number_def num_def 1 2 3 js_gt_def
          js_lt_def js_div_def js_mul_def)
qed

lemma demo_app_user: "currentUser (demo_app u ok) = u"
  by (simp add: demo_app_def)

lemma demo_simps:
  "uid demo_user = ''user-1''" "item_id demo_movie = 603" "cw_upsert demo_browser = WriteOk"
  by (simp_all add: demo_user_def demo_movie_def demo_browser_def)

lemma progressPercent_guard: "\<not> js_gt d (Finite 0) \<Longrightarrow> progressPercent p d = Finite 0"
  by (simp add: progressPercent_def)

lemma entry_guard:
  "num (total_duration r) \<le> 0 \<Longrightarrow> progress_percentage (cw_entry_of r) = Finite 0"
  by (simp add: entry_percentage as_number_def round64_sign)
text \<open>
  C7, as stated, fails. The literals \<open>90.126\<close> and \<open>100.14\<close> denote binary64 values whose
  quotient exceeds \<open>0.90\<close>, by about \<open>4 * 10\<^sup>-\<^sup>1\<^sup>7\<close>; the script rounds the quotient to the
  binary64 value of \<open>0.9\<close> and a hundred times that to 90, which is not greater than 90, so
  the row is stored with \<open>completed = false\<close>. And with a duration of zero the script's
  quotient \<open>100 / 0\<close> is \<open>Infinity\<close>, which exceeds \<open>0.90\<close>, while the guard stores
  \<open>completed = false\<close>.
\<close>

theorem updateWatchProgress_rounding_counterexample:
  "round64 (90126 / 1000) = Finite (3171026718878073 / 2 ^ 45)
 \<and> round64 (10014 / 100) = Finite (7046726041951273 / 2 ^ 46)
 \<and> (9::rat) / 10 < (3171026718878073 / 2 ^ 45) / (7046726041951273 / 2 ^ 46)
 \<and> (\<exists>row. continue_watching
             (updateWatchProgress demo_browser (Some demo_movie)
                (Finite (3171026718878073 / 2 ^ 45)) (Finite (7046726041951273 / 2 ^ 46))
                (demo_app (Some demo_user) True)) (''user-1'', 603) = Some row
        \<and> watch_progress row = Some 90 \<and> total_duration row = Some 100
        \<and> \<not> completed row)
 \<and> js_gt (js_div (Finite 100) (Finite 0)) (round64 (9 / 10))
 \<and> (\<exists>row. continue_watching
             (updateWatchProgress demo_browser (Some demo_movie) (Finite 100) (Finite 0)
                (demo_app (Some demo_user) True)) (''user-1'', 603) = Some row
        \<and> \<not> completed row)"
proof -
  define x :: rat where "x = 3171026718878073 / 2 ^ 45"
  define y :: rat where "y = 7046726041951273 / 2 ^ 46"
  have x60: "\<not> js_lt (Finite x) (Finite 60)" by (simp add: x_def js_lt_def)
  have c: "\<not> js_gt (progressPercent (Finite x) (Finite y)) (Finite 90)"
  proof -
    have "60 \<le> x" by (simp add: x_def)
    from completed_finite [OF this, of y] show ?thesis by (simp add: x_def y_def)
  qed
  have "\<lfloor>x\<rfloor> = 90" unfolding x_def by (rule floor_unique) simp_all
  moreover have "\<lfloor>y\<rfloor> = 100" unfolding y_def by (rule floor_unique) simp_all
  ultimately have fl: "column (js_floor (Finite x)) = Some 90"
      "column (js_floor (Finite y)) = Some 100"
    by (simp_all add: column_floor)
  have 4: "\<exists>row. continue_watching
             (updateWatchProgress demo_browser (Some demo_movie) (Finite x) (Finite y)
                (demo_app (Some demo_user) True)) (''user-1'', 603) = Some row
        \<and> watch_progress row = Some 90 \<and> total_duration row = Some 100
        \<and> \<not> completed row"
    using updateWatchProgress_row [OF demo_app_user [of "Some demo_user" True] x60 demo_simps(3), of demo_movie "Finite y"] c
    by (simp add: demo_simps fl)
  have 5: "js_gt (js_div (Finite 100) (Finite 0)) (round64 (9 / 10))"
    by (simp add: js_div_def round64_values js_gt_def js_lt_def)
  have z60: "\<not> js_lt (Finite 100) (Finite 60)" by (simp add: js_lt_def)
  have 6: "\<exists>row. continue_watching
             (updateWatchProgress demo_browser (Some demo_movie) (Finite 100) (Finite 0)
                (demo_app (Some demo_user) True)) (''user-1'', 603) = Some row
        \<and> \<not> completed row"
    using updateWatchProgress_row [OF demo_app_user [of "Some demo_user" True] z60 demo_simps(3), of demo_movie "Finite 0"]
    by (simp add: demo_simps progressPercent_def js_gt_def js_lt_def)
  have 3: "(9::rat) / 10 < x / y" by (simp add: x_def y_def)
  from round64_literals 3 4 5 6 show ?thesis unfolding x_def y_def by (intro conjI)
qed

lemma round64_zero: "round64 0 = Finite 0"
  by (simp add: round64_def)

text \<open>
  The stored flag in the script's own terms, for every position that passes the guard
  \<open>currentTime < 60\<close> (a number of at least 60, \<open>Infinity\<close> or \<open>NaN\<close>) and every duration.
\<close>

lemma completed_script:
  assumes "\<not> js_lt p (Finite 60)"
  shows "js_gt (progressPercent p d) (Finite 90)
           \<longleftrightarrow> js_gt d (Finite 0) \<and> js_gt (js_div p d) (round64 (9 / 10))"
proof (cases p)
  case p: (Finite x)
  with assms have x: "60 \<le> x" by (simp add: js_lt_def)
  show ?thesis
  proof (cases d)
    case d: (Finite y)
    show ?thesis
    proof (cases "0 < y")
      case True
      with completed_finite [OF x, of y] quotient_finite [OF x True] show ?thesis
        unfolding p d by (simp add: js_gt_def [of "Finite y"] js_lt_def)
    next
      case False
      with completed_finite [OF x, of y] show ?thesis
        unfolding p d by (simp add: js_gt_def [of "Finite y"] js_lt_def)
    qed
  next
    case Infinity
    then show ?thesis unfolding p
      by (simp add: progressPercent_def js_div_def js_mul_def round64_zero round64_values
            js_gt_def js_lt_def)
  next
    case NegInfinity
    then show ?thesis unfolding p by (simp add: progressPercent_def js_gt_def js_lt_def)
  next
    case NaN
    then show ?thesis unfolding p by (simp add: progressPercent_def js_gt_def js_lt_def)
  qed
next
  case p: Infinity
  show ?thesis unfolding p
    by (cases d)
       (simp_all add: progressPercent_def js_div_def js_mul_def round64_values js_gt_def js_lt_def)
next
  case NegInfinity
  with assms show ?thesis by (simp add: js_lt_def)
next
  case p: NaN
  show ?thesis unfolding p
    by (cases d)
       (simp_all add: progressPercent_def js_div_def js_mul_def round64_values js_gt_def js_lt_def)
qed

text \<open>
  C7, amended. For every call of \<open>updateWatchProgress\<close> by a signed-in user whose
  position passes the guard \<open>currentTime < 60\<close> and whose upsert is accepted, the stored
  row holds the floors of position and duration, and \<open>completed\<close> is true exactly when the
  duration is greater than zero and, in the script's binary64 arithmetic, the quotient
  position / duration exceeds \<open>0.9\<close>. For a finite position and duration that is, in
  exact terms: the duration is greater than zero and position / duration is at least
  \<open>16212958658533787 / 2\<^sup>5\<^sup>4\<close>, which lies about \<open>7.8 * 10\<^sup>-\<^sup>1\<^sup>7\<close> above \<open>0.90\<close>; so a completed
  row has position / duration above \<open>0.90\<close>, and a quotient above \<open>0.90\<close> by less than that
  margin is not completed. In particular position 400 with duration 500 stores a row
  that is not completed and that \<open>loadContinueWatching\<close> renders with
  \<open>progress_percentage = 80\<close>, and position 460 with duration 500 stores a completed row.
\<close>

theorem updateWatchProgress_completed_threshold:
  "currentUser a = Some u \<and> \<not> js_lt p (Finite 60) \<and> cw_upsert b = WriteOk \<longrightarrow>
     (\<exists>row. continue_watching (updateWatchProgress b (Some m) p d a) (uid u, item_id m) = Some row
        \<and> watch_progress row = column (js_floor p) \<and> total_duration row = column (js_floor d)
        \<and> (completed row \<longleftrightarrow>
              js_gt d (Finite 0) \<and> js_gt (js_div p d) (round64 (9 / 10)))
        \<and> (\<forall>x y. p = Finite x \<and> d = Finite y \<longrightarrow>
                watch_progress row = Some \<lfloor>x\<rfloor> \<and> total_duration row = Some \<lfloor>y\<rfloor>
              \<and> (completed row \<longleftrightarrow> 0 < y \<and> 16212958658533787 / 2 ^ 54 \<le> x / y)
              \<and> (completed row \<longrightarrow> 9 / 10 < x / y))
        \<and> (p = Finite 400 \<and> d = Finite 500 \<longrightarrow>
              \<not> completed row
              \<and> map progress_percentage
                    (continueWatching (loadContinueWatching (Resolved (Some [row]) None)
                       (updateWatchProgress b (Some m) p d a))) = [Finite 80])
        \<and> (p = Finite 460 \<and> d = Finite 500 \<longrightarrow> completed row))"
proof (intro impI)
  assume h: "currentUser a = Some u \<and> \<not> js_lt p (Finite 60) \<and> cw_upsert b = WriteOk"
  define a' where "a' = updateWatchProgress b (Some m) p d a"
  define row where "row =
     \<lparr>cw_user_id = uid u, cw_media_id = item_id m, cw_media_type = media_type m,
      cw_title = or_string (title m) (item_name m), cw_poster_path = poster_path m,
      watch_progress = column (js_floor p), total_duration = column (js_floor d),
      last_watched_at = iso_now b,
      completed = js_gt (progressPercent p d) (Finite 90),
      season = (if media_type m = ''tv'' then Some (currentSeason a) else None),
      episode = (if media_type m = ''tv'' then Some (currentEpisode a) else None)\<rparr>"
  from h have g: "\<not> js_lt p (Finite 60)" by simp
  have r: "continue_watching a' (uid u, item_id m) = Some row"
    unfolding row_def a'_def using h by (simp add: updateWatchProgress_row)
  have u: "currentUser a' \<noteq> None"
    unfolding a'_def using h by (simp add: updateWatchProgress_user)
  have wp: "watch_progress row = column (js_floor p)"
    and td: "total_duration row = column (js_floor d)"
    and c: "completed row = js_gt (progressPercent p d) (Finite 90)"
    by (simp_all add: row_def)
  have 1: "completed row \<longleftrightarrow> js_gt d (Finite 0) \<and> js_gt (js_div p d) (round64 (9 / 10))"
    unfolding c by (rule completed_script [OF g])
  have f: "watch_progress row = Some \<lfloor>x\<rfloor> \<and> total_duration row = Some \<lfloor>y\<rfloor>
              \<and> (completed row \<longleftrightarrow> 0 < y \<and> 16212958658533787 / 2 ^ 54 \<le> x / y)
              \<and> (completed row \<longrightarrow> 9 / 10 < x / y)"
    if pd: "p = Finite x \<and> d = Finite y" for x y
  proof -
    from g pd have x: "60 \<le> x" by (simp add: not_before_sixty)
    have t: "completed row \<longleftrightarrow> 0 < y \<and> 16212958658533787 / 2 ^ 54 \<le> x / y"
      unfolding c using completed_finite [OF x, of y] pd by simp
    have "9 / 10 < x / y" if "completed row"
    proof -
      from that t have "16212958658533787 / 2 ^ 54 \<le> x / y" by simp
      moreover have "(9::rat) / 10 < 16212958658533787 / 2 ^ 54" by simp
      ultimately show ?thesis by linarith
    qed
    moreover from pd have "watch_progress row = Some \<lfloor>x\<rfloor>" "total_duration row = Some \<lfloor>y\<rfloor>"
      by (simp_all add: wp td column_floor)
    ultimately show ?thesis using t by blast
  qed
  have 2: "\<forall>x y. p = Finite x \<and> d = Finite y \<longrightarrow>
                watch_progress row = Some \<lfloor>x\<rfloor> \<and> total_duration row = Some \<lfloor>y\<rfloor>
              \<and> (completed row \<longleftrightarrow> 0 < y \<and> 16212958658533787 / 2 ^ 54 \<le> x / y)
              \<and> (completed row \<longrightarrow> 9 / 10 < x / y)"
    by (intro allI impI) (rule f)
  have 3: "p = Finite 400 \<and> d = Finite 500 \<longrightarrow> \<not> completed row
              \<and> map progress_percentage
                    (continueWatching (loadContinueWatching (Resolved (Some [row]) None) a'))
                  = [Finite 80]"
  proof (intro impI)
    assume pd: "p = Finite 400 \<and> d = Finite 500"
    note i = f [OF pd]
    have "continueWatching (loadContinueWatching (Resolved (Some [row]) None) a')
            = map cw_entry_of [row]"
      by (rule loadContinueWatching_rows [OF u])
    then have "map progress_percentage
                    (continueWatching (loadContinueWatching (Resolved (Some [row]) None) a'))
               = [progress_percentage (cw_entry_of row)]"
      by simp
    moreover have "progress_percentage (cw_entry_of row) = Finite 80"
      using i by (intro entry_percentage_80) simp_all
    moreover have "\<not> completed row"
      using i [THEN conjunct2, THEN conjunct2, THEN conjunct1] by simp
    ultimately show "\<not> completed row
              \<and> map progress_percentage
                    (continueWatching (loadContinueWatching (Resolved (Some [row]) None) a'))
                  = [Finite 80]"
      by simp
  qed
  have 4: "p = Finite 460 \<and> d = Finite 500 \<longrightarrow> completed row"
  proof
    assume pd: "p = Finite 460 \<and> d = Finite 500"
    from f [OF pd, THEN conjunct2, THEN conjunct2, THEN conjunct1] show "completed row" by simp
  qed
  show "\<exists>row. continue_watching (updateWatchProgress b (Some m) p d a) (uid u, item_id m) = Some row
        \<and> watch_progress row = column (js_floor p) \<and> total_duration row = column (js_floor d)
        \<and> (completed row \<longleftrightarrow>
              js_gt d (Finite 0) \<and> js_gt (js_div p d) (round64 (9 / 10)))
        \<and> (\<forall>x y. p = Finite x \<and> d = Finite y \<longrightarrow>
                watch_progress row = Some \<lfloor>x\<rfloor> \<and> total_duration row = Some \<lfloor>y\<rfloor>
              \<and> (completed row \<longleftrightarrow> 0 < y \<and> 16212958658533787 / 2 ^ 54 \<le> x / y)
              \<and> (completed row \<longrightarrow> 9 / 10 < x / y))
        \<and> (p = Finite 400 \<and> d = Finite 500 \<longrightarrow>
              \<not> completed row
              \<and> map progress_percentage
                    (continueWatching (loadContinueWatching (Resolved (Some [row]) None)
                       (updateWatchProgress b (Some m) p d a))) = [Finite 80])
        \<and> (p = Finite 460 \<and> d = Finite 500 \<longrightarrow> completed row)"
    unfolding a'_def [symmetric]
    by (intro exI [of _ row] conjI) (fact r wp td 1 2 3 4)+
qed

theorem updateWatchProgress_completed_threshold_witness:
  "(\<exists>row. continue_watching (updateWatchProgress demo_browser (Some demo_movie)
               (Finite 400) (Finite 500) (demo_app (Some demo_user) True)) (''user-1'', 603)
             = Some row
        \<and> watch_progress row = Some 400 \<and> total_duration row = Some 500
        \<and> \<not> completed row
        \<and> map progress_percentage
              (continueWatching (loadContinueWatching (Resolved (Some [row]) None)
                 (updateWatchProgress demo_browser (Some demo_movie) (Finite 400) (Finite 500)
                    (demo_app (Some demo_user) True)))) = [Finite 80])
 \<and> (\<exists>row. continue_watching (updateWatchProgress demo_browser (Some demo_movie)
               (Finite 460) (Finite 500) (demo_app (Some demo_user) True)) (''user-1'', 603)
             = Some row
        \<and> completed row)
 \<and> (\<exists>row. continue_watching (updateWatchProgress demo_browser (Some demo_movie)
               (Finite 6480) (Finite 7200) (demo_app (Some demo_user) True)) (''user-1'', 603)
             = Some row
        \<and> \<not> completed row)
 \<and> (\<exists>row. continue_watching (updateWatchProgress demo_browser (Some demo_movie)
               (Finite (3171026718878073 / 2 ^ 45)) (Finite (7046726041951273 / 2 ^ 46))
               (demo_app (Some demo_user) True)) (''user-1'', 603)
             = Some row
        \<and> \<not> completed row)"
proof -
  have u: "currentUser (demo_app (Some demo_user) True) = Some demo_user"
    by (simp add: demo_app_user)
  have 1: "\<exists>row. continue_watching (updateWatchProgress demo_browser (Some demo_movie)
               (Finite 400) (Finite 500) (demo_app (Some demo_user) True)) (''user-1'', 603)
             = Some row
        \<and> watch_progress row = Some 400 \<and> total_duration row = Some 500
        \<and> \<not> completed row
        \<and> map progress_percentage
              (continueWatching (loadContinueWatching (Resolved (Some [row]) None)
                 (updateWatchProgress demo_browser (Some demo_movie) (Finite 400) (Finite 500)
                    (demo_app (Some demo_user) True)))) = [Finite 80]"
  proof -
    have h: "currentUser (demo_app (Some demo_user) True) = Some demo_user
            \<and> \<not> js_lt (Finite 400) (Finite 60) \<and> cw_upsert demo_browser = WriteOk"
      using u by (simp add: demo_simps js_lt_def)
    from updateWatchProgress_completed_threshold
               [where a = "demo_app (Some demo_user) True" and u = demo_user
                  and p = "Finite 400" and d = "Finite 500"
                  and b = demo_browser and m = demo_movie, THEN mp, OF h]
    show ?thesis
    proof (elim exE, goal_cases)
      case (1 row)
      note r = 1 [THEN conjunct1, unfolded demo_simps]
      note wp = 1 [THEN conjunct2, THEN conjunct1]
      note td = 1 [THEN conjunct2, THEN conjunct2, THEN conjunct1]
      note i = 1 [THEN conjunct2, THEN conjunct2, THEN conjunct2, THEN conjunct2, THEN conjunct2,
                   THEN conjunct1]
      from wp have wp': "watch_progress row = Some 400" by (simp add: column_floor)
      from td have td': "total_duration row = Some 500" by (simp add: column_floor)
      from i have i': "\<not> completed row
          \<and> map progress_percentage
                (continueWatching (loadContinueWatching (Resolved (Some [row]) None)
                   (updateWatchProgress demo_browser (Some demo_movie) (Finite 400) (Finite 500)
                      (demo_app (Some demo_user) True)))) = [Finite 80]" by simp
      show ?case
        by (intro exI [of _ row] conjI) (fact r wp' td' i' [THEN conjunct1] i' [THEN conjunct2])+
    qed
  qed
  have 2: "\<exists>row. continue_watching (updateWatchProgress demo_browser (Some demo_movie)
               (Finite 460) (Finite 500) (demo_app (Some demo_user) True)) (''user-1'', 603)
             = Some row
        \<and> completed row"
  proof -
    have h: "currentUser (demo_app (Some demo_user) True) = Some demo_user
            \<and> \<not> js_lt (Finite 460) (Finite 60) \<and> cw_upsert demo_browser = WriteOk"
      using u by (simp add: demo_simps js_lt_def)
    from updateWatchProgress_completed_threshold
               [where a = "demo_app (Some demo_user) True" and u = demo_user
                  and p = "Finite 460" and d = "Finite 500"
                  and b = demo_browser and m = demo_movie, THEN mp, OF h]
    show ?thesis
    proof (elim exE, goal_cases)
      case (1 row)
      note r = 1 [THEN conjunct1, unfolded demo_simps]
      note i = 1 [THEN conjunct2, THEN conjunct2, THEN conjunct2, THEN conjunct2, THEN conjunct2,
                   THEN conjunct2]
      from i have c: "completed row" by simp
      show ?case by (intro exI [of _ row] conjI) (fact r c)+
    qed
  qed
  have 3: "\<exists>row. continue_watching (updateWatchProgress demo_browser (Some demo_movie)
               (Finite 6480) (Finite 7200) (demo_app (Some demo_user) True)) (''user-1'', 603)
             = Some row
        \<and> \<not> completed row"
  proof -
    have h: "currentUser (demo_app (Some demo_user) True) = Some demo_user
            \<and> \<not> js_lt (Finite 6480) (Finite 60) \<and> cw_upsert demo_browser = WriteOk"
      using u by (simp add: demo_simps js_lt_def)
    from updateWatchProgress_completed_threshold
               [where a = "demo_app (Some demo_user) True" and u = demo_user
                  and p = "Finite 6480" and d = "Finite 7200"
                  and b = demo_browser and m = demo_movie, THEN mp, OF h]
    show ?thesis
    proof (elim exE, goal_cases)
      case (1 row)
      note r = 1 [THEN conjunct1, unfolded demo_simps]
      note i = 1 [THEN conjunct2, THEN conjunct2, THEN conjunct2, THEN conjunct2, THEN conjunct1,
                   THEN spec, of "6480", THEN spec, of "7200"]
      from i have c: "\<not> completed row" by simp
      show ?case by (intro exI [of _ row] conjI) (fact r c)+
    qed
  qed
  have 4: "\<exists>row. continue_watching (updateWatchProgress demo_browser (Some demo_movie)
               (Finite (3171026718878073 / 2 ^ 45)) (Finite (7046726041951273 / 2 ^ 46))
               (demo_app (Some demo_user) True)) (''user-1'', 603)
             = Some row
        \<and> \<not> completed row"
  proof -
    have h: "currentUser (demo_app (Some demo_user) True) = Some demo_user
            \<and> \<not> js_lt (Finite (3171026718878073 / 2 ^ 45)) (Finite 60)
            \<and> cw_upsert demo_browser = WriteOk"
      using u by (simp add: demo_simps js_lt_def)
    from updateWatchProgress_completed_threshold
               [where a = "demo_app (Some demo_user) True" and u = demo_user
                  and p = "Finite (3171026718878073 / 2 ^ 45)" and d = "Finite (7046726041951273 / 2 ^ 46)"
                  and b = demo_browser and m = demo_movie, THEN mp, OF h]
    show ?thesis
    proof (elim exE, goal_cases)
      case (1 row)
      note r = 1 [THEN conjunct1, unfolded demo_simps]
      note i = 1 [THEN conjunct2, THEN conjunct2, THEN conjunct2, THEN conjunct2, THEN conjunct1,
                   THEN spec, of "3171026718878073 / 2 ^ 45", THEN spec, of "7046726041951273 / 2 ^ 46"]
      from i have c: "\<not> completed row" by simp
      show ?case by (intro exI [of _ row] conjI) (fact r c)+
    qed
  qed
  from 1 2 3 4 show ?thesis by (intro conjI)
qed

text \<open>
  C10. The percentage computations are guarded against a zero divisor: with a duration
  that is not greater than zero (zero, negative or \<open>NaN\<close>) \<open>updateWatchProgress\<close> computes
  the percentage 0 and stores \<open>completed = false\<close>, and \<open>loadContinueWatching\<close> gives every
  entry whose \<open>total_duration\<close> is zero, negative or null the \<open>progress_percentage\<close> 0.
\<close>

theorem progress_division_guarded:
  "(\<not> js_gt d (Finite 0) \<longrightarrow> progressPercent p d = Finite 0)
 \<and> (currentUser a = Some u \<and> \<not> js_lt p (Finite 60) \<and> \<not> js_gt d (Finite 0)
      \<and> cw_upsert b = WriteOk \<longrightarrow>
       (\<exists>row. continue_watching (updateWatchProgress b (Some m) p d a) (uid u, item_id m) = Some row
          \<and> \<not> completed row))
 \<and> (\<forall>row. num (total_duration row) \<le> 0 \<longrightarrow> progress_percentage (cw_entry_of row) = Finite 0)
 \<and> (currentUser a \<noteq> None \<longrightarrow>
       (\<forall>i < length rows. num (total_duration (rows ! i)) \<le> 0 \<longrightarrow>
          progress_percentage
            (continueWatching (loadContinueWatching (Resolved (Some rows) None) a) ! i)
          = Finite 0))
 \<and> (\<forall>t. t \<le> 0 \<longrightarrow> \<not> js_gt (Finite t) (Finite 0))"
proof (intro conjI impI allI)
  assume "\<not> js_gt d (Finite 0)"
  then show "progressPercent p d = Finite 0" by (rule progressPercent_guard)
next
  assume h: "currentUser a = Some u \<and> \<not> js_lt p (Finite 60) \<and> \<not> js_gt d (Finite 0)
      \<and> cw_upsert b = WriteOk"
  then have "continue_watching (updateWatchProgress b (Some m) p d a) (uid u, item_id m) =
           Some \<lparr>cw_user_id = uid u, cw_media_id = item_id m, cw_media_type = media_type m,
                 cw_title = or_string (title m) (item_name m), cw_poster_path = poster_path m,
                 watch_progress = column (js_floor p), total_duration = column (js_floor d),
                 last_watched_at = iso_now b,
                 completed = js_gt (progressPercent p d) (Finite 90),
                 season = (if media_type m = ''tv'' then Some (currentSeason a) else None),
                 episode = (if media_type m = ''tv'' then Some (currentEpisode a) else None)\<rparr>"
    by (simp add: updateWatchProgress_row)
  moreover from h have "\<not> js_gt (progressPercent p d) (Finite 90)"
    by (simp add: progressPercent_guard js_gt_def js_lt_def)
  ultimately show "\<exists>row. continue_watching (updateWatchProgress b (Some m) p d a) (uid u, item_id m) = Some row
          \<and> \<not> completed row"
    by simp
next
  fix row :: cw_row
  assume "num (total_duration row) \<le> 0"
  then show "progress_percentage (cw_entry_of row) = Finite 0" by (rule entry_guard)
next
  fix i
  assume u: "currentUser a \<noteq> None" and i: "i < length rows"
    and z: "num (total_duration (rows ! i)) \<le> 0"
  from u have "continueWatching (loadContinueWatching (Resolved (Some rows) None) a) = map cw_entry_of rows"
    by (rule loadContinueWatching_rows)
  with i z show "progress_percentage
            (continueWatching (loadContinueWatching (Resolved (Some rows) None) a) ! i) = Finite 0"
    by (simp add: entry_guard)
next
  fix t :: rat
  assume "t \<le> 0"
  then show "\<not> js_gt (Finite t) (Finite 0)" by (simp add: js_gt_def js_lt_def)
qed

theorem progress_division_guarded_witness:
  "progressPercent (Finite 120) (Finite 0) = Finite 0
 \<and> (\<exists>row. continue_watching (updateWatchProgress demo_browser (Some demo_movie)
               (Finite 120) (Finite 0) (demo_app (Some demo_user) True)) (''user-1'', 603)
             = Some row
        \<and> \<not> completed row)
 \<and> progress_percentage (cw_entry_of (demo_cw_row (Some 120) (Some 0))) = Finite 0
 \<and> progress_percentage
      (continueWatching (loadContinueWatching
         (Resolved (Some [demo_cw_row (Some 400) (Some 500), demo_cw_row (Some 120) None]) None)
         (demo_app (Some demo_user) True)) ! 1) = Finite 0
 \<and> \<not> js_gt (Finite (- 5)) (Finite 0)"
proof -
  note g = progress_division_guarded
             [where d = "Finite 0" and p = "Finite 120" and a = "demo_app (Some demo_user) True"
                and u = demo_user and b = demo_browser and m = demo_movie
                and rows = "[demo_cw_row (Some 400) (Some 500), demo_cw_row (Some 120) None]"]
  have 1: "progressPercent (Finite 120) (Finite 0) = Finite 0"
    using g [THEN conjunct1] by (simp add: js_gt_def js_lt_def)
  have 2: "\<exists>row. continue_watching (updateWatchProgress demo_browser (Some demo_movie)
               (Finite 120) (Finite 0) (demo_app (Some demo_user) True)) (''user-1'', 603)
             = Some row
        \<and> \<not> completed row"
    using g [THEN conjunct2, THEN conjunct1]
    by (simp add: demo_app_user demo_simps js_gt_def js_lt_def)
  have 3: "progress_percentage (cw_entry_of (demo_cw_row (Some 120) (Some 0))) = Finite 0"
    using g [THEN conjunct2, THEN conjunct2, THEN conjunct1, THEN spec,
              of "demo_cw_row (Some 120) (Some 0)"]
    by (simp add: demo_cw_row_def num_def)
  have 4: "progress_percentage
      (continueWatching (loadContinueWatching
         (Resolved (Some [demo_cw_row (Some 400) (Some 500), demo_cw_row (Some 120) None]) None)
         (demo_app (Some demo_user) True)) ! 1) = Finite 0"
    using g [THEN conjunct2, THEN conjunct2, THEN conjunct2, THEN conjunct1]
    by (simp add: demo_app_user demo_cw_row_def num_def)
  have 5: "\<not> js_gt (Finite (- 5)) (Finite 0)"
    using g [THEN conjunct2, THEN conjunct2, THEN conjunct2, THEN conjunct2, THEN spec, of "- 5"]
    by simp
  from 1 2 3 4 5 show ?thesis by (intro conjI)
qed

subsection \<open>EmbedPlayer: the gate of \<open>openPlayer\<close>\<close>

lemma openPlayer_no_user:
  "currentUser a = None \<Longrightarrow> openPlayer b m a = showNotification PleaseLogIn Error a"
  by (simp add: openPlayer_def)

lemma openPlayer_not_approved:
  "currentUser a = Some u \<Longrightarrow> \<not> isUserApproved a \<Longrightarrow>
   openPlayer b m a = openPaymentModal (showNotification PremiumRequired Error a)"
  by (simp add: openPlayer_def)

lemma showNotification_fields:
  "embedSources (showNotification msg l a) = embedSources a"
  "closures (showNotification msg l a) = closures a"
  "iframe_src (showNotification msg l a) = iframe_src a"
  "iframe_onerror (showNotification msg l a) = iframe_onerror a"
  "load_listeners (showNotification msg l a) = load_listeners a"
  "currentMediaData (showNotification msg l a) = currentMediaData a"
  "timers (showNotification msg l a) = timers a"
  "next_timer (showNotification msg l a) = next_timer a"
  "dom (showNotification msg l a) = dom a"
  "modal_classes (showNotification msg l a) = modal_classes a"
  "notices (showNotification msg l a) = notices a @ [(msg, l)]"
  by (simp_all add: showNotification_def)

lemma openPaymentModal_fields:
  "embedSources (openPaymentModal a) = embedSources a"
  "closures (openPaymentModal a) = closures a"
  "iframe_src (openPaymentModal a) = iframe_src a"
  "iframe_onerror (openPaymentModal a) = iframe_onerror a"
  "load_listeners (openPaymentModal a) = load_listeners a"
  "currentMediaData (openPaymentModal a) = currentMediaData a"
  "notices (openPaymentModal a) = notices a"
  "timers (openPaymentModal a) =
     (if ''payment-modal'' \<in> dom a
      then timers a @ [\<lparr>tid = next_timer a, delay = 50,
                         callback = AddClass ''payment-modal'' ''show'', repeating = False\<rparr>]
      else timers a)"
  "modal_classes (openPaymentModal a) =
     (if ''payment-modal'' \<in> dom a
      then insert (''payment-modal'', ''active'') (modal_classes a) else modal_classes a)"
  by (simp_all add: openPaymentModal_def setTimeout_def)

lemma demo_app_fields:
  "currentUser (demo_app u ok) = u"
  "isUserApproved (demo_app u ok) = ok"
  "''player-title'' \<in> dom (demo_app u ok)"
  "''player-description'' \<in> dom (demo_app u ok)"
  "''video-frame'' \<in> dom (demo_app u ok)"
  "''player-modal'' \<in> dom (demo_app u ok)"
  "''payment-modal'' \<in> dom (demo_app u ok)"
  "playerInterval (demo_app u ok) = None"
  "timers (demo_app u ok) = []"
  "next_timer (demo_app u ok) = 1"
  "loadAttempts (demo_app u ok) = []"
  "failed_sources (demo_app u ok) = []"
  "notices (demo_app u ok) = []"
  "uncaught (demo_app u ok) = []"
  "embedSources (demo_app u ok) = []"
  "iframe_src (demo_app u ok) = []"
  by (simp_all add: demo_app_def loadAttempts_def)

text \<open>
  C5. A call of \<open>openPlayer\<close> without a signed-in user, or for a user who is not approved,
  aborts before any source is built or loaded: the source list, the load attempts, the
  frame's address and handlers and the current media are as before, and the only timer
  it may add is the one that finishes showing the payment modal. Without a user it only
  reports "Please log in". For a signed-in user who is not approved it reports that
  premium access is required and opens the payment modal (which becomes active when the
  page has that element).
\<close>

theorem openPlayer_gated:
  "(currentUser a = None \<longrightarrow> openPlayer b m a = showNotification PleaseLogIn Error a)
 \<and> (currentUser a = None \<or> \<not> isUserApproved a \<longrightarrow>
        embedSources (openPlayer b m a) = embedSources a
      \<and> loadAttempts (openPlayer b m a) = loadAttempts a
      \<and> iframe_src (openPlayer b m a) = iframe_src a
      \<and> iframe_onerror (openPlayer b m a) = iframe_onerror a
      \<and> load_listeners (openPlayer b m a) = load_listeners a
      \<and> currentMediaData (openPlayer b m a) = currentMediaData a
      \<and> (\<forall>x \<in> set (timers (openPlayer b m a)).
            x \<in> set (timers a) \<or> callback x = AddClass ''payment-modal'' ''show''))
 \<and> (currentUser a \<noteq> None \<and> \<not> isUserApproved a \<longrightarrow>
        notices (openPlayer b m a) = notices a @ [(PremiumRequired, Error)]
      \<and> (''payment-modal'' \<in> dom a \<longrightarrow>
            (''payment-modal'', ''active'') \<in> modal_classes (openPlayer b m a)))"
proof (intro conjI impI)
  assume "currentUser a = None"
  then show "openPlayer b m a = showNotification PleaseLogIn Error a"
    by (rule openPlayer_no_user)
next
  assume g: "currentUser a = None \<or> \<not> isUserApproved a"
  have e: "openPlayer b m a = showNotification PleaseLogIn Error a
         \<or> openPlayer b m a = openPaymentModal (showNotification PremiumRequired Error a)"
  proof (cases "currentUser a")
    case None
    then show ?thesis by (simp add: openPlayer_no_user)
  next
    case (Some u)
    with g show ?thesis by (simp add: openPlayer_not_approved)
  qed
  from e show "embedSources (openPlayer b m a) = embedSources a"
    by (auto simp: showNotification_fields openPaymentModal_fields)
  from e show "loadAttempts (openPlayer b m a) = loadAttempts a"
    by (auto simp: loadAttempts_def showNotification_fields openPaymentModal_fields)
  from e show "iframe_src (openPlayer b m a) = iframe_src a"
    by (auto simp: showNotification_fields openPaymentModal_fields)
  from e show "iframe_onerror (openPlayer b m a) = iframe_onerror a"
    by (auto simp: showNotification_fields openPaymentModal_fields)
  from e show "load_listeners (openPlayer b m a) = load_listeners a"
    by (auto simp: showNotification_fields openPaymentModal_fields)
  from e show "currentMediaData (openPlayer b m a) = currentMediaData a"
    by (auto simp: showNotification_fields openPaymentModal_fields)
  from e show "\<forall>x \<in> set (timers (openPlayer b m a)).
            x \<in> set (timers a) \<or> callback x = AddClass ''payment-modal'' ''show''"
    by (auto simp: showNotification_fields openPaymentModal_fields split: if_splits)
next
  assume g: "currentUser a \<noteq> None \<and> \<not> isUserApproved a"
  then obtain u where "currentUser a = Some u" by auto
  with g have e: "openPlayer b m a = openPaymentModal (showNotification PremiumRequired Error a)"
    by (simp add: openPlayer_not_approved)
  show "notices (openPlayer b m a) = notices a @ [(PremiumRequired, Error)]"
    by (simp add: e showNotification_fields openPaymentModal_fields)
  show "''payment-modal'' \<in> dom a \<Longrightarrow>
            (''payment-modal'', ''active'') \<in> modal_classes (openPlayer b m a)"
    by (simp add: e showNotification_fields openPaymentModal_fields)
qed

theorem openPlayer_gated_witness:
  "openPlayer demo_browser demo_movie (demo_app None True)
     = showNotification PleaseLogIn Error (demo_app None True)
 \<and> embedSources (openPlayer demo_browser demo_movie (demo_app None True)) = []
 \<and> loadAttempts (openPlayer demo_browser demo_movie (demo_app None True)) = []
 \<and> iframe_src (openPlayer demo_browser demo_movie (demo_app None True)) = []
 \<and> embedSources (openPlayer demo_browser demo_movie (demo_app (Some demo_user) False)) = []
 \<and> loadAttempts (openPlayer demo_browser demo_movie (demo_app (Some demo_user) False)) = []
 \<and> iframe_src (openPlayer demo_browser demo_movie (demo_app (Some demo_user) False)) = []
 \<and> notices (openPlayer demo_browser demo_movie (demo_app (Some demo_user) False))
      = [(PremiumRequired, Error)]
 \<and> (''payment-modal'', ''active'')
      \<in> modal_classes (openPlayer demo_browser demo_movie (demo_app (Some demo_user) False))"
proof -
  note g1 = openPlayer_gated [of "demo_app None True" demo_browser demo_movie]
  note g2 = openPlayer_gated [of "demo_app (Some demo_user) False" demo_browser demo_movie]
  have 1: "openPlayer demo_browser demo_movie (demo_app None True)
     = showNotification PleaseLogIn Error (demo_app None True)"
    using g1 [THEN conjunct1] by (simp add: demo_app_fields)
  have 2: "embedSources (openPlayer demo_browser demo_movie (demo_app None True)) = []
 \<and> loadAttempts (openPlayer demo_browser demo_movie (demo_app None True)) = []
 \<and> iframe_src (openPlayer demo_browser demo_movie (demo_app None True)) = []"
    using g1 [THEN conjunct2, THEN conjunct1] by (simp add: demo_app_fields)
  have 3: "embedSources (openPlayer demo_browser demo_movie (demo_app (Some demo_user) False)) = []
 \<and> loadAttempts (openPlayer demo_browser demo_movie (demo_app (Some demo_user) False)) = []
 \<and> iframe_src (openPlayer demo_browser demo_movie (demo_app (Some demo_user) False)) = []"
    using g2 [THEN conjunct2, THEN conjunct1] by (simp add: demo_app_fields)
  have 4: "notices (openPlayer demo_browser demo_movie (demo_app (Some demo_user) False))
      = [(PremiumRequired, Error)]
 \<and> (''payment-modal'', ''active'')
      \<in> modal_classes (openPlayer demo_browser demo_movie (demo_app (Some demo_user) False))"
    using g2 [THEN conjunct2, THEN conjunct2] by (simp add: demo_app_fields)
  from 1 2 3 4 show ?thesis by (intro conjI) simp_all
qed

subsection \<open>EmbedPlayer: failover\<close>

lemma next_index_differs:
  fixes i n :: nat
  assumes "2 \<le> n" and "i < n"
  shows "(i + 1) mod n \<noteq> i" and "(i + 1) mod n < n"
proof -
  show "(i + 1) mod n \<noteq> i"
  proof (cases "i + 1 < n")
    case True
    then show ?thesis by simp
  next
    case False
    with assms have "i + 1 = n" by simp
    with assms show ?thesis by auto
  qed
  from assms show "(i + 1) mod n < n" by simp
qed

lemma find_tid_filter:
  "find (\<lambda>x. tid x = k) (filter (\<lambda>x. tid x \<noteq> t) xs) =
     (if k = t then None else find (\<lambda>x. tid x = k) xs)"
  by (induction xs) auto

lemma find_tid_fresh:
  "\<forall>x \<in> set xs. tid x < k \<Longrightarrow> find (\<lambda>x. tid x = k) xs = None"
  by (induction xs) auto

lemma find_tid_append:
  "find (\<lambda>x. tid x = k) (xs @ ys) =
     (case find (\<lambda>x. tid x = k) xs of None \<Rightarrow> find (\<lambda>x. tid x = k) ys | Some x \<Rightarrow> Some x)"
  by (induction xs) auto

lemma filter_tid_fresh:
  "\<forall>x \<in> set xs. tid x < k \<Longrightarrow> filter (\<lambda>x. tid x \<noteq> k) xs = xs"
  by (induction xs) auto

text \<open>Field by field: what \<open>handleSourceFailure\<close> does when at least two sources exist.\<close>

lemma handleSourceFailure_fields:
  assumes "2 \<le> length (embedSources a)" and "i < length (embedSources a)"
  shows "failed_sources (handleSourceFailure i a) = failed_sources a @ [i]"
    and "notices (handleSourceFailure i a) =
           notices a @ [(Trying (src_name (embedSources a ! ((i + 1) mod length (embedSources a)))), Warning)]"
    and "timers (handleSourceFailure i a) =
           timers a @ [\<lparr>tid = next_timer a, delay = 1000,
                        callback = LoadSource ((i + 1) mod length (embedSources a)),
                        repeating = False\<rparr>]"
    and "next_timer (handleSourceFailure i a) = next_timer a + 1"
    and "embedSources (handleSourceFailure i a) = embedSources a"
    and "dom (handleSourceFailure i a) = dom a"
    and "closures (handleSourceFailure i a) = closures a"
    and "iframe_src (handleSourceFailure i a) = iframe_src a"
    and "load_listeners (handleSourceFailure i a) = load_listeners a"
    and "uncaught (handleSourceFailure i a) = uncaught a"
proof -
  from assms have ne: "embedSources a \<noteq> []" by auto
  have d: "Suc i mod length (embedSources a) \<noteq> i"
    using next_index_differs(1) [OF assms] by simp
  show "failed_sources (handleSourceFailure i a) = failed_sources a @ [i]"
    using ne d by (simp add: handleSourceFailure_def hideVideoLoadingState_def setTimeout_def
                     showNotification_def Let_def)
  show "notices (handleSourceFailure i a) =
           notices a @ [(Trying (src_name (embedSources a ! ((i + 1) mod length (embedSources a)))), Warning)]"
    using ne d by (simp add: handleSourceFailure_def hideVideoLoadingState_def setTimeout_def
                     showNotification_def Let_def)
  show "timers (handleSourceFailure i a) =
           timers a @ [\<lparr>tid = next_timer a, delay = 1000,
                        callback = LoadSource ((i + 1) mod length (embedSources a)),
                        repeating = False\<rparr>]"
    using ne d by (simp add: handleSourceFailure_def hideVideoLoadingState_def setTimeout_def
                     showNotification_def Let_def)
  show "next_timer (handleSourceFailure i a) = next_timer a + 1"
    using ne d by (simp add: handleSourceFailure_def hideVideoLoadingState_def setTimeout_def
                     showNotification_def Let_def)
  show "embedSources (handleSourceFailure i a) = embedSources a"
    using ne d by (simp add: handleSourceFailure_def hideVideoLoadingState_def setTimeout_def
                     showNotification_def Let_def)
  show "dom (handleSourceFailure i a) = dom a"
    using ne d by (simp add: handleSourceFailure_def hideVideoLoadingState_def setTimeout_def
                     showNotification_def Let_def)
  show "closures (handleSourceFailure i a) = closures a"
    using ne d by (simp add: handleSourceFailure_def hideVideoLoadingState_def setTimeout_def
                     showNotification_def Let_def)
  show "iframe_src (handleSourceFailure i a) = iframe_src a"
    using ne d by (simp add: handleSourceFailure_def hideVideoLoadingState_def setTimeout_def
                     showNotification_def Let_def)
  show "load_listeners (handleSourceFailure i a) = load_listeners a"
    using ne d by (simp add: handleSourceFailure_def hideVideoLoadingState_def setTimeout_def
                     showNotification_def Let_def)
  show "uncaught (handleSourceFailure i a) = uncaught a"
    using ne d by (simp add: handleSourceFailure_def hideVideoLoadingState_def setTimeout_def
                     showNotification_def Let_def)
qed

text \<open>Field by field: what \<open>loadSource\<close> does when its guards pass.\<close>

lemma loadSource_fields:
  assumes "i < length (embedSources a)" and "''video-frame'' \<in> dom a"
  shows "closures (loadSource b i a) =
           closures a @ [\<lparr>lc_index = i, lc_source = embedSources a ! i, retryCount = 0\<rparr>]"
    and "timers (loadSource b i a) =
           timers a @ [\<lparr>tid = next_timer a, delay = 10000, callback = LoadTimeout i,
                        repeating = False\<rparr>]"
    and "next_timer (loadSource b i a) = next_timer a + 1"
    and "load_listeners (loadSource b i a) = load_listeners a @ [next_timer a]"
    and "iframe_onerror (loadSource b i a) = Some (length (closures a))"
    and "iframe_onload (loadSource b i a)"
    and "iframe_src (loadSource b i a) \<noteq> []"
    and "embedSources (loadSource b i a) = embedSources a"
    and "dom (loadSource b i a) = dom a"
    and "failed_sources (loadSource b i a) = failed_sources a"
    and "notices (loadSource b i a) = notices a"
    and "uncaught (loadSource b i a) = uncaught a"
  using assms
  by (simp_all add: loadSource_def attemptLoad_def showVideoLoadingState_def setTimeout_def Let_def)

lemma clearTimeout_fields:
  "timers (clearTimeout t a) = filter (\<lambda>x. tid x \<noteq> t) (timers a)"
  "next_timer (clearTimeout t a) = next_timer a"
  "embedSources (clearTimeout t a) = embedSources a"
  "dom (clearTimeout t a) = dom a"
  "closures (clearTimeout t a) = closures a"
  "iframe_src (clearTimeout t a) = iframe_src a"
  "iframe_onerror (clearTimeout t a) = iframe_onerror a"
  "load_listeners (clearTimeout t a) = load_listeners a"
  "failed_sources (clearTimeout t a) = failed_sources a"
  "notices (clearTimeout t a) = notices a"
  "uncaught (clearTimeout t a) = uncaught a"
  by (simp_all add: clearTimeout_def)

lemma step_timer:
  "find (\<lambda>x. tid x = t) (timers a) = Some x \<Longrightarrow> \<not> repeating x \<Longrightarrow>
   step b (TimerFires t) a = runCallback b (callback x) (clearTimeout t a)"
  by (simp add: step_def)

lemma runCallback_LoadTimeout:
  "iframe_src a \<noteq> [] \<Longrightarrow> frames_falsy b \<Longrightarrow>
   runCallback b (LoadTimeout i) a = handleSourceFailure i a"
  by (auto simp: runCallback_def frames_falsy_def split: option.splits)

lemma runCallback_LoadSource:
  "runCallback b (LoadSource i) a = loadSource b i a"
  by (simp add: runCallback_def)

lemma find_tid_in_set:
  "find (\<lambda>x. tid x = t) xs = Some y \<Longrightarrow> y \<in> set xs \<and> tid y = t"
  by (induction xs) (auto split: if_splits)

text \<open>
  One failure by timeout: the load timer of source \<open>i\<close> fires, then the timer scheduled by
  \<open>handleSourceFailure\<close>; afterwards source \<open>(i + 1) mod n\<close> is loading.
\<close>

lemma timeout_round:
  assumes L: "loading a i t" and n2: "2 \<le> length (embedSources a)" and ff: "frames_falsy b"
    and ff': "frames_falsy b'"
  shows "loading (step b' (TimerFires (next_timer a)) (step b (TimerFires t) a))
           ((i + 1) mod length (embedSources a)) (Suc (next_timer a))"
    and "next_timer (step b' (TimerFires (next_timer a)) (step b (TimerFires t) a)) = next_timer a + 2"
    and "embedSources (step b' (TimerFires (next_timer a)) (step b (TimerFires t) a)) = embedSources a"
    and "loadAttempts (step b' (TimerFires (next_timer a)) (step b (TimerFires t) a))
           = loadAttempts a @ [(i + 1) mod length (embedSources a)]"
    and "failed_sources (step b' (TimerFires (next_timer a)) (step b (TimerFires t) a))
           = failed_sources a @ [i]"
    and "notices (step b' (TimerFires (next_timer a)) (step b (TimerFires t) a))
           = notices a @ [(Trying (src_name (embedSources a ! ((i + 1) mod length (embedSources a)))), Warning)]"
    and "uncaught (step b' (TimerFires (next_timer a)) (step b (TimerFires t) a)) = uncaught a"
proof -
  let ?n = "length (embedSources a)"
  let ?j = "(i + 1) mod ?n"
  let ?nt = "next_timer a"
  let ?LT = "\<lparr>tid = t, delay = 10000, callback = LoadTimeout i, repeating = False\<rparr>"
  let ?LS = "\<lparr>tid = ?nt, delay = 1000, callback = LoadSource ?j, repeating = False\<rparr>"
  define rest where "rest = filter (\<lambda>x. tid x \<noteq> t) (timers a)"
  from L have i: "i < ?n" and vf: "''video-frame'' \<in> dom a" and src: "iframe_src a \<noteq> []"
    and f: "find (\<lambda>x. tid x = t) (timers a) = Some ?LT"
    and fresh: "\<forall>x \<in> set (timers a). tid x < ?nt"
    by (simp_all add: loading_def)
  have j: "?j < ?n" by (rule next_index_differs(2) [OF n2 i])
  have rest_fresh: "\<forall>x \<in> set rest. tid x < ?nt" using fresh by (simp add: rest_def)
  define a0 where "a0 = clearTimeout t a"
  define a1 where "a1 = handleSourceFailure i a0"
  define a1c where "a1c = clearTimeout ?nt a1"
  define a2 where "a2 = loadSource b' ?j a1c"
  have s1: "step b (TimerFires t) a = a1"
    unfolding a1_def a0_def using f src ff
    by (simp add: step_timer runCallback_LoadTimeout clearTimeout_fields)
  have a0e: "embedSources a0 = embedSources a" and a0t: "timers a0 = rest"
    and a0n: "next_timer a0 = ?nt"
    by (simp_all add: a0_def clearTimeout_fields rest_def)
  have n0: "2 \<le> length (embedSources a0)" and i0: "i < length (embedSources a0)"
    using n2 i by (simp_all add: a0e)
  note h = handleSourceFailure_fields [OF n0 i0, folded a1_def]
  have a1t: "timers a1 = rest @ [?LS]"
    using h(3) by (simp add: a0e a0t a0n)
  have a1n: "next_timer a1 = ?nt + 1" using h(4) by (simp add: a0n)
  have a1e: "embedSources a1 = embedSources a" using h(5) by (simp add: a0e)
  have a1d: "dom a1 = dom a" using h(6) by (simp add: a0_def clearTimeout_fields)
  have a1c': "closures a1 = closures a" using h(7) by (simp add: a0_def clearTimeout_fields)
  have a1f: "failed_sources a1 = failed_sources a @ [i]"
    using h(1) by (simp add: a0_def clearTimeout_fields)
  have a1no: "notices a1 = notices a @ [(Trying (src_name (embedSources a ! ?j)), Warning)]"
    using h(2) by (simp add: a0e) (simp add: a0_def clearTimeout_fields)
  have a1u: "uncaught a1 = uncaught a" using h(10) by (simp add: a0_def clearTimeout_fields)
  have f1: "find (\<lambda>x. tid x = ?nt) (timers a1) = Some ?LS"
    using rest_fresh by (simp add: a1t find_tid_append find_tid_fresh)
  have s2: "step b' (TimerFires ?nt) a1 = a2"
    unfolding a2_def a1c_def using f1
    by (simp add: step_timer runCallback_LoadSource)
  have ct: "timers a1c = rest"
    using rest_fresh by (simp add: a1c_def clearTimeout_fields a1t filter_tid_fresh)
  have ce: "embedSources a1c = embedSources a" and cn: "next_timer a1c = ?nt + 1"
    and cd: "dom a1c = dom a" and cc: "closures a1c = closures a"
    and cf: "failed_sources a1c = failed_sources a @ [i]"
    and cno: "notices a1c = notices a @ [(Trying (src_name (embedSources a ! ?j)), Warning)]"
    and cu: "uncaught a1c = uncaught a"
    by (simp_all add: a1c_def clearTimeout_fields a1e a1n a1d a1c' a1f a1no a1u)
  have jc: "?j < length (embedSources a1c)" using j by (simp add: ce)
  have vc: "''video-frame'' \<in> dom a1c" using vf by (simp add: cd)
  note l = loadSource_fields [OF jc vc, of b', folded a2_def]
  have a2t: "timers a2 = rest @ [\<lparr>tid = Suc ?nt, delay = 10000, callback = LoadTimeout ?j,
                                    repeating = False\<rparr>]"
    using l(2) by (simp add: ct cn ce)
  have a2n: "next_timer a2 = ?nt + 2" using l(3) by (simp add: cn)
  have a2e: "embedSources a2 = embedSources a" using l(8) by (simp add: ce)
  have a2d: "dom a2 = dom a" using l(9) by (simp add: cd)
  have a2s: "iframe_src a2 \<noteq> []" by (rule l(7))
  have a2c: "closures a2 = closures a @ [\<lparr>lc_index = ?j, lc_source = embedSources a ! ?j, retryCount = 0\<rparr>]"
    using l(1) by (simp add: cc ce)
  have a2f: "failed_sources a2 = failed_sources a @ [i]" using l(10) by (simp add: cf)
  have a2no: "notices a2 = notices a @ [(Trying (src_name (embedSources a ! ?j)), Warning)]"
    using l(11) by (simp add: cno)
  have a2u: "uncaught a2 = uncaught a" using l(12) by (simp add: cu)
  have f2: "find (\<lambda>x. tid x = Suc ?nt) (timers a2)
              = Some \<lparr>tid = Suc ?nt, delay = 10000, callback = LoadTimeout ?j, repeating = False\<rparr>"
  proof -
    have "\<forall>x \<in> set rest. tid x < Suc ?nt" using rest_fresh by (simp add: less_Suc_eq)
    then show ?thesis by (simp add: a2t find_tid_append find_tid_fresh)
  qed
  have fresh2: "\<forall>x \<in> set (timers a2). tid x < next_timer a2"
    using rest_fresh by (auto simp: a2t a2n)
  have e: "step b' (TimerFires ?nt) (step b (TimerFires t) a) = a2"
    by (simp add: s1 s2)
  show "loading (step b' (TimerFires ?nt) (step b (TimerFires t) a)) ?j (Suc ?nt)"
    unfolding e loading_def using j vf a2s f2 fresh2 by (simp add: a2e a2d)
  show "next_timer (step b' (TimerFires ?nt) (step b (TimerFires t) a)) = ?nt + 2"
    unfolding e by (rule a2n)
  show "embedSources (step b' (TimerFires ?nt) (step b (TimerFires t) a)) = embedSources a"
    unfolding e by (rule a2e)
  show "loadAttempts (step b' (TimerFires ?nt) (step b (TimerFires t) a)) = loadAttempts a @ [?j]"
    unfolding e by (simp add: loadAttempts_def a2c)
  show "failed_sources (step b' (TimerFires ?nt) (step b (TimerFires t) a)) = failed_sources a @ [i]"
    unfolding e by (rule a2f)
  show "notices (step b' (TimerFires ?nt) (step b (TimerFires t) a))
           = notices a @ [(Trying (src_name (embedSources a ! ?j)), Warning)]"
    unfolding e by (rule a2no)
  show "uncaught (step b' (TimerFires ?nt) (step b (TimerFires t) a)) = uncaught a"
    unfolding e by (rule a2u)
qed

lemma map_upt_shift: "map f [Suc m..<Suc n] = map (\<lambda>x. f (Suc x)) [m..<n]"
  by (simp add: map_Suc_upt [symmetric] del: upt_Suc)

lemma ring_attempts:
  fixes i n k :: nat
  shows "[(i + 1) mod n] @ map (\<lambda>m. ((i + 1) mod n + m) mod n) [1..<Suc k]
           = map (\<lambda>m. (i + m) mod n) [1..<Suc (Suc k)]"
proof -
  have "map (\<lambda>m. (i + m) mod n) [1..<Suc (Suc k)]
          = (i + 1) mod n # map (\<lambda>m. (i + m) mod n) [Suc 1..<Suc (Suc k)]"
    by (simp add: upt_conv_Cons del: upt_Suc)
  also have "map (\<lambda>m. (i + m) mod n) [Suc 1..<Suc (Suc k)]
          = map (\<lambda>m. (i + Suc m) mod n) [1..<Suc k]"
    by (rule map_upt_shift)
  also have "\<dots> = map (\<lambda>m. ((i + 1) mod n + m) mod n) [1..<Suc k]"
    by (rule map_cong) (simp_all add: mod_add_left_eq)
  finally show ?thesis by simp
qed

lemma ring_failures:
  fixes i n k :: nat
  assumes "i < n"
  shows "[i] @ map (\<lambda>m. ((i + 1) mod n + m) mod n) [0..<k]
           = map (\<lambda>m. (i + m) mod n) [0..<Suc k]"
proof -
  have "map (\<lambda>m. (i + m) mod n) [0..<Suc k]
          = (i + 0) mod n # map (\<lambda>m. (i + m) mod n) [Suc 0..<Suc k]"
    by (simp add: upt_conv_Cons del: upt_Suc)
  also have "map (\<lambda>m. (i + m) mod n) [Suc 0..<Suc k] = map (\<lambda>m. (i + Suc m) mod n) [0..<k]"
    by (rule map_upt_shift)
  also have "\<dots> = map (\<lambda>m. ((i + 1) mod n + m) mod n) [0..<k]"
    by (rule map_cong) (simp_all add: mod_add_left_eq)
  finally show ?thesis using assms by simp
qed

text \<open>
  With at least two sources the ring never ends: after any number \<open>k\<close> of consecutive
  timeouts there have been \<open>k\<close> further load attempts, at \<open>i + 1, i + 2, \<dots>\<close> modulo the
  source count, and the terminal notice has not been shown.
\<close>

lemma timeout_rounds_run:
  assumes ff: "frames_falsy b"
  shows "loading a i t \<Longrightarrow> 2 \<le> length (embedSources a) \<Longrightarrow>
     loadAttempts (run a (map (Pair b) (timeout_rounds t (next_timer a) k)))
        = loadAttempts a @ map (\<lambda>m. (i + m) mod length (embedSources a)) [1..<Suc k]
   \<and> failed_sources (run a (map (Pair b) (timeout_rounds t (next_timer a) k)))
        = failed_sources a @ map (\<lambda>m. (i + m) mod length (embedSources a)) [0..<k]
   \<and> embedSources (run a (map (Pair b) (timeout_rounds t (next_timer a) k))) = embedSources a
   \<and> ((AllSourcesFailed, Error) \<in> set (notices (run a (map (Pair b) (timeout_rounds t (next_timer a) k))))
        \<longrightarrow> (AllSourcesFailed, Error) \<in> set (notices a))
   \<and> uncaught (run a (map (Pair b) (timeout_rounds t (next_timer a) k))) = uncaught a"
proof (induction k arbitrary: a i t)
  case 0
  then show ?case by simp
next
  case (Suc k)
  let ?n = "length (embedSources a)"
  let ?j = "(i + 1) mod ?n"
  let ?a2 = "step b (TimerFires (next_timer a)) (step b (TimerFires t) a)"
  note r = timeout_round [OF Suc.prems(1) Suc.prems(2) ff ff]
  from Suc.prems(1) have i: "i < ?n" by (simp add: loading_def)
  have n2: "2 \<le> length (embedSources ?a2)" using Suc.prems(2) by (simp add: r(3))
  have run_eq: "run a (map (Pair b) (timeout_rounds t (next_timer a) (Suc k)))
                 = run ?a2 (map (Pair b) (timeout_rounds (Suc (next_timer a)) (next_timer ?a2) k))"
    by (simp add: r(2))
  note ih = Suc.IH [OF r(1) n2, unfolded r(3)]
  have 1: "loadAttempts (run a (map (Pair b) (timeout_rounds t (next_timer a) (Suc k))))
        = loadAttempts a @ map (\<lambda>m. (i + m) mod ?n) [1..<Suc (Suc k)]"
    unfolding run_eq using ih [THEN conjunct1] ring_attempts [of i ?n k]
    by (simp add: r(4))
  have 2: "failed_sources (run a (map (Pair b) (timeout_rounds t (next_timer a) (Suc k))))
        = failed_sources a @ map (\<lambda>m. (i + m) mod ?n) [0..<Suc k]"
    unfolding run_eq using ih [THEN conjunct2, THEN conjunct1] ring_failures [OF i, of k]
    by (simp add: r(5))
  have 3: "embedSources (run a (map (Pair b) (timeout_rounds t (next_timer a) (Suc k)))) = embedSources a"
    unfolding run_eq using ih [THEN conjunct2, THEN conjunct2, THEN conjunct1] by simp
  have 4: "(AllSourcesFailed, Error) \<in> set (notices (run a (map (Pair b) (timeout_rounds t (next_timer a) (Suc k)))))
        \<longrightarrow> (AllSourcesFailed, Error) \<in> set (notices a)"
    unfolding run_eq
    using ih [THEN conjunct2, THEN conjunct2, THEN conjunct2, THEN conjunct1]
    by (simp add: r(6))
  have 5: "uncaught (run a (map (Pair b) (timeout_rounds t (next_timer a) (Suc k)))) = uncaught a"
    unfolding run_eq
    using ih [THEN conjunct2, THEN conjunct2, THEN conjunct2, THEN conjunct2]
    by (simp add: r(7))
  from 1 2 3 4 5 show ?case by (intro conjI)
qed

lemma buildEmbedSources_fields:
  "dom (buildEmbedSources a) = dom a"
  "timers (buildEmbedSources a) = timers a"
  "next_timer (buildEmbedSources a) = next_timer a"
  "closures (buildEmbedSources a) = closures a"
  "load_listeners (buildEmbedSources a) = load_listeners a"
  "failed_sources (buildEmbedSources a) = failed_sources a"
  "notices (buildEmbedSources a) = notices a"
  "uncaught (buildEmbedSources a) = uncaught a"
  "playerInterval (buildEmbedSources a) = playerInterval a"
  "iframe_src (buildEmbedSources a) = iframe_src a"
  by (simp_all add: buildEmbedSources_def Let_def)

lemma buildEmbedSources_count:
  "currentMediaType a = Some ''movie'' \<or> currentMediaType a = Some ''tv'' \<Longrightarrow>
   length (embedSources (buildEmbedSources a)) = 4"
  by (auto simp: buildEmbedSources_def Let_def)

lemma buildEmbedSources_other:
  "currentMediaType a \<noteq> Some ''movie'' \<Longrightarrow> currentMediaType a \<noteq> Some ''tv'' \<Longrightarrow>
   buildEmbedSources a = a"
  by (simp add: buildEmbedSources_def Let_def)

lemma populateSourceButtons_fields:
  "embedSources (populateSourceButtons a) = embedSources a"
  "dom (populateSourceButtons a) = dom a"
  "timers (populateSourceButtons a) = timers a"
  "next_timer (populateSourceButtons a) = next_timer a"
  "closures (populateSourceButtons a) = closures a"
  "load_listeners (populateSourceButtons a) = load_listeners a"
  "failed_sources (populateSourceButtons a) = failed_sources a"
  "notices (populateSourceButtons a) = notices a"
  "uncaught (populateSourceButtons a) = uncaught a"
  "playerInterval (populateSourceButtons a) = playerInterval a"
  "iframe_src (populateSourceButtons a) = iframe_src a"
  by (simp_all add: populateSourceButtons_def)

lemma loadSource_playerInterval:
  "playerInterval (loadSource b i a) = playerInterval a"
  by (simp add: loadSource_def attemptLoad_def showVideoLoadingState_def setTimeout_def Let_def
           split: prod.splits)

text \<open>
  A playback start that passes both gates builds four sources and leaves source 0
  loading under its load timer.
\<close>

lemma openPlayer_starts:
  assumes u: "currentUser a = Some u" and ok: "isUserApproved a"
    and d1: "''player-title'' \<in> dom a" and d2: "''player-description'' \<in> dom a"
    and d3: "''video-frame'' \<in> dom a"
    and pi: "playerInterval a = None"
    and mt: "media_type m = ''movie'' \<or> media_type m = ''tv''"
    and fresh: "\<forall>x \<in> set (timers a). tid x < next_timer a"
  shows "length (embedSources (openPlayer b m a)) = 4"
    and "loading (openPlayer b m a) 0 (next_timer a)"
    and "loadAttempts (openPlayer b m a) = loadAttempts a @ [0]"
    and "failed_sources (openPlayer b m a) = failed_sources a"
    and "notices (openPlayer b m a) = notices a"
    and "uncaught (openPlayer b m a) = uncaught a"
    and "next_timer (openPlayer b m a) = next_timer a + (if ''player-modal'' \<in> dom a then 3 else 2)"
proof -
  define a1 where "a1 = a\<lparr>currentMediaType := Some (media_type m),
              currentMediaId := Some (item_id m),
              currentMediaTitle := or_string (title m) (item_name m),
              currentMediaData := Some m\<rparr>"
  define a2 where "a2 = (if media_type m = ''tv''
                         then a1\<lparr>currentSeason := or_number (resumeSeason m) 1,
                                 currentEpisode := or_number (resumeEpisode m) 1\<rparr>
                         else a1)"
  define p where "p = populateSourceButtons (buildEmbedSources a2)"
  define a3 where "a3 = loadSource b 0 p"
  define a7 where "a7 = (snd (setInterval TrackPlayerProgress 30000 (a3\<lparr>watchStartTime := Some (now_ms b)\<rparr>)))
                          \<lparr>playerInterval := Some (next_timer a3)\<rparr>"
  have a2f: "dom a2 = dom a" "timers a2 = timers a" "next_timer a2 = next_timer a"
    "closures a2 = closures a" "failed_sources a2 = failed_sources a" "notices a2 = notices a"
    "uncaught a2 = uncaught a" "playerInterval a2 = None"
    "currentMediaType a2 = Some (media_type m)"
    using pi by (simp_all add: a2_def a1_def)
  have pf: "dom p = dom a" "timers p = timers a" "next_timer p = next_timer a"
    "closures p = closures a" "failed_sources p = failed_sources a" "notices p = notices a"
    "uncaught p = uncaught a" "playerInterval p = None"
    by (simp_all add: p_def populateSourceButtons_fields buildEmbedSources_fields a2f)
  have pe: "length (embedSources p) = 4"
    using mt by (simp add: p_def populateSourceButtons_fields buildEmbedSources_count a2f)
  then have p0: "0 < length (embedSources p)" by simp
  have pv: "''video-frame'' \<in> dom p" using d3 by (simp add: pf)
  note l = loadSource_fields [OF p0 pv, of b, folded a3_def]
  have pi3: "playerInterval a3 = None" by (simp add: a3_def loadSource_playerInterval pf)
  have o: "openPlayer b m a =
     (if ''player-modal'' \<in> dom a7
      then snd (setTimeout (AddClass ''player-modal'' ''opened'') 50
                  (a7\<lparr>modal_classes := insert (''player-modal'', ''active'') (modal_classes a7)\<rparr>))
      else a7)"
    using u ok d1 d2 pi3
    unfolding a7_def a3_def p_def a2_def a1_def
    by (simp add: openPlayer_def Let_def setInterval_def split: prod.splits)
  let ?LT = "\<lparr>tid = next_timer a, delay = 10000, callback = LoadTimeout 0, repeating = False\<rparr>"
  have t3: "timers a3 = timers a @ [?LT]" using l(2) by (simp add: pf)
  have n3: "next_timer a3 = next_timer a + 1" using l(3) by (simp add: pf)
  have f3: "find (\<lambda>x. tid x = next_timer a) (timers a3) = Some ?LT"
    using fresh by (simp add: t3 find_tid_append find_tid_fresh)
  have fr3: "\<forall>x \<in> set (timers a3). tid x < next_timer a3"
    using fresh by (auto simp: t3 n3)
  have a7f: "embedSources a7 = embedSources a3" "dom a7 = dom a3" "iframe_src a7 = iframe_src a3"
    "closures a7 = closures a3" "failed_sources a7 = failed_sources a3" "notices a7 = notices a3"
    "uncaught a7 = uncaught a3"
    "timers a7 = timers a3 @ [\<lparr>tid = next_timer a3, delay = 30000, callback = TrackPlayerProgress,
                                 repeating = True\<rparr>]"
    "next_timer a7 = next_timer a3 + 1"
    by (simp_all add: a7_def setInterval_def)
  have f7: "find (\<lambda>x. tid x = next_timer a) (timers a7) = Some ?LT"
    by (simp add: a7f find_tid_append f3)
  have fr7: "\<forall>x \<in> set (timers a7). tid x < next_timer a7"
    using fr3 by (auto simp: a7f)
  have of: "embedSources (openPlayer b m a) = embedSources a3"
    "dom (openPlayer b m a) = dom a3" "iframe_src (openPlayer b m a) = iframe_src a3"
    "closures (openPlayer b m a) = closures a3"
    "failed_sources (openPlayer b m a) = failed_sources a3"
    "notices (openPlayer b m a) = notices a3" "uncaught (openPlayer b m a) = uncaught a3"
    by (simp_all add: o setTimeout_def a7f)
  have ofind: "find (\<lambda>x. tid x = next_timer a) (timers (openPlayer b m a)) = Some ?LT"
    using f7 by (simp add: o setTimeout_def find_tid_append)
  have ofresh: "\<forall>x \<in> set (timers (openPlayer b m a)). tid x < next_timer (openPlayer b m a)"
    using fr7 by (auto simp: o setTimeout_def)
  show "length (embedSources (openPlayer b m a)) = 4"
    using l(8) pe by (simp add: of)
  show "loading (openPlayer b m a) 0 (next_timer a)"
    unfolding loading_def using l(7) l(8) l(9) pe pv ofind ofresh by (simp add: of)
  show "loadAttempts (openPlayer b m a) = loadAttempts a @ [0]"
    using l(1) by (simp add: loadAttempts_def of pf)
  show "failed_sources (openPlayer b m a) = failed_sources a"
    using l(10) by (simp add: of pf)
  show "notices (openPlayer b m a) = notices a"
    using l(11) by (simp add: of pf)
  show "uncaught (openPlayer b m a) = uncaught a"
    using l(12) by (simp add: of pf)
  show "next_timer (openPlayer b m a) = next_timer a + (if ''player-modal'' \<in> dom a then 3 else 2)"
    using l(9) by (simp add: o setTimeout_def a7f n3 pf)
qed

lemma timeout_rounds_four:
  "timeout_rounds 1 4 4 =
     [TimerFires 1, TimerFires 4, TimerFires 5, TimerFires 6,
      TimerFires 7, TimerFires 8, TimerFires 9, TimerFires 10]"
  by (simp add: eval_nat_numeral)

lemma ring_of_four:
  "map (\<lambda>m. (0 + m) mod 4) [1..<Suc 4] = [1, 2, 3, 0 :: nat]"
  "map (\<lambda>m. (0 + m) mod 4) [0..<4] = [0, 1, 2, 3 :: nat]"
  by (simp_all add: upt_rec)

text \<open>
  C1 does not hold of the script. A playback start of a movie by a signed-in, approved
  user builds four sources and loads source 0. When every load ends in the ten-second
  timeout, the fourth failure does not end the traversal: \<open>handleSourceFailure(3)\<close>
  computes the next index 0, which differs from 3, and schedules \<open>loadSource(0)\<close>. There
  are five load attempts, at indices 0, 1, 2, 3, 0, after four failures, and the notice
  "All sources failed" has not been shown.
\<close>

theorem failover_restarts_after_fourth_failure:
  "length (embedSources (openPlayer demo_browser demo_movie (demo_app (Some demo_user) True))) = 4
 \<and> loadAttempts
      (run (openPlayer demo_browser demo_movie (demo_app (Some demo_user) True))
         (map (Pair demo_browser)
            [TimerFires 1, TimerFires 4, TimerFires 5, TimerFires 6,
             TimerFires 7, TimerFires 8, TimerFires 9, TimerFires 10]))
      = [0, 1, 2, 3, 0]
 \<and> failed_sources
      (run (openPlayer demo_browser demo_movie (demo_app (Some demo_user) True))
         (map (Pair demo_browser)
            [TimerFires 1, TimerFires 4, TimerFires 5, TimerFires 6,
             TimerFires 7, TimerFires 8, TimerFires 9, TimerFires 10]))
      = [0, 1, 2, 3]
 \<and> (AllSourcesFailed, Error) \<notin> set (notices
      (run (openPlayer demo_browser demo_movie (demo_app (Some demo_user) True))
         (map (Pair demo_browser)
            [TimerFires 1, TimerFires 4, TimerFires 5, TimerFires 6,
             TimerFires 7, TimerFires 8, TimerFires 9, TimerFires 10])))"
proof -
  define S where "S = openPlayer demo_browser demo_movie (demo_app (Some demo_user) True)"
  have mt: "media_type demo_movie = ''movie'' \<or> media_type demo_movie = ''tv''"
    by (simp add: demo_movie_def)
  have fr: "\<forall>x \<in> set (timers (demo_app (Some demo_user) True)). tid x < next_timer (demo_app (Some demo_user) True)"
    by (simp add: demo_app_fields)
  have ok: "isUserApproved (demo_app (Some demo_user) True)" by (simp add: demo_app_fields)
  have cu: "currentUser (demo_app (Some demo_user) True) = Some demo_user"
    by (simp add: demo_app_fields)
  note st = openPlayer_starts
              [where a = "demo_app (Some demo_user) True" and u = demo_user and m = demo_movie
                 and b = demo_browser,
               OF cu ok demo_app_fields(3) demo_app_fields(4) demo_app_fields(5)
                  demo_app_fields(8) mt fr, folded S_def]
  have n: "length (embedSources S) = 4" using st(1) .
  have L: "loading S 0 1" using st(2) by (simp add: demo_app_fields)
  have la: "loadAttempts S = [0]" using st(3) by (simp add: demo_app_fields)
  have fs: "failed_sources S = []" using st(4) by (simp add: demo_app_fields)
  have no: "notices S = []" using st(5) by (simp add: demo_app_fields)
  have nt: "next_timer S = 4" using st(7) by (simp add: demo_app_fields)
  have ff: "frames_falsy demo_browser" by (simp add: frames_falsy_def demo_browser_def)
  have n2: "2 \<le> length (embedSources S)" by (simp add: n)
  note r = timeout_rounds_run [OF ff L n2, of 4, unfolded nt n timeout_rounds_four]
  have 1: "loadAttempts (run S (map (Pair demo_browser)
            [TimerFires 1, TimerFires 4, TimerFires 5, TimerFires 6,
             TimerFires 7, TimerFires 8, TimerFires 9, TimerFires 10])) = [0, 1, 2, 3, 0]"
    using r [THEN conjunct1] by (simp only: la ring_of_four append.simps)
  have 2: "failed_sources (run S (map (Pair demo_browser)
            [TimerFires 1, TimerFires 4, TimerFires 5, TimerFires 6,
             TimerFires 7, TimerFires 8, TimerFires 9, TimerFires 10])) = [0, 1, 2, 3]"
    using r [THEN conjunct2, THEN conjunct1] by (simp only: fs ring_of_four append.simps)
  have 3: "(AllSourcesFailed, Error) \<notin> set (notices (run S (map (Pair demo_browser)
            [TimerFires 1, TimerFires 4, TimerFires 5, TimerFires 6,
             TimerFires 7, TimerFires 8, TimerFires 9, TimerFires 10])))"
    using r [THEN conjunct2, THEN conjunct2, THEN conjunct2, THEN conjunct1] by (simp add: no)
  from n 1 2 3 show ?thesis unfolding S_def by (intro conjI)
qed

text \<open>The same run, counted: the load attempts exceed the four sources.\<close>

theorem failover_restarts_after_fourth_failure_witness:
  "length (embedSources (openPlayer demo_browser demo_movie (demo_app (Some demo_user) True)))
     < length (loadAttempts
         (run (openPlayer demo_browser demo_movie (demo_app (Some demo_user) True))
            (map (Pair demo_browser)
               [TimerFires 1, TimerFires 4, TimerFires 5, TimerFires 6,
                TimerFires 7, TimerFires 8, TimerFires 9, TimerFires 10])))
 \<and> loadAttempts
         (run (openPlayer demo_browser demo_movie (demo_app (Some demo_user) True))
            (map (Pair demo_browser)
               [TimerFires 1, TimerFires 4, TimerFires 5, TimerFires 6,
                TimerFires 7, TimerFires 8, TimerFires 9, TimerFires 10])) ! 4 = 0"
proof -
  note f = failover_restarts_after_fourth_failure
  show ?thesis
    by (simp only: f [THEN conjunct1] f [THEN conjunct2, THEN conjunct1]) simp
qed

subsection \<open>EmbedPlayer: retries within one source\<close>

lemma handleSourceFailure_history:
  "failed_sources (handleSourceFailure i a) = failed_sources a @ [i]"
  by (simp add: handleSourceFailure_def hideVideoLoadingState_def setTimeout_def
        showNotification_def Let_def)

lemma onIframeError_retry:
  assumes r: "retrying a cid i k" and k: "k < 2"
  shows "retrying (onIframeError a) cid i (Suc k)"
    and "timers (onIframeError a) =
           timers a @ [\<lparr>tid = next_timer a, delay = 1000 * Suc k, callback = AttemptLoad cid,
                        repeating = False\<rparr>]"
    and "next_timer (onIframeError a) = next_timer a + 1"
    and "notices (onIframeError a) =
           notices a @ [(Retrying (src_name (lc_source (closures a ! cid))) (Suc k) 2, Warning)]"
    and "failed_sources (onIframeError a) = failed_sources a"
    and "load_listeners (onIframeError a) = load_listeners a"
    and "loadAttempts (onIframeError a) = loadAttempts a"
    and "lc_source (closures (onIframeError a) ! cid) = lc_source (closures a ! cid)"
    and "embedSources (onIframeError a) = embedSources a"
    and "iframe_src (onIframeError a) = iframe_src a"
proof -
  from r have h: "iframe_onerror a = Some cid" and c: "cid < length (closures a)"
    and ix: "lc_index (closures a ! cid) = i" and rc: "retryCount (closures a ! cid) = k"
    by (simp_all add: retrying_def)
  define c' where "c' = (closures a ! cid)\<lparr>retryCount := Suc k\<rparr>"
  have e: "onIframeError a =
     snd (setTimeout (AttemptLoad cid) (1000 * Suc k)
            (showNotification (Retrying (src_name (lc_source (closures a ! cid))) (Suc k) 2) Warning
               (a\<lparr>closures := (closures a)[cid := c']\<rparr>)))"
    using h rc k by (simp add: onIframeError_def maxRetries_def Let_def c'_def)
  have cl: "closures (onIframeError a) = (closures a)[cid := c']"
    by (simp add: e setTimeout_def showNotification_def)
  show "retrying (onIframeError a) cid i (Suc k)"
    unfolding retrying_def using c ix h
    by (simp add: cl) (simp add: e setTimeout_def showNotification_def c'_def)
  show "timers (onIframeError a) =
           timers a @ [\<lparr>tid = next_timer a, delay = 1000 * Suc k, callback = AttemptLoad cid,
                        repeating = False\<rparr>]"
    by (simp add: e setTimeout_def showNotification_def)
  show "next_timer (onIframeError a) = next_timer a + 1"
    by (simp add: e setTimeout_def showNotification_def)
  show "notices (onIframeError a) =
           notices a @ [(Retrying (src_name (lc_source (closures a ! cid))) (Suc k) 2, Warning)]"
    by (simp add: e setTimeout_def showNotification_def)
  show "failed_sources (onIframeError a) = failed_sources a"
    by (simp add: e setTimeout_def showNotification_def)
  show "load_listeners (onIframeError a) = load_listeners a"
    by (simp add: e setTimeout_def showNotification_def)
  show "loadAttempts (onIframeError a) = loadAttempts a"
    using c by (auto simp: loadAttempts_def cl c'_def list_eq_iff_nth_eq nth_list_update)
  show "lc_source (closures (onIframeError a) ! cid) = lc_source (closures a ! cid)"
    using c by (simp add: cl c'_def)
  show "embedSources (onIframeError a) = embedSources a"
    by (simp add: e setTimeout_def showNotification_def)
  show "iframe_src (onIframeError a) = iframe_src a"
    by (simp add: e setTimeout_def showNotification_def)
qed

lemma onIframeError_exhausted:
  assumes r: "retrying a cid i 2"
  shows "failed_sources (onIframeError a) = failed_sources a @ [i]"
proof -
  from r have h: "iframe_onerror a = Some cid" and ix: "lc_index (closures a ! cid) = i"
    and rc: "retryCount (closures a ! cid) = 2"
    by (simp_all add: retrying_def)
  have "onIframeError a =
          handleSourceFailure i (a\<lparr>closures := (closures a)[cid := (closures a ! cid)\<lparr>retryCount := 3\<rparr>]\<rparr>)"
    using h ix rc by (simp add: onIframeError_def maxRetries_def Let_def)
  then show ?thesis by (simp add: handleSourceFailure_history)
qed

lemma attemptLoad_src:
  "cid < length (closures a) \<Longrightarrow>
   iframe_src (attemptLoad b cid a) = cacheBusted (lc_source (closures a ! cid)) b"
  by (simp add: attemptLoad_def cacheBusted_def Let_def)

lemma loadSource_src:
  assumes "i < length (embedSources a)" and "''video-frame'' \<in> dom a"
  shows "iframe_src (loadSource b i a) = cacheBusted (embedSources a ! i) b"
  using assms
  by (simp add: loadSource_def attemptLoad_def showVideoLoadingState_def setTimeout_def Let_def
        cacheBusted_def)

lemma cacheBusted_nonempty: "cacheBusted s b \<noteq> []"
  by (simp add: cacheBusted_def)

lemma show_nat_603: "show_nat 603 = ''603''"
  by (simp add: show_nat.simps [of 603] show_nat.simps [of 60] show_nat.simps [of 6] digit_char_def)

lemma no_query_mark: "\<not> str_includes ''https://111movies.com/movie/603'' ''?''"
  by (simp add: str_includes_def upt_rec)

lemma attemptLoad_fields:
  "closures (attemptLoad b cid a) = closures a"
  "timers (attemptLoad b cid a) = timers a"
  "next_timer (attemptLoad b cid a) = next_timer a"
  "notices (attemptLoad b cid a) = notices a"
  "failed_sources (attemptLoad b cid a) = failed_sources a"
  "load_listeners (attemptLoad b cid a) = load_listeners a"
  "embedSources (attemptLoad b cid a) = embedSources a"
  "cid < length (closures a) \<Longrightarrow> iframe_onerror (attemptLoad b cid a) = Some cid"
  by (simp_all add: attemptLoad_def Let_def)

lemma onIframeLoad_fields:
  "timers (onIframeLoad a) = filter (\<lambda>t. tid t \<notin> set (load_listeners a)) (timers a)"
  "closures (onIframeLoad a) = closures a"
  "notices (onIframeLoad a) = notices a"
  "failed_sources (onIframeLoad a) = failed_sources a"
  "load_listeners (onIframeLoad a) = []"
  by (simp_all add: onIframeLoad_def hideVideoLoadingState_def Let_def)

lemma retry_timer_fires:
  assumes r: "retrying a cid i k"
    and t: "timers a = ts @ [\<lparr>tid = t, delay = d, callback = AttemptLoad cid, repeating = False\<rparr>]"
    and fresh: "\<forall>x \<in> set ts. tid x < t"
  shows "retrying (step b (TimerFires t) a) cid i k"
    and "timers (step b (TimerFires t) a) = ts"
    and "next_timer (step b (TimerFires t) a) = next_timer a"
    and "notices (step b (TimerFires t) a) = notices a"
    and "failed_sources (step b (TimerFires t) a) = failed_sources a"
    and "load_listeners (step b (TimerFires t) a) = load_listeners a"
    and "closures (step b (TimerFires t) a) = closures a"
    and "embedSources (step b (TimerFires t) a) = embedSources a"
    and "iframe_src (step b (TimerFires t) a) = cacheBusted (lc_source (closures a ! cid)) b"
proof -
  have f: "find (\<lambda>x. tid x = t) (timers a)
             = Some \<lparr>tid = t, delay = d, callback = AttemptLoad cid, repeating = False\<rparr>"
    using fresh by (simp add: t find_tid_append find_tid_fresh)
  have e: "step b (TimerFires t) a = attemptLoad b cid (clearTimeout t a)"
    using f by (simp add: step_timer runCallback_def)
  have ct: "timers (clearTimeout t a) = ts"
    using fresh by (simp add: clearTimeout_fields t filter_tid_fresh)
  from r have c: "cid < length (closures (clearTimeout t a))"
    by (simp add: retrying_def clearTimeout_fields)
  show "retrying (step b (TimerFires t) a) cid i k"
    using r c by (simp add: e retrying_def attemptLoad_fields clearTimeout_fields)
  show "timers (step b (TimerFires t) a) = ts"
    by (simp add: e attemptLoad_fields ct)
  show "next_timer (step b (TimerFires t) a) = next_timer a"
    by (simp add: e attemptLoad_fields clearTimeout_fields)
  show "notices (step b (TimerFires t) a) = notices a"
    by (simp add: e attemptLoad_fields clearTimeout_fields)
  show "failed_sources (step b (TimerFires t) a) = failed_sources a"
    by (simp add: e attemptLoad_fields clearTimeout_fields)
  show "load_listeners (step b (TimerFires t) a) = load_listeners a"
    by (simp add: e attemptLoad_fields clearTimeout_fields)
  show "closures (step b (TimerFires t) a) = closures a"
    by (simp add: e attemptLoad_fields clearTimeout_fields)
  show "embedSources (step b (TimerFires t) a) = embedSources a"
    by (simp add: e attemptLoad_fields clearTimeout_fields)
  show "iframe_src (step b (TimerFires t) a) = cacheBusted (lc_source (closures a ! cid)) b"
    using c by (simp add: e attemptLoad_src clearTimeout_fields)
qed

lemma loadSource_retrying:
  assumes "i < length (embedSources a)" and "''video-frame'' \<in> dom a"
  shows "retrying (loadSource b i a) (length (closures a)) i 0"
    and "lc_source (closures (loadSource b i a) ! length (closures a)) = embedSources a ! i"
  using loadSource_fields(1,5) [OF assms, of b]
  by (simp_all add: retrying_def)

lemma demo_ready_fields:
  "length (embedSources demo_ready) = 4"
  "src_name (embedSources demo_ready ! 0) = ''Source 1''"
  "''video-frame'' \<in> dom demo_ready"
  "timers demo_ready = []"
  "next_timer demo_ready = 1"
  "closures demo_ready = []"
  "failed_sources demo_ready = []"
  "notices demo_ready = []"
  "loadAttempts demo_ready = []"
  by (simp_all add: demo_ready_def buildEmbedSources_def Let_def demo_app_fields loadAttempts_def
        demo_app_def)

text \<open>
  The states of one \<open>loadSource\<close> call whose first two attempts end in the frame's error
  signal: after the load, after the first error, after the first retry, after the
  second error and after the second retry.
\<close>

lemma retries_state:
  fixes a0 :: app and i :: nat and b b1 b2 b3 b4 :: browser
  assumes i: "i < length (embedSources a0)" and vf: "''video-frame'' \<in> dom a0"
    and fresh: "\<forall>x \<in> set (timers a0). tid x < next_timer a0"
  defines "nt \<equiv> next_timer a0" and "cid \<equiv> length (closures a0)"
    and "s \<equiv> embedSources a0 ! i"
    and "a \<equiv> loadSource b i a0"
  defines "e1 \<equiv> step b1 IframeError a"
  defines "e2 \<equiv> step b2 (TimerFires (nt + 1)) e1"
  defines "e3 \<equiv> step b3 IframeError e2"
  defines "e4 \<equiv> step b4 (TimerFires (nt + 2)) e3"
  shows "failed_sources e1 = failed_sources a0
     \<and> failed_sources e3 = failed_sources a0
     \<and> failed_sources e4 = failed_sources a0
     \<and> timers a = timers a0 @ [\<lparr>tid = nt, delay = 10000, callback = LoadTimeout i, repeating = False\<rparr>]
     \<and> timers e1 = timers a @ [\<lparr>tid = nt + 1, delay = 1000, callback = AttemptLoad cid,
                                  repeating = False\<rparr>]
     \<and> timers e3 = timers a @ [\<lparr>tid = nt + 2, delay = 2000, callback = AttemptLoad cid,
                                  repeating = False\<rparr>]
     \<and> timers e4 = timers a
     \<and> iframe_src a = cacheBusted s b
     \<and> iframe_src e2 = cacheBusted s b2
     \<and> iframe_src e4 = cacheBusted s b4
     \<and> retrying e2 cid i 1
     \<and> retrying e4 cid i 2
     \<and> load_listeners e4 = load_listeners a0 @ [nt]
     \<and> loadAttempts e4 = loadAttempts a0 @ [i]
     \<and> notices e4 = notices a0 @ [(Retrying (src_name s) 1 2, Warning),
                                    (Retrying (src_name s) 2 2, Warning)]
     \<and> embedSources e4 = embedSources a0"
proof -
  define ts where "ts = timers a"
  note l = loadSource_fields [OF i vf, of b, folded a_def nt_def]
  note lr = loadSource_retrying [OF i vf, of b, folded a_def cid_def]
  have ts: "ts = timers a0 @ [\<lparr>tid = nt, delay = 10000, callback = LoadTimeout i, repeating = False\<rparr>]"
    using l(2) by (simp add: ts_def)
  have ts_fresh: "\<forall>x \<in> set ts. tid x < nt + 1"
    using fresh by (auto simp: ts nt_def)
  have ts_fresh2: "\<forall>x \<in> set ts. tid x < nt + 2"
    using ts_fresh by auto
  have s1: "e1 = onIframeError a" by (simp add: e1_def step_def)
  have k0: "(0::nat) < 2" by simp
  note r1 = onIframeError_retry [OF lr(1) k0, folded s1]
  have t1: "timers e1 = ts @ [\<lparr>tid = nt + 1, delay = 1000, callback = AttemptLoad cid, repeating = False\<rparr>]"
    using r1(2) l(3) by (simp add: ts_def)
  have srcs: "lc_source (closures e1 ! cid) = s" using r1(8) lr(2) by (simp add: s_def)
  have n1: "notices e1 = notices a0 @ [(Retrying (src_name s) 1 2, Warning)]"
    using r1(4) l(11) lr(2) by (simp add: s_def)
  note f2 = retry_timer_fires [OF r1(1) t1 ts_fresh, of b2, folded e2_def]
  have src2: "lc_source (closures e2 ! cid) = s"
    using f2(7) srcs by simp
  have s3: "e3 = onIframeError e2" by (simp add: e3_def step_def)
  have k1: "Suc 0 < 2" by simp
  note r3 = onIframeError_retry [OF f2(1) k1, folded s3]
  have nx2: "next_timer e2 = nt + 2" using f2(3) r1(3) l(3) by simp
  have t3: "timers e3 = ts @ [\<lparr>tid = nt + 2, delay = 2000, callback = AttemptLoad cid, repeating = False\<rparr>]"
    using r3(2) by (simp add: f2(2) nx2)
  have n3: "notices e3 = notices a0 @ [(Retrying (src_name s) 1 2, Warning),
                                      (Retrying (src_name s) 2 2, Warning)]"
    using r3(4) by (simp add: f2(4) n1 src2 numeral_2_eq_2)
  have r3': "retrying e3 cid i 2" using r3(1) by (simp add: numeral_2_eq_2)
  have src3: "lc_source (closures e3 ! cid) = s" using r3(8) src2 by simp
  note f4 = retry_timer_fires [OF r3' t3 ts_fresh2, of b4, folded e4_def]
  have fs1: "failed_sources e1 = failed_sources a0" using r1(5) l(10) by simp
  have fs3: "failed_sources e3 = failed_sources a0" using r3(5) f2(5) fs1 by simp
  have c1: "failed_sources e4 = failed_sources a0" using f4(5) fs3 by simp
  have c2: "timers a = timers a0 @ [\<lparr>tid = nt, delay = 10000, callback = LoadTimeout i, repeating = False\<rparr>]"
    using ts by (simp add: ts_def)
  have c3: "timers e1 = timers a @ [\<lparr>tid = nt + 1, delay = 1000, callback = AttemptLoad cid,
                                  repeating = False\<rparr>]"
    using t1 by (simp add: ts_def)
  have c4: "timers e3 = timers a @ [\<lparr>tid = nt + 2, delay = 2000, callback = AttemptLoad cid,
                                  repeating = False\<rparr>]"
    using t3 by (simp add: ts_def)
  have c5: "timers e4 = timers a" using f4(2) by (simp add: ts_def)
  have c6: "iframe_src a = cacheBusted s b"
    unfolding a_def s_def by (rule loadSource_src [OF i vf])
  have c7: "iframe_src e2 = cacheBusted s b2" using f2(9) srcs by simp
  have c8: "iframe_src e4 = cacheBusted s b4" using f4(9) src3 by simp
  have c9: "retrying e2 cid i 1" using f2(1) by simp
  have c10: "retrying e4 cid i 2" by (rule f4(1))
  have c11: "load_listeners e4 = load_listeners a0 @ [nt]"
    using f4(6) r3(6) f2(6) r1(6) l(4) by simp
  have c12: "loadAttempts e4 = loadAttempts a0 @ [i]"
    using f4(7) r3(7) f2(7) r1(7) l(1) by (simp add: loadAttempts_def)
  have c13: "notices e4 = notices a0 @ [(Retrying (src_name s) 1 2, Warning),
                                    (Retrying (src_name s) 2 2, Warning)]"
    using f4(4) n3 by simp
  have c14: "embedSources e4 = embedSources a0"
    using f4(8) r3(9) f2(8) r1(9) l(8) by simp
  from fs1 fs3 c1 c2 c3 c4 c5 c6 c7 c8 c9 c10 c11 c12 c13 c14 show ?thesis by (intro conjI)
qed

lemma demo_ready_source:
  "embedSources demo_ready ! 0
     = \<lparr>src_name = ''Source 1'', src_url = ''https://111movies.com/movie/603''\<rparr>"
  by (simp add: demo_ready_def buildEmbedSources_def Let_def demo_app_def show_nat_603)

lemma demo_address:
  "cacheBusted (embedSources demo_ready ! 0) (demo_browser_at t)
     = ''https://111movies.com/movie/603?t='' @ t"
  using no_query_mark by (simp add: demo_ready_source cacheBusted_def demo_browser_at_def)

text \<open>
  When the ten-second timer of the load fires after the two retries and before the
  frame loads, it declares the source failed.
\<close>

lemma retry_then_timeout:
  fixes a0 :: app and i :: nat and b b1 b2 b3 b4 b5 b6 :: browser
  assumes i: "i < length (embedSources a0)" and vf: "''video-frame'' \<in> dom a0"
    and fresh: "\<forall>x \<in> set (timers a0). tid x < next_timer a0"
    and ff: "frames_falsy b5"
  defines "e4 \<equiv> step b4 (TimerFires (next_timer a0 + 2))
                   (step b3 IframeError
                      (step b2 (TimerFires (next_timer a0 + 1))
                         (step b1 IframeError (loadSource b i a0))))"
  shows "failed_sources (step b5 (TimerFires (next_timer a0)) e4) = failed_sources a0 @ [i]"
    and "failed_sources (step b6 IframeLoad (step b5 (TimerFires (next_timer a0)) e4))
           = failed_sources a0 @ [i]"
proof -
  note st = retries_state [OF i vf fresh, where b = b and ?b1.0 = b1 and ?b2.0 = b2
                and ?b3.0 = b3 and ?b4.0 = b4]
  note s1 = st [THEN conjunct1, folded e4_def]
  note s2 = st [THEN conjunct2, THEN conjunct1, folded e4_def]
  note s3 = st [THEN conjunct2, THEN conjunct2, THEN conjunct1, folded e4_def]
  note s4 = st [THEN conjunct2, THEN conjunct2, THEN conjunct2, THEN conjunct1, folded e4_def]
  note s5 = st [THEN conjunct2, THEN conjunct2, THEN conjunct2, THEN conjunct2, THEN conjunct1, folded e4_def]
  note s6 = st [THEN conjunct2, THEN conjunct2, THEN conjunct2, THEN conjunct2, THEN conjunct2, THEN conjunct1, folded e4_def]
  note s7 = st [THEN conjunct2, THEN conjunct2, THEN conjunct2, THEN conjunct2, THEN conjunct2, THEN conjunct2, THEN conjunct1, folded e4_def]
  note s8 = st [THEN conjunct2, THEN conjunct2, THEN conjunct2, THEN conjunct2, THEN conjunct2, THEN conjunct2, THEN conjunct2, THEN conjunct1, folded e4_def]
  note s9 = st [THEN conjunct2, THEN conjunct2, THEN conjunct2, THEN conjunct2, THEN conjunct2, THEN conjunct2, THEN conjunct2, THEN conjunct2, THEN conjunct1, folded e4_def]
  note s10 = st [THEN conjunct2, THEN conjunct2, THEN conjunct2, THEN conjunct2, THEN conjunct2, THEN conjunct2, THEN conjunct2, THEN conjunct2, THEN conjunct2, THEN conjunct1, folded e4_def]
  note s11 = st [THEN conjunct2, THEN conjunct2, THEN conjunct2, THEN conjunct2, THEN conjunct2, THEN conjunct2, THEN conjunct2, THEN conjunct2, THEN conjunct2, THEN conjunct2, THEN conjunct1, folded e4_def]
  note s12 = st [THEN conjunct2, THEN conjunct2, THEN conjunct2, THEN conjunct2, THEN conjunct2, THEN conjunct2, THEN conjunct2, THEN conjunct2, THEN conjunct2, THEN conjunct2, THEN conjunct2, THEN conjunct1, folded e4_def]
  note s13 = st [THEN conjunct2, THEN conjunct2, THEN conjunct2, THEN conjunct2, THEN conjunct2, THEN conjunct2, THEN conjunct2, THEN conjunct2, THEN conjunct2, THEN conjunct2, THEN conjunct2, THEN conjunct2, THEN conjunct1, folded e4_def]
  note s14 = st [THEN conjunct2, THEN conjunct2, THEN conjunct2, THEN conjunct2, THEN conjunct2, THEN conjunct2, THEN conjunct2, THEN conjunct2, THEN conjunct2, THEN conjunct2, THEN conjunct2, THEN conjunct2, THEN conjunct2, THEN conjunct1, folded e4_def]
  note s15 = st [THEN conjunct2, THEN conjunct2, THEN conjunct2, THEN conjunct2, THEN conjunct2, THEN conjunct2, THEN conjunct2, THEN conjunct2, THEN conjunct2, THEN conjunct2, THEN conjunct2, THEN conjunct2, THEN conjunct2, THEN conjunct2, THEN conjunct1, folded e4_def]
  note s16 = st [THEN conjunct2, THEN conjunct2, THEN conjunct2, THEN conjunct2, THEN conjunct2, THEN conjunct2, THEN conjunct2, THEN conjunct2, THEN conjunct2, THEN conjunct2, THEN conjunct2, THEN conjunct2, THEN conjunct2, THEN conjunct2, THEN conjunct2, folded e4_def]
  let ?LT = "\<lparr>tid = next_timer a0, delay = 10000, callback = LoadTimeout i, repeating = False\<rparr>"
  have t4: "timers e4 = timers a0 @ [?LT]" using s7 s4 by simp
  have f: "find (\<lambda>x. tid x = next_timer a0) (timers e4) = Some ?LT"
    using fresh by (simp add: t4 find_tid_append find_tid_fresh)
  have src: "iframe_src (clearTimeout (next_timer a0) e4) \<noteq> []"
    by (simp add: clearTimeout_fields s10 cacheBusted_nonempty)
  have e: "step b5 (TimerFires (next_timer a0)) e4
             = handleSourceFailure i (clearTimeout (next_timer a0) e4)"
    using f src ff by (simp add: step_timer runCallback_LoadTimeout)
  show 1: "failed_sources (step b5 (TimerFires (next_timer a0)) e4) = failed_sources a0 @ [i]"
    by (simp add: e handleSourceFailure_history clearTimeout_fields s3)
  show "failed_sources (step b6 IframeLoad (step b5 (TimerFires (next_timer a0)) e4))
           = failed_sources a0 @ [i]"
    using 1 by (simp add: step_def onIframeLoad_fields)
qed

text \<open>
  C6, as stated, fails: the ten-second timer armed by \<open>loadSource\<close> is not re-armed or
  cleared by the retries, so a source that signals an error twice and then loads on
  the third attempt does reach \<open>handleSourceFailure\<close> when that timer fires before the
  load arrives. Here the third attempt has been started, the timer fires, and the
  frame loads afterwards; source 0 has been declared failed.
\<close>

theorem retry_success_after_load_timer_counterexample:
  "failed_sources
     (run (loadSource demo_browser 0 demo_ready)
        (map (Pair demo_browser)
           [IframeError, TimerFires 2, IframeError, TimerFires 3, TimerFires 1, IframeLoad]))
     = [0]"
proof -
  have ff: "frames_falsy demo_browser" by (simp add: frames_falsy_def demo_browser_def)
  have i: "0 < length (embedSources demo_ready)" by (simp add: demo_ready_fields)
  have fr: "\<forall>x \<in> set (timers demo_ready). tid x < next_timer demo_ready"
    by (simp add: demo_ready_fields)
  note t = retry_then_timeout(2)
             [OF i demo_ready_fields(3) fr ff, where b = demo_browser
                and ?b1.0 = demo_browser and ?b2.0 = demo_browser and ?b3.0 = demo_browser
                and ?b4.0 = demo_browser and ?b6.0 = demo_browser, unfolded demo_ready_fields]
  have two: "(1::nat) + 1 = 2" and three: "(1::nat) + 2 = 3" by simp_all
  from t [unfolded two three] show ?thesis by simp
qed

text \<open>
  C6, amended. Within one \<open>loadSource\<close> call, let the frame signal an error, the retry
  timer fire, the frame signal a second error and the second retry timer fire. Neither
  error declares the source failed: the first schedules \<open>attemptLoad\<close> of the same call
  after 1000 ms and the second after 2000 ms, each with a "Retrying" notice, and each
  retry points the frame at the same source again, with a fresh cache-busting stamp
  and the same error handler. If the frame then loads before the ten-second timer of
  the call has fired, \<open>handleSourceFailure\<close> has not been called, there is no further
  \<open>loadSource\<close> call, and the load clears that timer. If instead the third attempt
  signals an error, this third consecutive error calls \<open>handleSourceFailure\<close> for the
  source; and so does the ten-second timer when it fires before the load.
\<close>

theorem retry_twice_then_success:
  "i < length (embedSources a0) \<and> ''video-frame'' \<in> dom a0
     \<and> (\<forall>x \<in> set (timers a0). tid x < next_timer a0) \<longrightarrow>
   (let nt = next_timer a0; s = embedSources a0 ! i; cid = length (closures a0);
        a = loadSource b i a0;
        e1 = step b1 IframeError a;
        e2 = step b2 (TimerFires (nt + 1)) e1;
        e3 = step b3 IframeError e2;
        e4 = step b4 (TimerFires (nt + 2)) e3
    in failed_sources e1 = failed_sources a0
     \<and> failed_sources e3 = failed_sources a0
     \<and> timers e1 = timers a @ [\<lparr>tid = nt + 1, delay = 1000, callback = AttemptLoad cid,
                                  repeating = False\<rparr>]
     \<and> timers e3 = timers a @ [\<lparr>tid = nt + 2, delay = 2000, callback = AttemptLoad cid,
                                  repeating = False\<rparr>]
     \<and> iframe_src a = cacheBusted s b
     \<and> iframe_src e2 = cacheBusted s b2
     \<and> iframe_src e4 = cacheBusted s b4
     \<and> retrying e2 cid i 1
     \<and> retrying e4 cid i 2
     \<and> failed_sources (step b5 IframeLoad e4) = failed_sources a0
     \<and> loadAttempts (step b5 IframeLoad e4) = loadAttempts a0 @ [i]
     \<and> notices (step b5 IframeLoad e4)
          = notices a0 @ [(Retrying (src_name s) 1 2, Warning), (Retrying (src_name s) 2 2, Warning)]
     \<and> find (\<lambda>x. tid x = nt) (timers (step b5 IframeLoad e4)) = None
     \<and> failed_sources (step b5 IframeError e4) = failed_sources a0 @ [i]
     \<and> (frames_falsy b5 \<longrightarrow>
          failed_sources (step b5 (TimerFires nt) e4) = failed_sources a0 @ [i]))"
proof (intro impI)
  assume H: "i < length (embedSources a0) \<and> ''video-frame'' \<in> dom a0
     \<and> (\<forall>x \<in> set (timers a0). tid x < next_timer a0)"
  then have i: "i < length (embedSources a0)" and vf: "''video-frame'' \<in> dom a0"
    and fresh: "\<forall>x \<in> set (timers a0). tid x < next_timer a0"
    by simp_all
  define e4 where "e4 = step b4 (TimerFires (next_timer a0 + 2))
                   (step b3 IframeError
                      (step b2 (TimerFires (next_timer a0 + 1))
                         (step b1 IframeError (loadSource b i a0))))"
  note st = retries_state [OF i vf fresh, where b = b and ?b1.0 = b1 and ?b2.0 = b2
                and ?b3.0 = b3 and ?b4.0 = b4]
  note s1 = st [THEN conjunct1, folded e4_def]
  note s2 = st [THEN conjunct2, THEN conjunct1, folded e4_def]
  note s3 = st [THEN conjunct2, THEN conjunct2, THEN conjunct1, folded e4_def]
  note s4 = st [THEN conjunct2, THEN conjunct2, THEN conjunct2, THEN conjunct1, folded e4_def]
  note s5 = st [THEN conjunct2, THEN conjunct2, THEN conjunct2, THEN conjunct2, THEN conjunct1, folded e4_def]
  note s6 = st [THEN conjunct2, THEN conjunct2, THEN conjunct2, THEN conjunct2, THEN conjunct2, THEN conjunct1, folded e4_def]
  note s7 = st [THEN conjunct2, THEN conjunct2, THEN conjunct2, THEN conjunct2, THEN conjunct2, THEN conjunct2, THEN conjunct1, folded e4_def]
  note s8 = st [THEN conjunct2, THEN conjunct2, THEN conjunct2, THEN conjunct2, THEN conjunct2, THEN conjunct2, THEN conjunct2, THEN conjunct1, folded e4_def]
  note s9 = st [THEN conjunct2, THEN conjunct2, THEN conjunct2, THEN conjunct2, THEN conjunct2, THEN conjunct2, THEN conjunct2, THEN conjunct2, THEN conjunct1, folded e4_def]
  note s10 = st [THEN conjunct2, THEN conjunct2, THEN conjunct2, THEN conjunct2, THEN conjunct2, THEN conjunct2, THEN conjunct2, THEN conjunct2, THEN conjunct2, THEN conjunct1, folded e4_def]
  note s11 = st [THEN conjunct2, THEN conjunct2, THEN conjunct2, THEN conjunct2, THEN conjunct2, THEN conjunct2, THEN conjunct2, THEN conjunct2, THEN conjunct2, THEN conjunct2, THEN conjunct1, folded e4_def]
  note s12 = st [THEN conjunct2, THEN conjunct2, THEN conjunct2, THEN conjunct2, THEN conjunct2, THEN conjunct2, THEN conjunct2, THEN conjunct2, THEN conjunct2, THEN conjunct2, THEN conjunct2, THEN conjunct1, folded e4_def]
  note s13 = st [THEN conjunct2, THEN conjunct2, THEN conjunct2, THEN conjunct2, THEN conjunct2, THEN conjunct2, THEN conjunct2, THEN conjunct2, THEN conjunct2, THEN conjunct2, THEN conjunct2, THEN conjunct2, THEN conjunct1, folded e4_def]
  note s14 = st [THEN conjunct2, THEN conjunct2, THEN conjunct2, THEN conjunct2, THEN conjunct2, THEN conjunct2, THEN conjunct2, THEN conjunct2, THEN conjunct2, THEN conjunct2, THEN conjunct2, THEN conjunct2, THEN conjunct2, THEN conjunct1, folded e4_def]
  note s15 = st [THEN conjunct2, THEN conjunct2, THEN conjunct2, THEN conjunct2, THEN conjunct2, THEN conjunct2, THEN conjunct2, THEN conjunct2, THEN conjunct2, THEN conjunct2, THEN conjunct2, THEN conjunct2, THEN conjunct2, THEN conjunct2, THEN conjunct1, folded e4_def]
  note s16 = st [THEN conjunct2, THEN conjunct2, THEN conjunct2, THEN conjunct2, THEN conjunct2, THEN conjunct2, THEN conjunct2, THEN conjunct2, THEN conjunct2, THEN conjunct2, THEN conjunct2, THEN conjunct2, THEN conjunct2, THEN conjunct2, THEN conjunct2, folded e4_def]
  have L: "step b5 IframeLoad e4 = onIframeLoad e4" by (simp add: step_def)
  have E: "step b5 IframeError e4 = onIframeError e4" by (simp add: step_def)
  have c5: "failed_sources (step b5 IframeLoad e4) = failed_sources a0"
    by (simp add: L onIframeLoad_fields s3)
  have c6: "loadAttempts (step b5 IframeLoad e4) = loadAttempts a0 @ [i]"
    using s14 by (simp add: L loadAttempts_def onIframeLoad_fields)
  have c7: "notices (step b5 IframeLoad e4)
          = notices a0 @ [(Retrying (src_name (embedSources a0 ! i)) 1 2, Warning),
                          (Retrying (src_name (embedSources a0 ! i)) 2 2, Warning)]"
    by (simp add: L onIframeLoad_fields s15)
  have c8: "find (\<lambda>x. tid x = next_timer a0) (timers (step b5 IframeLoad e4)) = None"
    by (auto simp: L onIframeLoad_fields s13 find_None_iff)
  have c9: "failed_sources (step b5 IframeError e4) = failed_sources a0 @ [i]"
    using onIframeError_exhausted [OF s12] by (simp add: E s3)
  have c10: "frames_falsy b5 \<longrightarrow>
          failed_sources (step b5 (TimerFires (next_timer a0)) e4) = failed_sources a0 @ [i]"
    using retry_then_timeout(1) [OF i vf fresh, where ?b5.0 = b5 and ?b4.0 = b4
            and ?b3.0 = b3 and ?b2.0 = b2 and ?b1.0 = b1 and b = b]
    by (simp add: e4_def)
  from s1 s2 s5 s6 s8 s9 s10 s11 s12 c5 c6 c7 c8 c9 c10
  show "let nt = next_timer a0; s = embedSources a0 ! i; cid = length (closures a0);
        a = loadSource b i a0;
        e1 = step b1 IframeError a;
        e2 = step b2 (TimerFires (nt + 1)) e1;
        e3 = step b3 IframeError e2;
        e4 = step b4 (TimerFires (nt + 2)) e3
    in failed_sources e1 = failed_sources a0
     \<and> failed_sources e3 = failed_sources a0
     \<and> timers e1 = timers a @ [\<lparr>tid = nt + 1, delay = 1000, callback = AttemptLoad cid,
                                  repeating = False\<rparr>]
     \<and> timers e3 = timers a @ [\<lparr>tid = nt + 2, delay = 2000, callback = AttemptLoad cid,
                                  repeating = False\<rparr>]
     \<and> iframe_src a = cacheBusted s b
     \<and> iframe_src e2 = cacheBusted s b2
     \<and> iframe_src e4 = cacheBusted s b4
     \<and> retrying e2 cid i 1
     \<and> retrying e4 cid i 2
     \<and> failed_sources (step b5 IframeLoad e4) = failed_sources a0
     \<and> loadAttempts (step b5 IframeLoad e4) = loadAttempts a0 @ [i]
     \<and> notices (step b5 IframeLoad e4)
          = notices a0 @ [(Retrying (src_name s) 1 2, Warning), (Retrying (src_name s) 2 2, Warning)]
     \<and> find (\<lambda>x. tid x = nt) (timers (step b5 IframeLoad e4)) = None
     \<and> failed_sources (step b5 IframeError e4) = failed_sources a0 @ [i]
     \<and> (frames_falsy b5 \<longrightarrow>
          failed_sources (step b5 (TimerFires nt) e4) = failed_sources a0 @ [i])"
    unfolding Let_def e4_def by (intro conjI)
qed

lemma frames_falsy_demo: "frames_falsy (demo_browser_at t)"
  by (simp add: frames_falsy_def demo_browser_at_def demo_browser_def)

theorem retry_twice_then_success_witness:
  "failed_sources (run (loadSource (demo_browser_at ''1748779200000'') 0 demo_ready)
      [(demo_browser_at ''1748779200500'', IframeError),
       (demo_browser_at ''1748779201500'', TimerFires 2),
       (demo_browser_at ''1748779202000'', IframeError),
       (demo_browser_at ''1748779204000'', TimerFires 3),
       (demo_browser_at ''1748779204500'', IframeLoad)]) = []
 \<and> loadAttempts (run (loadSource (demo_browser_at ''1748779200000'') 0 demo_ready)
      [(demo_browser_at ''1748779200500'', IframeError),
       (demo_browser_at ''1748779201500'', TimerFires 2),
       (demo_browser_at ''1748779202000'', IframeError),
       (demo_browser_at ''1748779204000'', TimerFires 3),
       (demo_browser_at ''1748779204500'', IframeLoad)]) = [0]
 \<and> notices (run (loadSource (demo_browser_at ''1748779200000'') 0 demo_ready)
      [(demo_browser_at ''1748779200500'', IframeError),
       (demo_browser_at ''1748779201500'', TimerFires 2),
       (demo_browser_at ''1748779202000'', IframeError),
       (demo_browser_at ''1748779204000'', TimerFires 3),
       (demo_browser_at ''1748779204500'', IframeLoad)])
      = [(Retrying ''Source 1'' 1 2, Warning), (Retrying ''Source 1'' 2 2, Warning)]
 \<and> find (\<lambda>x. tid x = 1) (timers (run (loadSource (demo_browser_at ''1748779200000'') 0 demo_ready)
      [(demo_browser_at ''1748779200500'', IframeError),
       (demo_browser_at ''1748779201500'', TimerFires 2),
       (demo_browser_at ''1748779202000'', IframeError),
       (demo_browser_at ''1748779204000'', TimerFires 3),
       (demo_browser_at ''1748779204500'', IframeLoad)])) = None
 \<and> iframe_src (run (loadSource (demo_browser_at ''1748779200000'') 0 demo_ready)
      [(demo_browser_at ''1748779200500'', IframeError),
       (demo_browser_at ''1748779201500'', TimerFires 2)])
      = ''https://111movies.com/movie/603?t=1748779201500''
 \<and> iframe_src (run (loadSource (demo_browser_at ''1748779200000'') 0 demo_ready)
      [(demo_browser_at ''1748779200500'', IframeError),
       (demo_browser_at ''1748779201500'', TimerFires 2),
       (demo_browser_at ''1748779202000'', IframeError),
       (demo_browser_at ''1748779204000'', TimerFires 3)])
      = ''https://111movies.com/movie/603?t=1748779204000''
 \<and> failed_sources (run (loadSource (demo_browser_at ''1748779200000'') 0 demo_ready)
      [(demo_browser_at ''1748779200500'', IframeError),
       (demo_browser_at ''1748779201500'', TimerFires 2),
       (demo_browser_at ''1748779202000'', IframeError),
       (demo_browser_at ''1748779204000'', TimerFires 3),
       (demo_browser_at ''1748779204500'', IframeError)]) = [0]
 \<and> failed_sources (run (loadSource (demo_browser_at ''1748779200000'') 0 demo_ready)
      [(demo_browser_at ''1748779200500'', IframeError),
       (demo_browser_at ''1748779201500'', TimerFires 2),
       (demo_browser_at ''1748779202000'', IframeError),
       (demo_browser_at ''1748779204000'', TimerFires 3),
       (demo_browser_at ''1748779204500'', TimerFires 1)]) = [0]"
proof -
  have h: "0 < length (embedSources demo_ready) \<and> ''video-frame'' \<in> dom demo_ready
     \<and> (\<forall>x \<in> set (timers demo_ready). tid x < next_timer demo_ready)"
    by (simp add: demo_ready_fields)
  note t = retry_twice_then_success
             [where ?a0.0 = demo_ready and i = 0
                and b = "demo_browser_at ''1748779200000''"
                and ?b1.0 = "demo_browser_at ''1748779200500''"
                and ?b2.0 = "demo_browser_at ''1748779201500''"
                and ?b3.0 = "demo_browser_at ''1748779202000''"
                and ?b4.0 = "demo_browser_at ''1748779204000''"
                and ?b5.0 = "demo_browser_at ''1748779204500''",
              THEN mp, OF h, unfolded Let_def demo_ready_fields]
  have two: "(1::nat) + 1 = 2" and three: "(1::nat) + 2 = 3" by simp_all
  note t' = t [unfolded two three demo_address]
  from t' show ?thesis by (simp add: frames_falsy_demo)
qed

end
